theory Spec2Isabelle
  imports Complex_Main "HOL-Library.AList"
begin

section \<open>Common data model\<close>

text \<open>
  Go errors are values. An error built with \<^verbatim>\<open>fmt.Errorf\<close> (or handed back by a
  collaborator) is \<open>Error msg\<close>; the package-level sentinel
  \<^verbatim>\<open>errIsolationSafetyCheckFailed\<close>, which the advisor compares by identity, is a
  constructor of its own; an index out of range is \<open>Panic\<close>.
\<close>

datatype error = Error string | ErrIsolationSafetyCheckFailed | Panic string

text \<open>
  Go's \<^verbatim>\<open>int\<close> and \<^verbatim>\<open>int64\<close> are modelled as unbounded integers: the integer
  arithmetic of the modelled code is on CPU counts. The conversion \<^verbatim>\<open>int(x)\<close> or
  \<^verbatim>\<open>int64(x)\<close> of a finite float truncates towards zero when the result fits into
  64 bits. For a value that does not fit Go leaves the result to the implementation; on
  amd64 the conversion instruction returns the smallest 64-bit integer, and this is what
  \<open>go_int\<close> returns. In the CPU advisor the \<^verbatim>\<open>float64\<close> values (CPU requests, limits
  and control-knob values) are carried as reals; the memory headroom policy computes with
  \<^verbatim>\<open>float64\<close> arithmetic, which is modelled with its rounding below.
\<close>

definition go_int :: "real \<Rightarrow> int" where
  "go_int x =
     (let t = (if 0 \<le> x then \<lfloor>x\<rfloor> else \<lceil>x\<rceil>)
      in if - (2 ^ 63) \<le> t \<and> t < 2 ^ 63 then t else - (2 ^ 63))"

subsection \<open>Go's float64\<close>

text \<open>
  A \<^verbatim>\<open>float64\<close> is a finite number, one of the two infinities, or NaN. A finite
  value is carried as the real number it denotes; the two zeros are identified, which the
  modelled code cannot tell apart (it divides only by positive constants, by converted
  integers and by a value it has tested to be positive, and comparisons, \<^verbatim>\<open>math.Max\<close>
  with the constant 0 and the conversion to an integer treat both zeros alike).
\<close>

datatype float64 = Fin real | PInf | NInf | NaN

text \<open>
  Every arithmetic operation rounds its exact result to the nearest \<^verbatim>\<open>float64\<close>, ties
  to the even significand (IEEE 754 binary64: 53 significant bits, exponents from -1022 to
  1023, gradual underflow), once per operation: the multiplication and the addition of
  \<^verbatim>\<open>free + inactiveFile*ratio\<close> are rounded separately, as on amd64, where Go does
  not fuse them. \<open>roundTiesToEven\<close> rounds a real to the nearest integer;
  \<open>exponent64 x\<close> is the exponent of the binade of a positive \<open>x\<close>, and -1022 below the
  normal range; \<open>round64\<close> rounds a real to the grid of that binade, and
  \<open>float64_of_real\<close> turns a rounded result of magnitude \<open>2 ^ 1024\<close> or more into an
  infinity.
\<close>

definition roundTiesToEven :: "real \<Rightarrow> int" where
  "roundTiesToEven r =
     (let f = \<lfloor>r\<rfloor> in
      if r - of_int f < 1 / 2 then f
      else if 1 / 2 < r - of_int f then f + 1
      else if even f then f else f + 1)"

function exponent64 :: "real \<Rightarrow> int" where
  "exponent64 x =
     (if 2 \<le> x then exponent64 (x / 2) + 1
      else if 1 \<le> x then 0
      else if 1 / 2 ^ 1022 \<le> x then exponent64 (2 * x) - 1
      else - 1022)"
  by pat_completeness auto

lemma ceiling_half_less: "2 \<le> (y::real) \<Longrightarrow> \<lceil>y / 2\<rceil> < \<lceil>y\<rceil>"
proof -
  assume y: "2 \<le> y"
  have "of_int \<lceil>y / 2\<rceil> < y / 2 + 1" by linarith
  also have "\<dots> \<le> y" using y by simp
  also have "\<dots> \<le> of_int \<lceil>y\<rceil>" by linarith
  finally show ?thesis by simp
qed

termination exponent64
proof (relation "measure (\<lambda>x. if 1 \<le> x then nat \<lceil>x\<rceil> else nat \<lceil>1 / x\<rceil> + 2)")
  show "wf (measure (\<lambda>x::real. if 1 \<le> x then nat \<lceil>x\<rceil> else nat \<lceil>1 / x\<rceil> + 2))" by simp
next
  fix x :: real
  assume x: "2 \<le> x"
  from ceiling_half_less [OF x] x
  show "(x / 2, x) \<in> measure (\<lambda>x. if 1 \<le> x then nat \<lceil>x\<rceil> else nat \<lceil>1 / x\<rceil> + 2)"
    by (simp add: nat_less_iff)
next
  fix x :: real
  assume a: "\<not> 2 \<le> x" "\<not> 1 \<le> x" "1 / 2 ^ 1022 \<le> x"
  have "0 < 1 / (2::real) ^ 1022" by simp
  with a have pos: "0 < x" by linarith
  show "(2 * x, x) \<in> measure (\<lambda>x. if 1 \<le> x then nat \<lceil>x\<rceil> else nat \<lceil>1 / x\<rceil> + 2)"
  proof (cases "1 \<le> 2 * x")
    case True
    from a have "\<lceil>2 * x\<rceil> \<le> 2" by (simp add: ceiling_le_iff)
    then have "nat \<lceil>2 * x\<rceil> \<le> 2" by simp
    moreover from a pos have "0 < nat \<lceil>1 / x\<rceil>" by simp
    ultimately have "nat \<lceil>2 * x\<rceil> < nat \<lceil>1 / x\<rceil> + 2" by linarith
    then show ?thesis using True a by simp
  next
    case False
    with pos have "2 \<le> 1 / x" by (simp add: field_simps)
    from ceiling_half_less [OF this] have "\<lceil>1 / (2 * x)\<rceil> < \<lceil>1 / x\<rceil>" by (simp add: field_simps)
    then show ?thesis using False a by simp
  qed
qed

declare exponent64.simps [simp del]

definition round64_pos :: "real \<Rightarrow> real" where
  "round64_pos x =
     (let u = 2 powi (exponent64 x - 52) in of_int (roundTiesToEven (x / u)) * u)"

definition round64 :: "real \<Rightarrow> real" where
  "round64 x = (if x < 0 then - round64_pos (- x) else round64_pos x)"

definition float64_of_real :: "real \<Rightarrow> float64" where
  "float64_of_real x =
     (let r = round64 x in
      if 2 ^ 1024 \<le> r then PInf else if r \<le> - (2 ^ 1024) then NInf else Fin r)"

definition float64_of_int :: "int \<Rightarrow> float64" where
  "float64_of_int n = float64_of_real (of_int n)"

text \<open>
  The operators \<^verbatim>\<open>-x\<close>, \<^verbatim>\<open>+\<close>, \<^verbatim>\<open>-\<close>, \<^verbatim>\<open>*\<close> and \<^verbatim>\<open>/\<close> on
  \<^verbatim>\<open>float64\<close>. A zero divisor is the positive zero in the modelled code.
\<close>

fun fneg :: "float64 \<Rightarrow> float64" where
  "fneg (Fin x) = Fin (- x)"
| "fneg PInf = NInf"
| "fneg NInf = PInf"
| "fneg NaN = NaN"

fun fadd :: "float64 \<Rightarrow> float64 \<Rightarrow> float64" where
  "fadd (Fin x) (Fin y) = float64_of_real (x + y)"
| "fadd NaN b = NaN"
| "fadd a NaN = NaN"
| "fadd PInf NInf = NaN"
| "fadd NInf PInf = NaN"
| "fadd PInf b = PInf"
| "fadd a PInf = PInf"
| "fadd NInf b = NInf"
| "fadd a NInf = NInf"

definition fsub :: "float64 \<Rightarrow> float64 \<Rightarrow> float64" where
  "fsub a b = fadd a (fneg b)"

fun fmul :: "float64 \<Rightarrow> float64 \<Rightarrow> float64" where
  "fmul (Fin x) (Fin y) = float64_of_real (x * y)"
| "fmul NaN b = NaN"
| "fmul a NaN = NaN"
| "fmul PInf (Fin y) = (if y = 0 then NaN else if 0 < y then PInf else NInf)"
| "fmul NInf (Fin y) = (if y = 0 then NaN else if 0 < y then NInf else PInf)"
| "fmul (Fin x) PInf = (if x = 0 then NaN else if 0 < x then PInf else NInf)"
| "fmul (Fin x) NInf = (if x = 0 then NaN else if 0 < x then NInf else PInf)"
| "fmul PInf PInf = PInf"
| "fmul PInf NInf = NInf"
| "fmul NInf PInf = NInf"
| "fmul NInf NInf = PInf"

fun fdiv :: "float64 \<Rightarrow> float64 \<Rightarrow> float64" where
  "fdiv (Fin x) (Fin y) =
     (if y = 0 then (if x = 0 then NaN else if 0 < x then PInf else NInf)
      else float64_of_real (x / y))"
| "fdiv NaN b = NaN"
| "fdiv a NaN = NaN"
| "fdiv (Fin x) PInf = Fin 0"
| "fdiv (Fin x) NInf = Fin 0"
| "fdiv PInf (Fin y) = (if 0 \<le> y then PInf else NInf)"
| "fdiv NInf (Fin y) = (if 0 \<le> y then NInf else PInf)"
| "fdiv PInf PInf = NaN"
| "fdiv PInf NInf = NaN"
| "fdiv NInf PInf = NaN"
| "fdiv NInf NInf = NaN"

text \<open>The comparisons \<^verbatim>\<open><\<close> and \<^verbatim>\<open><=\<close>: false whenever an operand is NaN.\<close>

fun flt :: "float64 \<Rightarrow> float64 \<Rightarrow> bool" where
  "flt (Fin x) (Fin y) = (x < y)"
| "flt NaN b = False"
| "flt a NaN = False"
| "flt a NInf = False"
| "flt PInf b = False"
| "flt NInf b = True"
| "flt a PInf = True"

fun fle :: "float64 \<Rightarrow> float64 \<Rightarrow> bool" where
  "fle (Fin x) (Fin y) = (x \<le> y)"
| "fle NaN b = False"
| "fle a NaN = False"
| "fle NInf b = True"
| "fle a PInf = True"
| "fle a NInf = False"
| "fle PInf b = False"

text \<open>
  \<^verbatim>\<open>math.Max\<close> of the Go standard library: positive infinity wins, then NaN, then the
  larger operand.
\<close>

fun math_Max :: "float64 \<Rightarrow> float64 \<Rightarrow> float64" where
  "math_Max PInf b = PInf"
| "math_Max a PInf = PInf"
| "math_Max NaN b = NaN"
| "math_Max a NaN = NaN"
| "math_Max (Fin x) (Fin y) = Fin (max x y)"
| "math_Max NInf b = b"
| "math_Max a NInf = a"

text \<open>
  The conversion \<^verbatim>\<open>int64(x)\<close>; for NaN and the infinities the amd64 instruction
  returns the smallest 64-bit integer as well.
\<close>

fun go_int64 :: "float64 \<Rightarrow> int" where
  "go_int64 (Fin x) = go_int x"
| "go_int64 a = - (2 ^ 63)"

text \<open>A loop \<^verbatim>\<open>s += x\<close> over a list: the additions are done from left to right.\<close>

definition fsum :: "float64 \<Rightarrow> float64 list \<Rightarrow> float64" where
  "fsum start xs = foldl fadd start xs"

text \<open>
  \<open>isFloat64\<close> holds of the values a \<^verbatim>\<open>float64\<close> variable can hold: a finite value
  is one that rounding leaves unchanged. \<open>below a b\<close> is the order of the extended reals
  on values that are not NaN, weakened so that it holds whenever \<open>b\<close> is NaN or positive
  infinity: sums that have reached one of these two never leave them.
\<close>

fun isFloat64 :: "float64 \<Rightarrow> bool" where
  "isFloat64 (Fin x) = (round64 x = x \<and> \<bar>x\<bar> < 2 ^ 1024)"
| "isFloat64 a = True"

definition below :: "float64 \<Rightarrow> float64 \<Rightarrow> bool" where
  "below a b = (b = NaN \<or> b = PInf \<or> fle a b)"

text \<open>The equations that evaluate the arithmetic on numerals.\<close>

lemmas float64_eval =
  float64_of_real_def float64_of_int_def round64_def round64_pos_def roundTiesToEven_def
  exponent64.simps fsub_def go_int_def Let_def

datatype QoSLevel = SharedCores | DedicatedCores | ReclaimedCores | SystemCores

text \<open>
  \<^verbatim>\<open>types.ContainerInfo\<close>, with the fields the modelled code reads.
  \<open>TopologyAwareAssignments\<close> holds the keys (NUMA ids) of the Go map;
  \<open>IsNumaBinding\<close> is the result of the method of that name.
\<close>

record ContainerInfo =
  PodUID :: string
  ContainerName :: string
  QoSLevel :: QoSLevel
  OwnerPoolName :: string
  OriginOwnerPoolName :: string
  TopologyAwareAssignments :: "int list"
  CPURequest :: real
  CPULimit :: real
  MemoryRequest :: float64
  Isolated :: bool
  RampUp :: bool
  IsNumaBinding :: bool

section \<open>Properties of float64 arithmetic\<close>

text \<open>
  Some values of the model: the nearest \<^verbatim>\<open>float64\<close> of 1/10 and of 1/3, a tie that
  goes to the even significand, the smallest real that overflows, a tie in the subnormal
  range, and conversions to \<^verbatim>\<open>int64\<close> in and out of range.
\<close>

lemma float64_examples:
  "float64_of_real (1 / 10) = Fin (3602879701896397 / 2 ^ 55)"
  "fdiv (Fin 1) (Fin 3) = Fin (6004799503160661 / 2 ^ 54)"
  "float64_of_real (1 + 1 / 2 ^ 53) = Fin 1"
  "float64_of_real (1 + 3 / 2 ^ 53) = Fin (1 + 1 / 2 ^ 51)"
  "float64_of_real (2 ^ 1024 - 2 ^ 970) = PInf"
  "float64_of_real (2 ^ 1024 - 2 ^ 970 - 1) = Fin (2 ^ 1024 - 2 ^ 971)"
  "float64_of_real (1 / 2 ^ 1075) = Fin 0"
  "float64_of_real (3 / 2 ^ 1075) = Fin (1 / 2 ^ 1073)"
  by (simp_all add: float64_eval)

lemma go_int64_examples:
  "go_int64 (Fin (- 7 / 2)) = - 3"
  "go_int64 (Fin (2 ^ 63 - 1024)) = 2 ^ 63 - 1024"
  "go_int64 (Fin (2 ^ 63)) = - (2 ^ 63)"
  "go_int64 (Fin (12 * 10 ^ 18)) = - (2 ^ 63)"
  "go_int64 PInf = - (2 ^ 63)"
  "go_int64 NaN = - (2 ^ 63)"
  by (simp_all add: float64_eval)

text \<open>
  Rounding is monotone: first on the integers, then within one binade and across binades,
  then for both signs and with overflow to the infinities.
\<close>

lemma roundTiesToEven_of_int: "roundTiesToEven (of_int n) = n"
  by (simp add: roundTiesToEven_def)

lemma roundTiesToEven_bounds:
  "\<lfloor>r\<rfloor> \<le> roundTiesToEven r" "roundTiesToEven r \<le> \<lfloor>r\<rfloor> + 1"
  by (simp_all add: roundTiesToEven_def Let_def)

lemma roundTiesToEven_mono:
  assumes "r \<le> s"
  shows "roundTiesToEven r \<le> roundTiesToEven s"
proof (cases "\<lfloor>r\<rfloor> = \<lfloor>s\<rfloor>")
  case True
  with assms show ?thesis
    by (auto simp: roundTiesToEven_def Let_def)
next
  case False
  with assms have "\<lfloor>r\<rfloor> + 1 \<le> \<lfloor>s\<rfloor>" using floor_mono [OF assms] by linarith
  with roundTiesToEven_bounds(2) [of r] roundTiesToEven_bounds(1) [of s]
  show ?thesis by linarith
qed

lemma pow2_step: "2 powi (e + 1) = 2 * (2 powi e :: real)"
  by (simp add: power_int_add)

lemma exponent64_spec:
  "- 1022 \<le> exponent64 x \<and>
   (0 < x \<longrightarrow> x < 2 powi (exponent64 x + 1)) \<and>
   (1 / 2 ^ 1022 \<le> x \<longrightarrow> 2 powi (exponent64 x) \<le> x)"
proof (induction x rule: exponent64.induct)
  case (1 x)
  consider "2 \<le> x" | "1 \<le> x" "x < 2" | "x < 1" "1 / 2 ^ 1022 \<le> x" | "x < 1 / 2 ^ 1022"
    by linarith
  then show ?case
  proof cases
    case 1
    note c = this
    have small: "1 / 2 ^ 1022 \<le> (1::real)" by simp
    from c have e: "exponent64 x = exponent64 (x / 2) + 1" by (subst exponent64.simps) simp
    from "1.IH"(1) [OF c] c small
    have ih: "- 1022 \<le> exponent64 (x / 2)" "x / 2 < 2 powi (exponent64 (x / 2) + 1)"
      "2 powi (exponent64 (x / 2)) \<le> x / 2"
      by auto
    define e' where "e' = exponent64 (x / 2)"
    have p1: "2 powi (e' + 1) = 2 * (2 powi e' :: real)" by (rule pow2_step)
    have p2: "2 powi (e' + 1 + 1) = 2 * (2 powi (e' + 1) :: real)" by (rule pow2_step)
    note ih' = ih [folded e'_def]
    show ?thesis unfolding e e'_def [symmetric]
    proof (intro conjI impI)
      show "- 1022 \<le> e' + 1" using ih'(1) by linarith
      show "x < 2 powi (e' + 1 + 1)" unfolding p2 using ih'(2) by linarith
      show "2 powi (e' + 1) \<le> x" unfolding p1 using ih'(3) by linarith
    qed
  next
    case 2
    then have e: "exponent64 x = 0" by (subst exponent64.simps) simp
    show ?thesis unfolding e using 2 by simp
  next
    case 3
    note c = this
    from c have e: "exponent64 x = exponent64 (2 * x) - 1" by (subst exponent64.simps) simp
    have "0 < 1 / (2::real) ^ 1022" by simp
    with c(2) have pos: "0 < x" by linarith
    from c have n2: "\<not> 2 \<le> x" "\<not> 1 \<le> x" by simp_all
    from c(2) have big: "1 / 2 ^ 1022 \<le> 2 * x" using pos by linarith
    from "1.IH"(2) [OF n2 c(2)] pos big
    have ih: "2 * x < 2 powi (exponent64 (2 * x) + 1)" "2 powi (exponent64 (2 * x)) \<le> 2 * x"
      by auto
    have "(2::real) powi (- 1021) \<le> 2 * x" using c(2) by (simp add: power_int_minus_divide)
    with ih(1) have "(2::real) powi (- 1021) < 2 powi (exponent64 (2 * x) + 1)" by linarith
    have "- 1021 < exponent64 (2 * x) + 1"
    proof (rule ccontr)
      assume "\<not> - 1021 < exponent64 (2 * x) + 1"
      then have "exponent64 (2 * x) + 1 \<le> - 1021" by simp
      from power_int_increasing [OF this, of "2::real"]
      have "(2::real) powi (exponent64 (2 * x) + 1) \<le> 2 powi (- 1021)" by simp
      with \<open>(2::real) powi (- 1021) < 2 powi (exponent64 (2 * x) + 1)\<close> show False by linarith
    qed
    then have lo: "- 1022 \<le> exponent64 (2 * x) - 1" by linarith
    have s: "2 powi (exponent64 (2 * x)) = 2 * (2 powi (exponent64 (2 * x) - 1) :: real)"
      using pow2_step [of "exponent64 (2 * x) - 1"] by simp
    define e' where "e' = exponent64 (2 * x)"
    have p1: "2 powi (e' - 1 + 1) = 2 * (2 powi (e' - 1) :: real)" by (rule pow2_step)
    note ih' = ih [folded e'_def] and lo' = lo [folded e'_def] and s' = s [folded e'_def]
    show ?thesis unfolding e e'_def [symmetric]
    proof (intro conjI impI)
      show "- 1022 \<le> e' - 1" by (rule lo')
      show "x < 2 powi (e' - 1 + 1)" using ih'(1) unfolding p1 s' [symmetric] 
        using pow2_step [of e'] by linarith
      show "2 powi (e' - 1) \<le> x" using ih'(2) unfolding s' by linarith
    qed
  next
    case 4
    then have e: "exponent64 x = - 1022" by (subst exponent64.simps) simp
    have "(1::real) / 2 ^ 1022 < 2 powi (- 1021)" by (simp add: power_int_minus_divide)
    with 4 show ?thesis unfolding e by simp
  qed
qed


lemma exponent64_small: "x < 1 / 2 ^ 1022 \<Longrightarrow> exponent64 x = - 1022"
  by (subst exponent64.simps) simp

lemma exponent64_mono:
  assumes "x \<le> y"
  shows "exponent64 x \<le> exponent64 y"
proof (rule ccontr)
  assume "\<not> exponent64 x \<le> exponent64 y"
  then have lt: "exponent64 y + 1 \<le> exponent64 x" by simp
  have lo: "- 1022 \<le> exponent64 y" using exponent64_spec [of y] by simp
  have x: "1 / 2 ^ 1022 \<le> x"
  proof (rule ccontr)
    assume "\<not> 1 / 2 ^ 1022 \<le> x"
    then have "exponent64 x = - 1022" by (simp add: exponent64_small)
    with lt lo show False by linarith
  qed
  have "0 < 1 / (2::real) ^ 1022" by simp
  with x assms have y: "0 < y" by linarith
  from exponent64_spec [of x] x have "2 powi (exponent64 x) \<le> x" by simp
  moreover from exponent64_spec [of y] y have "y < 2 powi (exponent64 y + 1)" by simp
  moreover from power_int_increasing [OF lt, of "2::real"]
  have "(2::real) powi (exponent64 y + 1) \<le> 2 powi (exponent64 x)" by simp
  ultimately show False using assms by linarith
qed

lemma pow2_split: "(2::real) powi (e + 1) = 2 ^ 53 * 2 powi (e - 52)"
proof -
  have "(2::real) powi (53 + (e - 52)) = 2 powi 53 * 2 powi (e - 52)"
    by (rule power_int_add) simp
  then show ?thesis by (simp add: algebra_simps)
qed

lemma pow2_split': "(2::real) powi e = 2 ^ 52 * 2 powi (e - 52)"
proof -
  have "(2::real) powi (52 + (e - 52)) = 2 powi 52 * 2 powi (e - 52)"
    by (rule power_int_add) simp
  then show ?thesis by (simp add: algebra_simps)
qed

lemma round64_pos_nonneg:
  assumes "0 \<le> x"
  shows "0 \<le> round64_pos x"
proof -
  let ?u = "(2::real) powi (exponent64 x - 52)"
  have "0 \<le> x / ?u" using assms by simp
  then have "0 \<le> \<lfloor>x / ?u\<rfloor>" by simp
  with roundTiesToEven_bounds(1) [of "x / ?u"] have "0 \<le> roundTiesToEven (x / ?u)" by linarith
  then show ?thesis by (simp add: round64_pos_def Let_def)
qed

lemma round64_pos_upper:
  assumes "0 \<le> x"
  shows "round64_pos x \<le> 2 powi (exponent64 x + 1)"
proof -
  let ?u = "(2::real) powi (exponent64 x - 52)"
  have u: "0 < ?u" by simp
  have "x \<le> 2 powi (exponent64 x + 1)"
  proof (cases "0 < x")
    case True
    with exponent64_spec [of x] show ?thesis by simp
  next
    case False
    with assms have "x = 0" by simp
    then show ?thesis by simp
  qed
  then have "x \<le> 2 ^ 53 * ?u" by (simp only: pow2_split)
  then have "x / ?u \<le> of_int (2 ^ 53)" using u by (simp add: field_simps)
  from roundTiesToEven_mono [OF this]
  have "roundTiesToEven (x / ?u) \<le> 2 ^ 53" by (simp only: roundTiesToEven_of_int)
  then have "real_of_int (roundTiesToEven (x / ?u)) \<le> 2 ^ 53"
    by (metis of_int_le_iff of_int_numeral of_int_power)
  then have "real_of_int (roundTiesToEven (x / ?u)) * ?u \<le> 2 ^ 53 * ?u"
    using u by (simp only: mult_le_cancel_right_pos)
  then show ?thesis by (simp only: round64_pos_def Let_def pow2_split)
qed

lemma round64_pos_lower:
  assumes "1 / 2 ^ 1022 \<le> x"
  shows "2 powi (exponent64 x) \<le> round64_pos x"
proof -
  let ?u = "(2::real) powi (exponent64 x - 52)"
  have u: "0 < ?u" by simp
  from exponent64_spec [of x] assms have "2 powi (exponent64 x) \<le> x" by simp
  then have "2 ^ 52 * ?u \<le> x" by (simp only: pow2_split' [symmetric])
  then have "of_int (2 ^ 52) \<le> x / ?u" using u by (simp add: field_simps)
  from roundTiesToEven_mono [OF this]
  have "2 ^ 52 \<le> roundTiesToEven (x / ?u)" by (simp only: roundTiesToEven_of_int)
  then have "2 ^ 52 \<le> real_of_int (roundTiesToEven (x / ?u))"
    by (metis of_int_le_iff of_int_numeral of_int_power)
  then have "2 ^ 52 * ?u \<le> real_of_int (roundTiesToEven (x / ?u)) * ?u"
    using u by (simp only: mult_le_cancel_right_pos)
  then show ?thesis by (simp only: round64_pos_def Let_def pow2_split' [symmetric])
qed

lemma round64_pos_mono:
  assumes x: "0 \<le> x" and xy: "x \<le> y"
  shows "round64_pos x \<le> round64_pos y"
proof (cases "exponent64 x = exponent64 y")
  case True
  let ?u = "(2::real) powi (exponent64 y - 52)"
  have u: "0 < ?u" by simp
  from xy u have "x / ?u \<le> y / ?u" by (simp add: divide_right_mono)
  from roundTiesToEven_mono [OF this]
  have "real_of_int (roundTiesToEven (x / ?u)) \<le> real_of_int (roundTiesToEven (y / ?u))" by simp
  then have "real_of_int (roundTiesToEven (x / ?u)) * ?u \<le> real_of_int (roundTiesToEven (y / ?u)) * ?u"
    using u by (simp only: mult_le_cancel_right_pos)
  then show ?thesis by (simp add: round64_pos_def Let_def True)
next
  case False
  with exponent64_mono [OF xy] have lt: "exponent64 x + 1 \<le> exponent64 y" by simp
  have lo: "- 1022 \<le> exponent64 x" using exponent64_spec [of x] by simp
  have y: "1 / 2 ^ 1022 \<le> y"
  proof (rule ccontr)
    assume "\<not> 1 / 2 ^ 1022 \<le> y"
    then have "exponent64 y = - 1022" by (simp add: exponent64_small)
    with lt lo show False by linarith
  qed
  from power_int_increasing [OF lt, of "2::real"]
  have "(2::real) powi (exponent64 x + 1) \<le> 2 powi (exponent64 y)" by simp
  with round64_pos_upper [OF x] round64_pos_lower [OF y] show ?thesis by linarith
qed

lemma round64_mono:
  assumes "x \<le> y"
  shows "round64 x \<le> round64 y"
proof -
  consider "y < 0" | "x < 0" "0 \<le> y" | "0 \<le> x" by linarith
  then show ?thesis
  proof cases
    case 1
    with assms have "0 \<le> - y" "- y \<le> - x" "x < 0" by simp_all
    from round64_pos_mono [OF this(1,2)] 1 this(3) show ?thesis by (simp add: round64_def)
  next
    case 2
    then have "0 \<le> - x" by simp
    from round64_pos_nonneg [OF this] round64_pos_nonneg [OF 2(2)] 2 show ?thesis
      by (simp add: round64_def)
  next
    case 3
    with assms have "0 \<le> y" by simp
    with round64_pos_mono [OF 3 assms] 3 show ?thesis by (simp add: round64_def)
  qed
qed

lemma round64_nonneg: "0 \<le> x \<Longrightarrow> 0 \<le> round64 x"
  by (simp add: round64_def round64_pos_nonneg)

lemma float64_of_real_not_NaN: "float64_of_real x \<noteq> NaN"
  by (simp add: float64_of_real_def Let_def)

lemma float64_of_real_mono:
  "x \<le> y \<Longrightarrow> fle (float64_of_real x) (float64_of_real y)"
  using round64_mono [of x y] by (simp add: float64_of_real_def Let_def)

lemma float64_of_real_nonneg:
  "0 \<le> x \<Longrightarrow> float64_of_real x = PInf \<or> (\<exists>r. float64_of_real x = Fin r \<and> 0 \<le> r)"
  using round64_nonneg [of x] by (simp add: float64_of_real_def Let_def)

text \<open>
  Addition, subtraction of a fixed value, \<^verbatim>\<open>math.Max\<close> with 0 and sums are monotone
  with respect to \<open>below\<close>; doubling a non-negative \<^verbatim>\<open>float64\<close> before it is
  multiplied by a ratio in [0, 1] does not decrease the product.
\<close>

lemma below_refl: "below a a"
  by (cases a) (simp_all add: below_def)

lemma fle_NInf: "b \<noteq> NaN \<Longrightarrow> fle NInf b"
  by (cases b) simp_all

lemma fle_PInf: "a \<noteq> NaN \<Longrightarrow> fle a PInf"
  by (cases a) simp_all

lemma fadd_below:
  assumes "below a1 a2" and "below b1 b2"
  shows "below (fadd a1 b1) (fadd a2 b2)"
  using assms
  by (cases a1; cases a2; cases b1; cases b2)
     (auto simp: below_def fle_NInf fle_PInf float64_of_real_not_NaN intro: float64_of_real_mono)

lemma fsub_below:
  assumes "below a1 a2"
  shows "below (fsub a1 w) (fsub a2 w)"
  unfolding fsub_def by (rule fadd_below [OF assms below_refl])

lemma math_Max_below:
  assumes "below a1 a2"
  shows "below (math_Max a1 (Fin 0)) (math_Max a2 (Fin 0))"
  using assms by (cases a1; cases a2) (auto simp: below_def)

lemma fsum_below:
  assumes "list_all2 below xs ys" and "below s1 s2"
  shows "below (fsum s1 xs) (fsum s2 ys)"
  using assms
proof (induction xs ys arbitrary: s1 s2 rule: list_all2_induct)
  case Nil
  then show ?case by (simp add: fsum_def)
next
  case (Cons x xs y ys)
  from Cons.IH [OF fadd_below [OF Cons.prems Cons.hyps(1)]] show ?case by (simp add: fsum_def)
qed

lemma fsum_below_same:
  assumes "below s1 s2"
  shows "below (fsum s1 xs) (fsum s2 xs)"
  by (rule fsum_below [OF _ assms]) (simp add: list_all2_same below_refl)

lemma double_below:
  assumes nn: "fle (Fin 0) i" and fl: "isFloat64 i"
    and r0: "fle (Fin 0) r" and r1: "fle r (Fin 1)"
  shows "below (fmul i r) (fmul (fmul (Fin 2) i) r)"
proof -
  from r0 r1 obtain \<rho> where r: "r = Fin \<rho>" and rho: "0 \<le> \<rho>" by (cases r) auto
  from nn consider x where "i = Fin x" "0 \<le> x" | "i = PInf" by (cases i) auto
  then show ?thesis
  proof cases
    case 1
    from fl 1 have rx: "round64 x = x" by simp
    have le: "fle (float64_of_real x) (float64_of_real (2 * x))"
      by (rule float64_of_real_mono) (use 1 in simp)
    from float64_of_real_nonneg [of "2 * x"] 1
    consider "float64_of_real (2 * x) = PInf"
      | x2 where "float64_of_real (2 * x) = Fin x2" "0 \<le> x2" by auto
    then show ?thesis
    proof cases
      case 1
      then show ?thesis using \<open>i = Fin x\<close> rho by (auto simp: r below_def)
    next
      case 2
      have x2: "x2 = round64 (2 * x)"
        using 2(1) by (simp add: float64_of_real_def Let_def split: if_splits)
      from round64_mono [of x "2 * x"] 1(2) rx have "x \<le> x2" by (simp add: x2)
      then have "x * \<rho> \<le> x2 * \<rho>" using rho by (simp add: mult_right_mono)
      from float64_of_real_mono [OF this] show ?thesis
        using \<open>i = Fin x\<close> 2(1) by (simp add: r below_def)
    qed
  next
    case 2
    then show ?thesis by (simp add: below_refl)
  qed
qed

lemma math_Max_zero_cases:
  "math_Max a (Fin 0) = PInf \<or> math_Max a (Fin 0) = NaN \<or>
   (\<exists>h. math_Max a (Fin 0) = Fin h \<and> 0 \<le> h)"
  by (cases a) auto

lemma go_int_mono_in_range:
  assumes "0 \<le> x" "x \<le> y" "y < 2 ^ 63"
  shows "go_int x \<le> go_int y"
proof -
  from assms have fx: "0 \<le> \<lfloor>x\<rfloor>" "\<lfloor>x\<rfloor> \<le> \<lfloor>y\<rfloor>" by (simp_all add: floor_mono)
  from assms have "\<lfloor>y\<rfloor> < 2 ^ 63" by (simp add: floor_less_iff)
  with fx assms show ?thesis by (simp add: go_int_def Let_def)
qed

section \<open>Memory headroom policy NUMAAware (policy\_numa\_aware.go)\<close>

datatype PolicyUpdateStatus = PolicyUpdateSucceeded | PolicyUpdateFailed

text \<open>
  Modelled from the spec: the metric names of package \<^verbatim>\<open>consts\<close>, whose source is
  missing, as the specification lists them.
\<close>

definition MetricMemFreeNuma :: string where
  "MetricMemFreeNuma = ''mem.free.numa''"

definition MetricMemInactiveFileNuma :: string where
  "MetricMemInactiveFileNuma = ''mem.inactiveFile.numa''"

definition MetricMemTotalNuma :: string where
  "MetricMemTotalNuma = ''mem.total.numa''"

definition MetricMemScaleFactorSystem :: string where
  "MetricMemScaleFactorSystem = ''mem.scaleFactor.system''"

text \<open>
  What \<^verbatim>\<open>Update\<close> reads from its collaborators: the dynamic configuration, the
  essentials, the meta server (metric store and topology) and the helper
  \<^verbatim>\<open>GetAvailableNUMAsAndReclaimedCores\<close>, whose result (the sorted slice of the
  available NUMAs and the reclaimed-cores containers, or an error) is taken as given.
\<close>

record memEnv =
  CacheBasedRatio :: float64
  ReservedForAllocate :: float64
  NumNUMANodes :: int
  NUMANodes :: "int list"
  GetNumaMetric :: "int \<Rightarrow> string \<Rightarrow> error + float64"
  GetNodeMetric :: "string \<Rightarrow> error + float64"
  GetAvailableNUMAsAndReclaimedCores :: "error + (int list \<times> ContainerInfo list)"

text \<open>
  The policy object. \<open>numaMemoryHeadroom\<close> maps a NUMA id to the integer value of its
  \<^verbatim>\<open>resource.Quantity\<close>.
\<close>

record PolicyNUMAAware =
  memoryHeadroom :: float64
  numaMemoryHeadroom :: "int \<rightharpoonup> int"
  updateStatus :: PolicyUpdateStatus

definition NewPolicyNUMAAware :: PolicyNUMAAware where
  "NewPolicyNUMAAware =
     \<lparr>memoryHeadroom = Fin 0, numaMemoryHeadroom = Map.empty, updateStatus = PolicyUpdateFailed\<rparr>"

text \<open>Reading a Go \<^verbatim>\<open>map[int]float64\<close>: a missing key reads as zero.\<close>

definition floatAt :: "(int \<rightharpoonup> float64) \<Rightarrow> int \<Rightarrow> float64" where
  "floatAt m k = (case m k of None \<Rightarrow> Fin 0 | Some v \<Rightarrow> v)"

text \<open>
  The loop over the available NUMAs. The accumulator is
  \<open>(reclaimableMemory, numaReclaimableMemory, availNUMATotal, reservedForAllocate)\<close>;
  the first failing metric ends the loop with its error.
\<close>

fun numaLoop ::
  "memEnv \<Rightarrow> int list \<Rightarrow> float64 \<times> (int \<rightharpoonup> float64) \<times> float64 \<times> float64
    \<Rightarrow> error + (float64 \<times> (int \<rightharpoonup> float64) \<times> float64 \<times> float64)" where
  "numaLoop env [] acc = Inr acc"
| "numaLoop env (numaID # rest) (reclaimableMemory, numaReclaimableMemory, availNUMATotal, reservedForAllocate) =
     (case GetNumaMetric env numaID MetricMemFreeNuma of
        Inl e \<Rightarrow> Inl e
      | Inr free \<Rightarrow>
     (case GetNumaMetric env numaID MetricMemInactiveFileNuma of
        Inl e \<Rightarrow> Inl e
      | Inr inactiveFile \<Rightarrow>
     (case GetNumaMetric env numaID MetricMemTotalNuma of
        Inl e \<Rightarrow> Inl e
      | Inr totalMem \<Rightarrow>
          numaLoop env rest
            (fadd reclaimableMemory (fadd free (fmul inactiveFile (CacheBasedRatio env))),
             numaReclaimableMemory(numaID \<mapsto> fadd free (fmul inactiveFile (CacheBasedRatio env))),
             fadd availNUMATotal totalMem,
             fadd reservedForAllocate
               (fdiv (ReservedForAllocate env) (float64_of_int (NumNUMANodes env)))))))"

text \<open>The inner loop over one container's assignments: each NUMA gets the same share.\<close>

definition addPerNuma ::
  "float64 \<Rightarrow> int list \<Rightarrow> (int \<rightharpoonup> float64) \<Rightarrow> (int \<rightharpoonup> float64)" where
  "addPerNuma reclaimableMemoryPerNuma numas m =
     fold (\<lambda>numaID m'. m'(numaID \<mapsto> fadd (floatAt m' numaID) reclaimableMemoryPerNuma)) numas m"

text \<open>The loop over the reclaimed-cores containers.\<close>

fun containerLoop ::
  "ContainerInfo list \<Rightarrow> float64 \<times> (int \<rightharpoonup> float64) \<Rightarrow> float64 \<times> (int \<rightharpoonup> float64)" where
  "containerLoop [] acc = acc"
| "containerLoop (container # rest) (reclaimableMemory, numaReclaimableMemory) =
     containerLoop rest
       (fadd reclaimableMemory (MemoryRequest container),
        if flt (Fin 0) (MemoryRequest container) \<and> length (TopologyAwareAssignments container) > 0
        then addPerNuma
               (fdiv (MemoryRequest container)
                  (float64_of_int (int (length (TopologyAwareAssignments container)))))
               (TopologyAwareAssignments container) numaReclaimableMemory
        else numaReclaimableMemory)"

text \<open>
  The two closing loops: every key of \<open>numaReclaimableMemory\<close> is scaled by the ratio and
  stored as an integer quantity; every NUMA of the machine with no entry gets zero.
\<close>

definition scaleNumaHeadroom :: "(int \<rightharpoonup> float64) \<Rightarrow> float64 \<Rightarrow> (int \<rightharpoonup> int)" where
  "scaleNumaHeadroom numaReclaimableMemory reduceRatio =
     (\<lambda>numaID. case numaReclaimableMemory numaID of
                  None \<Rightarrow> None
                | Some v \<Rightarrow> Some (go_int64 (fmul v reduceRatio)))"

definition fillEmptyNumas :: "int list \<Rightarrow> (int \<rightharpoonup> int) \<Rightarrow> (int \<rightharpoonup> int)" where
  "fillEmptyNumas allNUMAs numaHeadroom =
     fold (\<lambda>numaID h. case h numaID of None \<Rightarrow> h(numaID \<mapsto> 0) | Some _ \<Rightarrow> h) allNUMAs numaHeadroom"

text \<open>
  The body of \<^verbatim>\<open>Update\<close>: \<open>Inl\<close> is an early \<^verbatim>\<open>return err\<close>, \<open>Inr\<close> the
  policy with its new headroom fields.
\<close>

definition updateBody :: "memEnv \<Rightarrow> PolicyNUMAAware \<Rightarrow> error + PolicyNUMAAware" where
  "updateBody env p =
     (case GetAvailableNUMAsAndReclaimedCores env of
        Inl e \<Rightarrow> Inl e
      | Inr (availNUMAs, reclaimedCoresContainers) \<Rightarrow>
     (case numaLoop env availNUMAs (Fin 0, Map.empty, Fin 0, Fin 0) of
        Inl e \<Rightarrow> Inl e
      | Inr (reclaimable0, numaReclaimable0, availNUMATotal, reservedForAllocate) \<Rightarrow>
     (case containerLoop reclaimedCoresContainers (reclaimable0, numaReclaimable0) of
        (reclaimableMemory, numaReclaimableMemory) \<Rightarrow>
     (case GetNodeMetric env MetricMemScaleFactorSystem of
        Inl e \<Rightarrow> Inl e
      | Inr watermarkScaleFactor \<Rightarrow>
          (let systemWatermarkReserved =
                 fdiv (fmul availNUMATotal watermarkScaleFactor) (Fin 10000);
               headroom =
                 math_Max (fsub (fsub reclaimableMemory systemWatermarkReserved) reservedForAllocate)
                   (Fin 0);
               reduceRatio =
                 (if flt (Fin 0) reclaimableMemory then fdiv headroom reclaimableMemory else Fin 0)
           in Inr (p\<lparr>memoryHeadroom := headroom,
                     numaMemoryHeadroom :=
                       fillEmptyNumas (NUMANodes env)
                         (scaleNumaHeadroom numaReclaimableMemory reduceRatio)\<rparr>))))))"

text \<open>
  \<^verbatim>\<open>Update\<close> with its deferred function, which sets the status from the returned
  error. The result is the returned error (if any) and the policy afterwards;
  \<^verbatim>\<open>GetHeadroom\<close> converts the stored headroom with \<^verbatim>\<open>int64\<close>.
\<close>

definition Update :: "memEnv \<Rightarrow> PolicyNUMAAware \<Rightarrow> error option \<times> PolicyNUMAAware" where
  "Update env p =
     (case updateBody env p of
        Inl e \<Rightarrow> (Some e, p\<lparr>updateStatus := PolicyUpdateFailed\<rparr>)
      | Inr p' \<Rightarrow> (None, p'\<lparr>updateStatus := PolicyUpdateSucceeded\<rparr>))"

definition GetHeadroom :: "PolicyNUMAAware \<Rightarrow> error + (int \<times> (int \<rightharpoonup> int))" where
  "GetHeadroom p =
     (if updateStatus p \<noteq> PolicyUpdateSucceeded then Inl (Error ''last update failed'')
      else Inr (go_int64 (memoryHeadroom p), numaMemoryHeadroom p))"

section \<open>Properties of the memory headroom policy\<close>

lemma Update_failed:
  "Update env p = (Some e, p') \<Longrightarrow> p' = p\<lparr>updateStatus := PolicyUpdateFailed\<rparr>"
  by (auto simp: Update_def split: sum.splits)

lemma Update_succeeded:
  "Update env p = (None, p') \<Longrightarrow>
     \<exists>q. updateBody env p = Inr q \<and> p' = q\<lparr>updateStatus := PolicyUpdateSucceeded\<rparr>"
  by (auto simp: Update_def split: sum.splits)

subsection \<open>The quantities of the headroom formula\<close>

text \<open>
  The value of a metric that was fetched without an error; the definitions below name the
  quantities of the specification's formula, each computed in \<^verbatim>\<open>float64\<close>
  arithmetic in the order of the code: a NUMA's own reclaimable memory (\<open>numaBase\<close>:
  free plus inactiveFile times the ratio), what one container adds to a NUMA
  (\<open>addContainerShare\<close>: its request divided by the number of its NUMAs, once per
  assignment), the sums R, W and A, the total \<open>max (R - W - A) 0\<close> and the ratio
  \<open>total / R\<close>, which is 0 unless \<open>R > 0\<close>. \<open>onNuma c n\<close> tells whether container
  \<open>c\<close> adds to NUMA \<open>n\<close>.
\<close>

definition numaMetricValue :: "memEnv \<Rightarrow> int \<Rightarrow> string \<Rightarrow> float64" where
  "numaMetricValue env numaID name =
     (case GetNumaMetric env numaID name of Inl _ \<Rightarrow> Fin 0 | Inr v \<Rightarrow> v)"

definition numaBase :: "memEnv \<Rightarrow> int \<Rightarrow> float64" where
  "numaBase env n =
     fadd (numaMetricValue env n MetricMemFreeNuma)
       (fmul (numaMetricValue env n MetricMemInactiveFileNuma) (CacheBasedRatio env))"

definition onNuma :: "ContainerInfo \<Rightarrow> int \<Rightarrow> bool" where
  "onNuma c n = (flt (Fin 0) (MemoryRequest c) \<and> n \<in> set (TopologyAwareAssignments c))"

definition addContainerShare :: "int \<Rightarrow> ContainerInfo \<Rightarrow> float64 \<Rightarrow> float64" where
  "addContainerShare n c v =
     (if flt (Fin 0) (MemoryRequest c) \<and> TopologyAwareAssignments c \<noteq> []
      then ((\<lambda>a. fadd a (fdiv (MemoryRequest c)
                            (float64_of_int (int (length (TopologyAwareAssignments c))))))
              ^^ count_list (TopologyAwareAssignments c) n) v
      else v)"

definition nodeMetricValue :: "memEnv \<Rightarrow> string \<Rightarrow> float64" where
  "nodeMetricValue env name = (case GetNodeMetric env name of Inl _ \<Rightarrow> Fin 0 | Inr v \<Rightarrow> v)"

definition claimR :: "memEnv \<Rightarrow> int list \<Rightarrow> ContainerInfo list \<Rightarrow> float64" where
  "claimR env avail cs =
     fsum (fsum (Fin 0) (map (numaBase env) avail)) (map MemoryRequest cs)"

definition claimW :: "memEnv \<Rightarrow> int list \<Rightarrow> float64" where
  "claimW env avail =
     fdiv (fmul (fsum (Fin 0) (map (\<lambda>n. numaMetricValue env n MetricMemTotalNuma) avail))
             (nodeMetricValue env MetricMemScaleFactorSystem))
       (Fin 10000)"

definition claimA :: "memEnv \<Rightarrow> int list \<Rightarrow> float64" where
  "claimA env avail =
     fsum (Fin 0)
       (map (\<lambda>n. fdiv (ReservedForAllocate env) (float64_of_int (NumNUMANodes env))) avail)"

definition claimTotal :: "memEnv \<Rightarrow> int list \<Rightarrow> ContainerInfo list \<Rightarrow> float64" where
  "claimTotal env avail cs =
     math_Max (fsub (fsub (claimR env avail cs) (claimW env avail)) (claimA env avail)) (Fin 0)"

definition claimRatio :: "memEnv \<Rightarrow> int list \<Rightarrow> ContainerInfo list \<Rightarrow> float64" where
  "claimRatio env avail cs =
     (if flt (Fin 0) (claimR env avail cs)
      then fdiv (claimTotal env avail cs) (claimR env avail cs) else Fin 0)"

definition numaReclaimable :: "memEnv \<Rightarrow> ContainerInfo list \<Rightarrow> int \<Rightarrow> float64" where
  "numaReclaimable env cs n = fold (addContainerShare n) cs (numaBase env n)"

lemma numaLoop_result:
  "numaLoop env ns (r, m, t, a) = Inr (r', m', t', a') \<Longrightarrow>
     r' = fsum r (map (numaBase env) ns) \<and>
     t' = fsum t (map (\<lambda>n. numaMetricValue env n MetricMemTotalNuma) ns) \<and>
     a' = fsum a (map (\<lambda>n. fdiv (ReservedForAllocate env) (float64_of_int (NumNUMANodes env))) ns) \<and>
     (\<forall>n. m' n = (if n \<in> set ns then Some (numaBase env n) else m n))"
proof (induction ns arbitrary: r m t a)
  case Nil
  then show ?case by (simp add: fsum_def)
next
  case (Cons x xs)
  from Cons.prems obtain f i tt where
    f: "GetNumaMetric env x MetricMemFreeNuma = Inr f" and
    i: "GetNumaMetric env x MetricMemInactiveFileNuma = Inr i" and
    tt: "GetNumaMetric env x MetricMemTotalNuma = Inr tt" and
    rest: "numaLoop env xs
             (fadd r (fadd f (fmul i (CacheBasedRatio env))),
              m(x \<mapsto> fadd f (fmul i (CacheBasedRatio env))),
              fadd t tt,
              fadd a (fdiv (ReservedForAllocate env) (float64_of_int (NumNUMANodes env))))
           = Inr (r', m', t', a')"
    by (auto split: sum.splits)
  have b: "numaBase env x = fadd f (fmul i (CacheBasedRatio env))"
    by (simp add: numaBase_def numaMetricValue_def f i)
  have tv: "numaMetricValue env x MetricMemTotalNuma = tt"
    by (simp add: numaMetricValue_def tt)
  from Cons.IH [OF rest] show ?case
    by (auto simp: b tv fsum_def)
qed

lemma addPerNuma_floatAt:
  "floatAt (addPerNuma x ns m) n = ((\<lambda>a. fadd a x) ^^ count_list ns n) (floatAt m n)"
proof (induction ns arbitrary: m)
  case Nil
  then show ?case by (simp add: addPerNuma_def)
next
  case (Cons k ks)
  let ?m1 = "m(k \<mapsto> fadd (floatAt m k) x)"
  have unfold: "addPerNuma x (k # ks) m = addPerNuma x ks ?m1"
    by (simp add: addPerNuma_def)
  have step: "floatAt ?m1 n = (if n = k then fadd (floatAt m n) x else floatAt m n)"
    by (simp add: floatAt_def)
  show ?case unfolding unfold Cons.IH step
    using funpow_swap1 [of "\<lambda>a. fadd a x" "count_list ks n" "floatAt m n"] by simp
qed

lemma addPerNuma_None:
  "addPerNuma x ns m n = None \<longleftrightarrow> m n = None \<and> n \<notin> set ns"
  unfolding addPerNuma_def
  by (induction ns arbitrary: m) auto

lemma containerLoop_result:
  "containerLoop cs (r, m) = (r', m') \<Longrightarrow>
     r' = fsum r (map MemoryRequest cs) \<and>
     (\<forall>n. floatAt m' n = fold (addContainerShare n) cs (floatAt m n)) \<and>
     (\<forall>n. m' n = None \<longleftrightarrow> m n = None \<and> (\<forall>c\<in>set cs. \<not> onNuma c n))"
proof (induction cs arbitrary: r m)
  case Nil
  then show ?case by (simp add: fsum_def)
next
  case (Cons c cs)
  define m1 where "m1 =
     (if flt (Fin 0) (MemoryRequest c) \<and> length (TopologyAwareAssignments c) > 0
      then addPerNuma
             (fdiv (MemoryRequest c) (float64_of_int (int (length (TopologyAwareAssignments c)))))
             (TopologyAwareAssignments c) m
      else m)"
  from Cons.prems have rest: "containerLoop cs (fadd r (MemoryRequest c), m1) = (r', m')"
    by (simp add: m1_def)
  have fl: "floatAt m1 n = addContainerShare n c (floatAt m n)" for n
    by (simp add: m1_def addContainerShare_def addPerNuma_floatAt)
  have nn: "m1 n = None \<longleftrightarrow> m n = None \<and> \<not> onNuma c n" for n
    by (auto simp: m1_def onNuma_def addPerNuma_None)
  from Cons.IH [OF rest] show ?case
    by (simp add: fl nn fsum_def)
qed

lemma fillEmptyNumas_apply:
  "fillEmptyNumas ns h n =
     (case h n of Some v \<Rightarrow> Some v | None \<Rightarrow> if n \<in> set ns then Some 0 else None)"
  unfolding fillEmptyNumas_def
  by (induction ns arbitrary: h) (auto split: option.splits)

lemma updateBody_result:
  assumes ub: "updateBody env p = Inr q"
    and av: "GetAvailableNUMAsAndReclaimedCores env = Inr (avail, cs)"
  shows "memoryHeadroom q = claimTotal env avail cs"
    and "n \<in> set avail \<Longrightarrow>
           numaMemoryHeadroom q n =
             Some (go_int64 (fmul (numaReclaimable env cs n) (claimRatio env avail cs)))"
    and "n \<in> set (NUMANodes env) \<Longrightarrow> n \<notin> set avail \<Longrightarrow>
           \<forall>c\<in>set cs. \<not> onNuma c n \<Longrightarrow> numaMemoryHeadroom q n = Some 0"
proof -
  from ub av obtain r0 m0 t a where
    nl: "numaLoop env avail (Fin 0, Map.empty, Fin 0, Fin 0) = Inr (r0, m0, t, a)"
    by (auto simp: updateBody_def split: sum.splits prod.splits)
  obtain r m where cl: "containerLoop cs (r0, m0) = (r, m)" by force
  from ub av nl cl obtain w where
    w: "GetNodeMetric env MetricMemScaleFactorSystem = Inr w"
    by (auto simp: updateBody_def split: sum.splits prod.splits)
  note N = numaLoop_result [OF nl]
  note C = containerLoop_result [OF cl]
  have r: "r = claimR env avail cs" using N C by (simp add: claimR_def)
  have tw: "fdiv (fmul t w) (Fin 10000) = claimW env avail"
    using N by (simp add: claimW_def nodeMetricValue_def w)
  have a: "a = claimA env avail" using N by (simp add: claimA_def)
  have h: "math_Max (fsub (fsub r (fdiv (fmul t w) (Fin 10000))) a) (Fin 0) = claimTotal env avail cs"
    by (simp add: claimTotal_def r tw a)
  have q: "q = p\<lparr>memoryHeadroom := claimTotal env avail cs,
                  numaMemoryHeadroom := fillEmptyNumas (NUMANodes env)
                    (scaleNumaHeadroom m (claimRatio env avail cs))\<rparr>"
  proof -
    have "updateBody env p =
        Inr (p\<lparr>memoryHeadroom := math_Max (fsub (fsub r (fdiv (fmul t w) (Fin 10000))) a) (Fin 0),
               numaMemoryHeadroom := fillEmptyNumas (NUMANodes env)
                 (scaleNumaHeadroom m
                    (if flt (Fin 0) r
                     then fdiv (math_Max (fsub (fsub r (fdiv (fmul t w) (Fin 10000))) a) (Fin 0)) r
                     else Fin 0))\<rparr>)"
      using av nl cl w by (simp add: updateBody_def Let_def)
    then show ?thesis using ub unfolding h unfolding r claimRatio_def by simp
  qed
  show "memoryHeadroom q = claimTotal env avail cs" by (simp add: q)
  show "numaMemoryHeadroom q n =
          Some (go_int64 (fmul (numaReclaimable env cs n) (claimRatio env avail cs)))"
    if "n \<in> set avail"
  proof -
    from N that have "m0 n = Some (numaBase env n)" by simp
    then have f0: "floatAt m0 n = numaBase env n" and "m0 n \<noteq> None" by (simp_all add: floatAt_def)
    with C have "m n \<noteq> None" and "floatAt m n = numaReclaimable env cs n"
      by (simp_all add: numaReclaimable_def)
    then have "m n = Some (numaReclaimable env cs n)" by (auto simp: floatAt_def)
    then show ?thesis by (simp add: q fillEmptyNumas_apply scaleNumaHeadroom_def)
  qed
  show "numaMemoryHeadroom q n = Some 0"
    if "n \<in> set (NUMANodes env)" "n \<notin> set avail" "\<forall>c\<in>set cs. \<not> onNuma c n"
  proof -
    from N that have "m0 n = None" by simp
    with C that have "m n = None" by simp
    then show ?thesis using that by (simp add: q fillEmptyNumas_apply scaleNumaHeadroom_def)
  qed
qed

definition doubleInactiveFile :: "memEnv \<Rightarrow> memEnv" where
  "doubleInactiveFile env =
     env\<lparr>GetNumaMetric :=
       (\<lambda>numaID name.
          if name = MetricMemInactiveFileNuma
          then (case GetNumaMetric env numaID name of
                  Inl e \<Rightarrow> Inl e | Inr v \<Rightarrow> Inr (fmul (Fin 2) v))
          else GetNumaMetric env numaID name)\<rparr>"

definition metricsOK :: "memEnv \<Rightarrow> int \<Rightarrow> bool" where
  "metricsOK env n =
     (\<not> isl (GetNumaMetric env n MetricMemFreeNuma) \<and>
      \<not> isl (GetNumaMetric env n MetricMemInactiveFileNuma) \<and>
      \<not> isl (GetNumaMetric env n MetricMemTotalNuma))"

lemma numaLoop_Inr_metricsOK:
  "numaLoop env ns acc = Inr res \<Longrightarrow> list_all (metricsOK env) ns"
proof (induction ns arbitrary: acc)
  case Nil
  then show ?case by simp
next
  case (Cons x xs)
  obtain r m t a where acc: "acc = (r, m, t, a)" using prod_cases4 by blast
  from Cons.prems show ?case
    unfolding acc
    by (auto simp: metricsOK_def split: sum.splits dest: Cons.IH)
qed

lemma metricsOK_numaLoop_Inr:
  "list_all (metricsOK env) ns \<Longrightarrow> \<exists>res. numaLoop env ns acc = Inr res"
proof (induction ns arbitrary: acc)
  case Nil
  then show ?case by (cases acc) simp
next
  case (Cons x xs)
  obtain r m t a where acc: "acc = (r, m, t, a)" using prod_cases4 by blast
  from Cons.prems have ok: "metricsOK env x" and rest: "list_all (metricsOK env) xs" by simp_all
  from ok obtain f i tt where
    "GetNumaMetric env x MetricMemFreeNuma = Inr f"
    "GetNumaMetric env x MetricMemInactiveFileNuma = Inr i"
    "GetNumaMetric env x MetricMemTotalNuma = Inr tt"
    unfolding metricsOK_def
    by (cases "GetNumaMetric env x MetricMemFreeNuma";
        cases "GetNumaMetric env x MetricMemInactiveFileNuma";
        cases "GetNumaMetric env x MetricMemTotalNuma") auto
  then show ?case unfolding acc using Cons.IH [OF rest] by simp
qed

lemma metricsOK_double: "metricsOK (doubleInactiveFile env) n = metricsOK env n"
  by (auto simp: metricsOK_def doubleInactiveFile_def MetricMemFreeNuma_def
      MetricMemInactiveFileNuma_def MetricMemTotalNuma_def split: sum.splits)

lemma metricsOK_double_fun: "metricsOK (doubleInactiveFile env) = metricsOK env"
  by (rule ext) (rule metricsOK_double)

lemma float64_of_real_zero: "float64_of_real 0 = Fin 0"
  by (simp add: float64_of_real_def round64_def round64_pos_def roundTiesToEven_def)

lemma numaMetricValue_double:
  "numaMetricValue (doubleInactiveFile env) n MetricMemFreeNuma = numaMetricValue env n MetricMemFreeNuma"
  "numaMetricValue (doubleInactiveFile env) n MetricMemTotalNuma = numaMetricValue env n MetricMemTotalNuma"
  "numaMetricValue (doubleInactiveFile env) n MetricMemInactiveFileNuma =
     fmul (Fin 2) (numaMetricValue env n MetricMemInactiveFileNuma)"
  by (auto simp: numaMetricValue_def doubleInactiveFile_def MetricMemFreeNuma_def
      MetricMemInactiveFileNuma_def MetricMemTotalNuma_def float64_of_real_zero split: sum.splits)

lemma updateBody_Inr_D:
  assumes "updateBody env p = Inr q"
    and "GetAvailableNUMAsAndReclaimedCores env = Inr (avail, cs)"
  shows "list_all (metricsOK env) avail"
    and "\<not> isl (GetNodeMetric env MetricMemScaleFactorSystem)"
  using assms
  by (auto simp: updateBody_def split: sum.splits prod.splits dest: numaLoop_Inr_metricsOK)

lemma updateBody_Inr_I:
  assumes av: "GetAvailableNUMAsAndReclaimedCores env = Inr (avail, cs)"
    and ok: "list_all (metricsOK env) avail"
    and w: "\<not> isl (GetNodeMetric env MetricMemScaleFactorSystem)"
  shows "\<exists>q. updateBody env p = Inr q"
proof -
  from metricsOK_numaLoop_Inr [OF ok] obtain r0 m0 t a where
    nl: "numaLoop env avail (Fin 0, Map.empty, Fin 0, Fin 0) = Inr (r0, m0, t, a)"
    by (metis prod_cases4)
  obtain r m where cl: "containerLoop cs (r0, m0) = (r, m)" by force
  from w obtain wv where wv: "GetNodeMetric env MetricMemScaleFactorSystem = Inr wv"
    by (cases "GetNodeMetric env MetricMemScaleFactorSystem") auto
  show ?thesis using av nl cl wv by (simp add: updateBody_def Let_def)
qed

text \<open>
  Claim C5. When \<^verbatim>\<open>Update\<close> returns an error, the status is
  \<open>PolicyUpdateFailed\<close> and \<^verbatim>\<open>GetHeadroom\<close> returns an error; \<^verbatim>\<open>GetHeadroom\<close>
  does not change the policy, so this lasts until an \<^verbatim>\<open>Update\<close> succeeds. After a
  successful \<^verbatim>\<open>Update\<close>, \<^verbatim>\<open>GetHeadroom\<close> returns the headroom that this update
  computed, with no error. \<^verbatim>\<open>Update\<close> returns an error whenever the helper fails, a
  metric of an available NUMA cannot be fetched, or the scale factor cannot be fetched.
\<close>

theorem Update_status_gates_GetHeadroom:
  "(Update env p = (Some e, p') \<longrightarrow>
      updateStatus p' = PolicyUpdateFailed \<and>
      GetHeadroom p' = Inl (Error ''last update failed'')) \<and>
   (Update env p = (None, p') \<longrightarrow>
      updateStatus p' = PolicyUpdateSucceeded \<and>
      (\<exists>q. updateBody env p = Inr q \<and>
           GetHeadroom p' = Inr (go_int64 (memoryHeadroom q), numaMemoryHeadroom q))) \<and>
   (isl (GetAvailableNUMAsAndReclaimedCores env) \<longrightarrow> fst (Update env p) \<noteq> None) \<and>
   (GetAvailableNUMAsAndReclaimedCores env = Inr (avail, cs) \<and>
    (\<not> list_all (metricsOK env) avail \<or> isl (GetNodeMetric env MetricMemScaleFactorSystem)) \<longrightarrow>
      fst (Update env p) \<noteq> None)"
proof (intro conjI impI)
  assume f: "Update env p = (Some e, p')"
  from Update_failed [OF f] show "updateStatus p' = PolicyUpdateFailed" by simp
  from Update_failed [OF f] show "GetHeadroom p' = Inl (Error ''last update failed'')"
    by (simp add: GetHeadroom_def)
next
  assume s: "Update env p = (None, p')"
  from Update_succeeded [OF s] obtain q where
    q: "updateBody env p = Inr q" "p' = q\<lparr>updateStatus := PolicyUpdateSucceeded\<rparr>" by blast
  from q show "updateStatus p' = PolicyUpdateSucceeded" by simp
  from q show "\<exists>q. updateBody env p = Inr q \<and>
      GetHeadroom p' = Inr (go_int64 (memoryHeadroom q), numaMemoryHeadroom q)"
    by (simp add: GetHeadroom_def)
next
  assume "isl (GetAvailableNUMAsAndReclaimedCores env)"
  then show "fst (Update env p) \<noteq> None"
    by (auto simp: Update_def updateBody_def isl_def)
next
  assume a: "GetAvailableNUMAsAndReclaimedCores env = Inr (avail, cs) \<and>
    (\<not> list_all (metricsOK env) avail \<or> isl (GetNodeMetric env MetricMemScaleFactorSystem))"
  show "fst (Update env p) \<noteq> None"
  proof
    assume "fst (Update env p) = None"
    then obtain q where "updateBody env p = Inr q"
      by (auto simp: Update_def split: sum.splits)
    from updateBody_Inr_D [OF this] a show False by blast
  qed
qed

lemma double_headroom_below:
  assumes ub: "updateBody env p = Inr q1"
    and av: "GetAvailableNUMAsAndReclaimedCores env = Inr (avail, cs)"
    and r0: "fle (Fin 0) (CacheBasedRatio env)" and r1: "fle (CacheBasedRatio env) (Fin 1)"
    and nn: "\<forall>n\<in>set avail.
               fle (Fin 0) (numaMetricValue env n MetricMemInactiveFileNuma) \<and>
               isFloat64 (numaMetricValue env n MetricMemInactiveFileNuma)"
  shows "\<exists>q2. updateBody (doubleInactiveFile env) p' = Inr q2 \<and>
           below (memoryHeadroom q1) (memoryHeadroom q2)"
proof -
  let ?env = "doubleInactiveFile env"
  have av': "GetAvailableNUMAsAndReclaimedCores ?env = Inr (avail, cs)"
    using av by (simp add: doubleInactiveFile_def)
  have ok': "list_all (metricsOK ?env) avail"
    using updateBody_Inr_D(1) [OF ub av] by (simp add: metricsOK_double_fun)
  have w': "\<not> isl (GetNodeMetric ?env MetricMemScaleFactorSystem)"
    using updateBody_Inr_D(2) [OF ub av] by (simp add: doubleInactiveFile_def)
  from updateBody_Inr_I [OF av' ok' w'] obtain q2 where
    q2: "updateBody ?env p' = Inr q2" by blast
  have cr: "CacheBasedRatio ?env = CacheBasedRatio env" by (simp add: doubleInactiveFile_def)
  have base: "below (numaBase env n) (numaBase ?env n)" if "n \<in> set avail" for n
  proof -
    from nn that have i: "fle (Fin 0) (numaMetricValue env n MetricMemInactiveFileNuma)"
      "isFloat64 (numaMetricValue env n MetricMemInactiveFileNuma)" by blast+
    show ?thesis
      unfolding numaBase_def numaMetricValue_double cr
      by (rule fadd_below [OF below_refl double_below [OF i r0 r1]])
  qed
  have "below (fsum (Fin 0) (map (numaBase env) avail)) (fsum (Fin 0) (map (numaBase ?env) avail))"
    by (rule fsum_below) (simp_all add: list_all2_map1 list_all2_map2 list_all2_same base below_refl)
  then have R: "below (claimR env avail cs) (claimR ?env avail cs)"
    unfolding claimR_def by (rule fsum_below_same)
  have nv: "nodeMetricValue ?env name = nodeMetricValue env name" for name
    by (simp add: nodeMetricValue_def doubleInactiveFile_def)
  have W: "claimW ?env avail = claimW env avail"
    by (simp add: claimW_def numaMetricValue_double nv)
  have A: "claimA ?env avail = claimA env avail"
    unfolding claimA_def by (simp add: doubleInactiveFile_def)
  have "below (claimTotal env avail cs) (claimTotal ?env avail cs)"
    unfolding claimTotal_def W A
    by (intro math_Max_below fsub_below R)
  then have "below (memoryHeadroom q1) (memoryHeadroom q2)"
    by (simp add: updateBody_result(1) [OF ub av] updateBody_result(1) [OF q2 av'])
  with q2 show ?thesis by blast
qed

lemma memoryHeadroom_cases:
  assumes "updateBody env p = Inr q"
  shows "memoryHeadroom q = PInf \<or> memoryHeadroom q = NaN \<or>
         (\<exists>h. memoryHeadroom q = Fin h \<and> 0 \<le> h)"
proof -
  from assms obtain x where "memoryHeadroom q = math_Max x (Fin 0)"
    by (auto simp: updateBody_def Let_def split: sum.splits prod.splits)
  then show ?thesis using math_Max_zero_cases [of x] by simp
qed

text \<open>
  Scenario 5 of the specification, for a unit of G bytes: two NUMAs, each with 4 G free,
  10 G of inactive file cache and 32 G in total; ratio 0.5, scale factor 100, 2 G reserved,
  no reclaimed-cores container.
\<close>

definition scenario5 :: "real \<Rightarrow> memEnv" where
  "scenario5 G =
     \<lparr>CacheBasedRatio = Fin (1 / 2),
      ReservedForAllocate = Fin (2 * G),
      NumNUMANodes = 2,
      NUMANodes = [0, 1],
      GetNumaMetric = (\<lambda>numaID name.
         if name = MetricMemFreeNuma then Inr (Fin (4 * G))
         else if name = MetricMemInactiveFileNuma then Inr (Fin (10 * G))
         else if name = MetricMemTotalNuma then Inr (Fin (32 * G))
         else Inl (Error ''no such metric'')),
      GetNodeMetric = (\<lambda>name.
         if name = MetricMemScaleFactorSystem then Inr (Fin 100) else Inl (Error ''no such metric'')),
      GetAvailableNUMAsAndReclaimedCores = Inr ([0, 1], [])\<rparr>"

text \<open>
  A machine on which the rounding shows: two NUMAs, each with 1 GiB free, 20 GiB of
  inactive file cache and 100 GiB in total; ratio 0.5, scale factor 150, 4 GiB reserved.
\<close>

definition roundingExample :: memEnv where
  "roundingExample =
     \<lparr>CacheBasedRatio = Fin (1 / 2),
      ReservedForAllocate = Fin (4 * 2 ^ 30),
      NumNUMANodes = 2,
      NUMANodes = [0, 1],
      GetNumaMetric = (\<lambda>numaID name.
         if name = MetricMemFreeNuma then Inr (Fin (2 ^ 30))
         else if name = MetricMemInactiveFileNuma then Inr (Fin (20 * 2 ^ 30))
         else if name = MetricMemTotalNuma then Inr (Fin (100 * 2 ^ 30))
         else Inl (Error ''no such metric'')),
      GetNodeMetric = (\<lambda>name.
         if name = MetricMemScaleFactorSystem then Inr (Fin 150) else Inl (Error ''no such metric'')),
      GetAvailableNUMAsAndReclaimedCores = Inr ([0, 1], [])\<rparr>"

lemmas metric_names =
  MetricMemFreeNuma_def MetricMemInactiveFileNuma_def MetricMemTotalNuma_def
  MetricMemScaleFactorSystem_def

lemmas policy_eval =
  Update_def updateBody_def metric_names float64_eval fillEmptyNumas_def
  scaleNumaHeadroom_def GetHeadroom_def NewPolicyNUMAAware_def
  numaMetricValue_def nodeMetricValue_def

lemma scenario5_Update:
  "\<exists>q. Update (scenario5 G) p = (None, q)"
proof -
  have "\<exists>q. updateBody (scenario5 G) p = Inr q"
    by (rule updateBody_Inr_I [where avail = "[0, 1]" and cs = "[]"])
       (simp_all add: scenario5_def metricsOK_def MetricMemFreeNuma_def
          MetricMemInactiveFileNuma_def MetricMemTotalNuma_def)
  then show ?thesis by (auto simp: Update_def)
qed

lemma scenario5_GiB:
  "fst (Update (scenario5 (2 ^ 30)) p) = None"
  "memoryHeadroom (snd (Update (scenario5 (2 ^ 30)) p)) = Fin (1080863910568919 / 65536)"
  "GetHeadroom (snd (Update (scenario5 (2 ^ 30)) p)) =
     Inr (16492674416, numaMemoryHeadroom (snd (Update (scenario5 (2 ^ 30)) p)))"
  "numaMemoryHeadroom (snd (Update (scenario5 (2 ^ 30)) p)) 0 = Some 8246337208"
  "numaMemoryHeadroom (snd (Update (scenario5 (2 ^ 30)) p)) 1 = Some 8246337208"
  by (simp_all add: policy_eval scenario5_def)



text \<open>
  On \<open>roundingExample\<close> the ratio 15/22 is rounded down, so that the product with the
  NUMA's 11 GiB falls just below 7.5 GiB and the stored quantity is one byte less than
  the integer part of the exact value.
\<close>

lemma rounding_example:
  "fst (Update roundingExample p) = None"
  "numaMemoryHeadroom (snd (Update roundingExample p)) 0 = Some 8053063679"
  "go_int ((2 ^ 30 + 20 * 2 ^ 30 * (1 / 2))
      * ((2 * (2 ^ 30 + 20 * 2 ^ 30 * (1 / 2)) - 200 * 2 ^ 30 * 150 / 10000 - 4 * 2 ^ 30)
           / (2 * (2 ^ 30 + 20 * 2 ^ 30 * (1 / 2))))) = 8053063680"
  by (simp_all add: policy_eval roundingExample_def)




text \<open>
  Claim C7. Doubling the inactiveFile metric of every NUMA, all other inputs unchanged and
  \<open>CacheBasedRatio\<close> in [0, 1], never decreases the total headroom: neither the value the
  policy stores nor the integer \<^verbatim>\<open>GetHeadroom\<close> reports. The update on the doubled
  metrics succeeds whenever the original one does. The inactiveFile readings are
  \<^verbatim>\<open>float64\<close> values that are not negative (byte counts), and the headroom computed
  from the doubled readings is below 2^63 bytes, so that its conversion to \<^verbatim>\<open>int64\<close>
  is in range.
\<close>

theorem doubling_inactiveFile_never_decreases_headroom:
  assumes upd: "Update env p = (None, p1)"
    and av: "GetAvailableNUMAsAndReclaimedCores env = Inr (avail, cs)"
    and ratio: "fle (Fin 0) (CacheBasedRatio env)" "fle (CacheBasedRatio env) (Fin 1)"
    and nn: "\<forall>n\<in>set avail.
               fle (Fin 0) (numaMetricValue env n MetricMemInactiveFileNuma) \<and>
               isFloat64 (numaMetricValue env n MetricMemInactiveFileNuma)"
    and range: "flt (memoryHeadroom (snd (Update (doubleInactiveFile env) q))) (Fin (2 ^ 63))"
  shows "\<exists>p2 h1 m1 h2 m2.
           Update (doubleInactiveFile env) q = (None, p2) \<and>
           fle (memoryHeadroom p1) (memoryHeadroom p2) \<and>
           GetHeadroom p1 = Inr (h1, m1) \<and> GetHeadroom p2 = Inr (h2, m2) \<and> h1 \<le> h2"
proof -
  from Update_succeeded [OF upd] obtain q1 where
    q1: "updateBody env p = Inr q1" "p1 = q1\<lparr>updateStatus := PolicyUpdateSucceeded\<rparr>" by blast
  from double_headroom_below [OF q1(1) av ratio nn, of q] obtain q2 where
    q2: "updateBody (doubleInactiveFile env) q = Inr q2"
      "below (memoryHeadroom q1) (memoryHeadroom q2)"
    by blast
  let ?p2 = "q2\<lparr>updateStatus := PolicyUpdateSucceeded\<rparr>"
  have u2: "Update (doubleInactiveFile env) q = (None, ?p2)" by (simp add: Update_def q2(1))
  from range have lt: "flt (memoryHeadroom q2) (Fin (2 ^ 63))" by (simp add: u2)
  with memoryHeadroom_cases [OF q2(1)] obtain h2 where
    h2: "memoryHeadroom q2 = Fin h2" "0 \<le> h2" "h2 < 2 ^ 63" by auto
  from q2(2) h2(1) have le: "fle (memoryHeadroom q1) (Fin h2)" by (simp add: below_def)
  with memoryHeadroom_cases [OF q1(1)] obtain h1 where
    h1: "memoryHeadroom q1 = Fin h1" "0 \<le> h1" "h1 \<le> h2" by auto
  have "fle (memoryHeadroom p1) (memoryHeadroom ?p2)" using h1 h2 by (simp add: q1(2))
  moreover have "GetHeadroom p1 = Inr (go_int h1, numaMemoryHeadroom q1)"
    by (simp add: GetHeadroom_def q1(2) h1(1))
  moreover have "GetHeadroom ?p2 = Inr (go_int h2, numaMemoryHeadroom q2)"
    by (simp add: GetHeadroom_def h2(1))
  moreover have "go_int h1 \<le> go_int h2"
    by (rule go_int_mono_in_range [OF h1(2,3) h2(3)])
  ultimately show ?thesis using u2 by blast
qed

text \<open>
  Scenario 5 with G = 2^30 bytes: the reported total grows from 16492674416 to
  27230092656 bytes.
\<close>

theorem doubling_inactiveFile_never_decreases_headroom_witness:
  "fst (Update (scenario5 (2 ^ 30)) NewPolicyNUMAAware) = None \<and>
   fle (Fin 0) (CacheBasedRatio (scenario5 (2 ^ 30))) \<and>
   fle (CacheBasedRatio (scenario5 (2 ^ 30))) (Fin 1) \<and>
   fle (Fin 0) (numaMetricValue (scenario5 (2 ^ 30)) 0 MetricMemInactiveFileNuma) \<and>
   isFloat64 (numaMetricValue (scenario5 (2 ^ 30)) 0 MetricMemInactiveFileNuma) \<and>
   fle (Fin 0) (numaMetricValue (scenario5 (2 ^ 30)) 1 MetricMemInactiveFileNuma) \<and>
   isFloat64 (numaMetricValue (scenario5 (2 ^ 30)) 1 MetricMemInactiveFileNuma) \<and>
   flt (memoryHeadroom (snd (Update (doubleInactiveFile (scenario5 (2 ^ 30))) NewPolicyNUMAAware)))
     (Fin (2 ^ 63)) \<and>
   (\<exists>p2 h1 m1 h2 m2.
      Update (doubleInactiveFile (scenario5 (2 ^ 30))) NewPolicyNUMAAware = (None, p2) \<and>
      fle (memoryHeadroom (snd (Update (scenario5 (2 ^ 30)) NewPolicyNUMAAware))) (memoryHeadroom p2) \<and>
      GetHeadroom (snd (Update (scenario5 (2 ^ 30)) NewPolicyNUMAAware)) = Inr (h1, m1) \<and>
      GetHeadroom p2 = Inr (h2, m2) \<and> h1 \<le> h2) \<and>
   map_sum id fst (GetHeadroom (snd (Update (scenario5 (2 ^ 30)) NewPolicyNUMAAware))) =
     Inr 16492674416 \<and>
   map_sum id fst
     (GetHeadroom (snd (Update (doubleInactiveFile (scenario5 (2 ^ 30))) NewPolicyNUMAAware))) =
     Inr 27230092656"
proof -
  let ?env = "scenario5 (2 ^ 30)"
  let ?p = "snd (Update ?env NewPolicyNUMAAware)"
  have f: "fst (Update ?env NewPolicyNUMAAware) = None"
    using scenario5_Update [of "2 ^ 30" NewPolicyNUMAAware] by auto
  then have u: "Update ?env NewPolicyNUMAAware = (None, ?p)" by (simp add: prod_eq_iff)
  have av: "GetAvailableNUMAsAndReclaimedCores ?env = Inr ([0, 1], [])"
    by (simp add: scenario5_def)
  have r0: "fle (Fin 0) (CacheBasedRatio ?env)" and r1: "fle (CacheBasedRatio ?env) (Fin 1)"
    by (simp_all add: scenario5_def)
  have i: "numaMetricValue ?env n MetricMemInactiveFileNuma = Fin (10 * 2 ^ 30)" for n
    by (simp add: numaMetricValue_def scenario5_def metric_names)
  have fl: "isFloat64 (Fin (10 * 2 ^ 30))" by (simp add: float64_eval)
  have nn: "\<forall>n\<in>set [0, 1].
      fle (Fin 0) (numaMetricValue ?env n MetricMemInactiveFileNuma) \<and>
      isFloat64 (numaMetricValue ?env n MetricMemInactiveFileNuma)"
    unfolding i using fl by simp
  have i0: "fle (Fin 0) (numaMetricValue ?env 0 MetricMemInactiveFileNuma)"
    and i1: "fle (Fin 0) (numaMetricValue ?env 1 MetricMemInactiveFileNuma)"
    and j0: "isFloat64 (numaMetricValue ?env 0 MetricMemInactiveFileNuma)"
    and j1: "isFloat64 (numaMetricValue ?env 1 MetricMemInactiveFileNuma)"
    unfolding i using fl by simp_all
  have rg: "flt (memoryHeadroom (snd (Update (doubleInactiveFile ?env) NewPolicyNUMAAware)))
      (Fin (2 ^ 63))"
    by (simp add: policy_eval scenario5_def doubleInactiveFile_def)
  have v1: "map_sum id fst (GetHeadroom ?p) = Inr 16492674416"
    unfolding scenario5_GiB(3) by simp
  have v2: "map_sum id fst
      (GetHeadroom (snd (Update (doubleInactiveFile ?env) NewPolicyNUMAAware))) = Inr 27230092656"
    by (simp add: policy_eval scenario5_def doubleInactiveFile_def)
  from f r0 r1 i0 j0 i1 j1 rg v1 v2
    doubling_inactiveFile_never_decreases_headroom [OF u av r0 r1 nn rg]
  show ?thesis by blast
qed

text \<open>Scenario 5 with the watermark scale factor missing from the metric store.\<close>

definition scenario5_noScaleFactor :: memEnv where
  "scenario5_noScaleFactor =
     (scenario5 (2 ^ 30))\<lparr>GetNodeMetric := (\<lambda>name. Inl (Error ''metric not found''))\<rparr>"

lemma scenario5_noScaleFactor_Update:
  "Update scenario5_noScaleFactor p =
     (Some (Error ''metric not found''), p\<lparr>updateStatus := PolicyUpdateFailed\<rparr>)"
  by (simp add: Update_def updateBody_def scenario5_noScaleFactor_def scenario5_def
      MetricMemFreeNuma_def MetricMemInactiveFileNuma_def MetricMemTotalNuma_def)

theorem Update_status_gates_GetHeadroom_witness:
  "fst (Update scenario5_noScaleFactor NewPolicyNUMAAware) = Some (Error ''metric not found'') \<and>
   updateStatus (snd (Update scenario5_noScaleFactor NewPolicyNUMAAware)) = PolicyUpdateFailed \<and>
   GetHeadroom (snd (Update scenario5_noScaleFactor NewPolicyNUMAAware)) =
     Inl (Error ''last update failed'') \<and>
   fst (Update (scenario5 (2 ^ 30)) (snd (Update scenario5_noScaleFactor NewPolicyNUMAAware))) = None \<and>
   updateStatus (snd (Update (scenario5 (2 ^ 30)) (snd (Update scenario5_noScaleFactor NewPolicyNUMAAware))))
     = PolicyUpdateSucceeded \<and>
   \<not> isl (GetHeadroom (snd (Update (scenario5 (2 ^ 30))
       (snd (Update scenario5_noScaleFactor NewPolicyNUMAAware)))))"
proof -
  let ?p1 = "snd (Update scenario5_noScaleFactor NewPolicyNUMAAware)"
  let ?p2 = "snd (Update (scenario5 (2 ^ 30)) ?p1)"
  have f1: "fst (Update scenario5_noScaleFactor NewPolicyNUMAAware) = Some (Error ''metric not found'')"
    by (simp add: scenario5_noScaleFactor_Update)
  then have u1: "Update scenario5_noScaleFactor NewPolicyNUMAAware = (Some (Error ''metric not found''), ?p1)"
    by (simp add: prod_eq_iff)
  have f2: "fst (Update (scenario5 (2 ^ 30)) ?p1) = None"
    using scenario5_Update [of "2 ^ 30" ?p1] by auto
  then have u2: "Update (scenario5 (2 ^ 30)) ?p1 = (None, ?p2)" by (simp add: prod_eq_iff)
  from Update_status_gates_GetHeadroom [of scenario5_noScaleFactor NewPolicyNUMAAware
      "Error ''metric not found''" ?p1] u1
  have a: "updateStatus ?p1 = PolicyUpdateFailed"
    and b: "GetHeadroom ?p1 = Inl (Error ''last update failed'')" by blast+
  note T2 = Update_status_gates_GetHeadroom [of "scenario5 (2 ^ 30)" ?p1 "Error []" ?p2]
  note S2 = T2 [THEN conjunct2, THEN conjunct1, THEN mp, OF u2]
  from S2 have c: "updateStatus ?p2 = PolicyUpdateSucceeded" by (rule conjunct1)
  from S2 [THEN conjunct2] have e: "\<not> isl (GetHeadroom ?p2)" by auto
  from f1 a b f2 c e show ?thesis by blast
qed

section \<open>Health registry (package general)\<close>

text \<open>
  \<^verbatim>\<open>HealthzCheckState\<close> and \<^verbatim>\<open>HealthzCheckMode\<close> are string types. A
  \<^verbatim>\<open>time.Time\<close> is the number of nanoseconds since the zero time (so \<^verbatim>\<open>IsZero\<close>
  is equality with 0), a \<^verbatim>\<open>time.Duration\<close> a number of nanoseconds; the clock
  reading \<^verbatim>\<open>time.Now()\<close> is the argument \<open>now\<close>.
\<close>

definition HealthzCheckStateReady :: string where
  "HealthzCheckStateReady = ''Ready''"

definition HealthzCheckStateNotReady :: string where
  "HealthzCheckStateNotReady = ''NotReady''"

definition InitMessage :: string where
  "InitMessage = ''Init''"

definition HealthzCheckModeHeartBeat :: string where
  "HealthzCheckModeHeartBeat = ''heartbeat''"

definition HealthzCheckModeReport :: string where
  "HealthzCheckModeReport = ''report''"

record healthzCheckStatus =
  State :: string
  Message :: string
  LastUpdateTime :: int
  Mode :: string
  TimeoutPeriod :: int
  UnhealthyStartTime :: int
  TolerationPeriod :: int
  temporary :: bool
  count :: int

record HealthzCheckResult =
  Ready :: bool
  ResultMessage :: string

definition healthz_update :: "healthzCheckStatus \<Rightarrow> int \<Rightarrow> string \<Rightarrow> string \<Rightarrow> healthzCheckStatus" where
  "healthz_update h now state message =
     h\<lparr>Message := message,
       LastUpdateTime := now,
       UnhealthyStartTime :=
         (if State h = HealthzCheckStateReady \<and> state \<noteq> HealthzCheckStateReady then now
          else UnhealthyStartTime h),
       State := state\<rparr>"

definition RegisterReportCheck ::
  "(string \<rightharpoonup> healthzCheckStatus) \<Rightarrow> string \<Rightarrow> int \<Rightarrow> string \<Rightarrow> (string \<rightharpoonup> healthzCheckStatus)" where
  "RegisterReportCheck healthzCheckMap name timeout initState =
     (case healthzCheckMap name of
        Some origin \<Rightarrow> healthzCheckMap
      | None \<Rightarrow>
          healthzCheckMap(name \<mapsto>
            \<lparr>State = initState, Message = InitMessage, LastUpdateTime = 0,
             Mode = HealthzCheckModeReport, TimeoutPeriod = timeout, UnhealthyStartTime = 0,
             TolerationPeriod = 0, temporary = False, count = 0\<rparr>))"

definition UpdateHealthzState ::
  "(string \<rightharpoonup> healthzCheckStatus) \<Rightarrow> int \<Rightarrow> string \<Rightarrow> string \<Rightarrow> string
     \<Rightarrow> error option \<times> (string \<rightharpoonup> healthzCheckStatus)" where
  "UpdateHealthzState healthzCheckMap now name state message =
     (case healthzCheckMap name of
        None \<Rightarrow> (Some (Error ''check rule not found''), healthzCheckMap)
      | Some status \<Rightarrow> (None, healthzCheckMap(name \<mapsto> healthz_update status now state message)))"

definition UpdateHealthzStateByError ::
  "(string \<rightharpoonup> healthzCheckStatus) \<Rightarrow> int \<Rightarrow> string \<Rightarrow> error option
     \<Rightarrow> error option \<times> (string \<rightharpoonup> healthzCheckStatus)" where
  "UpdateHealthzStateByError healthzCheckMap now name err =
     (case err of
        Some (Error msg) \<Rightarrow> UpdateHealthzState healthzCheckMap now name HealthzCheckStateNotReady msg
      | Some _ \<Rightarrow> UpdateHealthzState healthzCheckMap now name HealthzCheckStateNotReady ''error''
      | None \<Rightarrow> UpdateHealthzState healthzCheckMap now name HealthzCheckStateReady [])"

text \<open>The body of the loop of \<^verbatim>\<open>GetRegisterReadinessCheckResult\<close>, for one check.\<close>

definition readinessOf :: "int \<Rightarrow> healthzCheckStatus \<Rightarrow> HealthzCheckResult" where
  "readinessOf now checkStatus =
     (if Mode checkStatus = HealthzCheckModeHeartBeat then
        (let timedOut = (TimeoutPeriod checkStatus > 0
                          \<and> now - LastUpdateTime checkStatus > TimeoutPeriod checkStatus);
             ready1 = (if timedOut then False else True);
             message = (if timedOut then ''the status has not been updated''
                        else Message checkStatus);
             ready2 = (if TolerationPeriod checkStatus \<le> 0
                          \<and> State checkStatus \<noteq> HealthzCheckStateReady
                       then False else ready1);
             ready3 = (if TolerationPeriod checkStatus > 0
                          \<and> now - UnhealthyStartTime checkStatus > TolerationPeriod checkStatus
                          \<and> State checkStatus \<noteq> HealthzCheckStateReady
                       then False else ready2)
         in \<lparr>Ready = ready3, ResultMessage = message\<rparr>)
      else if Mode checkStatus = HealthzCheckModeReport then
        (if TimeoutPeriod checkStatus > 0 \<and> LastUpdateTime checkStatus \<noteq> 0
            \<and> LastUpdateTime checkStatus < now + (- TimeoutPeriod checkStatus)
         then \<lparr>Ready = False, ResultMessage = ''timeout''\<rparr>
         else \<lparr>Ready = (State checkStatus = HealthzCheckStateReady),
               ResultMessage = Message checkStatus\<rparr>)
      else \<lparr>Ready = True, ResultMessage = Message checkStatus\<rparr>)"

definition GetRegisterReadinessCheckResult ::
  "(string \<rightharpoonup> healthzCheckStatus) \<Rightarrow> int \<Rightarrow> (string \<rightharpoonup> HealthzCheckResult)" where
  "GetRegisterReadinessCheckResult healthzCheckMap now =
     (\<lambda>name. case healthzCheckMap name of
                None \<Rightarrow> None
              | Some checkStatus \<Rightarrow> Some (readinessOf now checkStatus))"

text \<open>
  The test of the report-mode branch: the last report is stale when the timeout is
  positive, the check has been updated at all, and the last update is more than the
  timeout ago.
\<close>

definition reportIsStale :: "int \<Rightarrow> healthzCheckStatus \<Rightarrow> bool" where
  "reportIsStale now checkStatus =
     (TimeoutPeriod checkStatus > 0 \<and> LastUpdateTime checkStatus \<noteq> 0
        \<and> LastUpdateTime checkStatus < now + (- TimeoutPeriod checkStatus))"

text \<open>
  A report-mode check with a timeout of 10 s, registered as ready; its caller reports one
  failure at time \<open>t0\<close> and nothing afterwards.
\<close>

definition reportedFailure :: "int \<Rightarrow> (string \<rightharpoonup> healthzCheckStatus)" where
  "reportedFailure t0 =
     snd (UpdateHealthzState
            (RegisterReportCheck Map.empty ''check'' 10000000000 HealthzCheckStateReady)
            t0 ''check'' HealthzCheckStateNotReady ''boom'')"

lemmas healthz_defs =
  GetRegisterReadinessCheckResult_def reportedFailure_def UpdateHealthzState_def
  RegisterReportCheck_def healthz_update_def readinessOf_def reportIsStale_def
  HealthzCheckModeReport_def HealthzCheckModeHeartBeat_def HealthzCheckStateReady_def
  HealthzCheckStateNotReady_def InitMessage_def

text \<open>In report mode a check whose state is not ready is never reported ready.\<close>

lemma report_mode_not_ready:
  "Mode s = HealthzCheckModeReport \<Longrightarrow> State s \<noteq> HealthzCheckStateReady \<Longrightarrow>
     Ready (readinessOf now s) = False"
  by (simp add: readinessOf_def HealthzCheckModeReport_def HealthzCheckModeHeartBeat_def)

lemma report_mode_readinessOf:
  "Mode s = HealthzCheckModeReport \<Longrightarrow>
     readinessOf now s =
       (if reportIsStale now s then \<lparr>Ready = False, ResultMessage = ''timeout''\<rparr>
        else \<lparr>Ready = (State s = HealthzCheckStateReady), ResultMessage = Message s\<rparr>)"
  by (simp add: readinessOf_def reportIsStale_def HealthzCheckModeReport_def
      HealthzCheckModeHeartBeat_def)

text \<open>
  Claim C9 as stated fails: the check of \<open>reportedFailure\<close> is in report mode, its last
  report, at 1000 ns, is a failure, and 1 ns past the timeout of 10 s with no further
  report it is reported as not ready, with the message "timeout".
\<close>

theorem stale_failure_report_is_not_ready:
  "map_option Mode (reportedFailure 1000 ''check'') = Some HealthzCheckModeReport \<and>
   map_option State (reportedFailure 1000 ''check'') = Some HealthzCheckStateNotReady \<and>
   map_option LastUpdateTime (reportedFailure 1000 ''check'') = Some 1000 \<and>
   map_option TimeoutPeriod (reportedFailure 1000 ''check'') = Some 10000000000 \<and>
   GetRegisterReadinessCheckResult (reportedFailure 1000) (1000 + 10000000000 + 1) ''check'' =
     Some \<lparr>Ready = False, ResultMessage = ''timeout''\<rparr>"
  by (simp add: healthz_defs)

text \<open>
  Claim C9, amended. A report-mode check does not recover by itself.
  \<^verbatim>\<open>GetRegisterReadinessCheckResult\<close> reports it ready exactly when its last reported
  state is ready and that report is not stale; a stale check is reported as not ready
  with the message "timeout", and a check that is not stale reports its own message.
  After a failure report the check is reported as not ready at every time, whatever the
  clock reads, as long as no other report follows.
\<close>

theorem report_mode_ready_iff_fresh_ready_report:
  assumes reg: "healthzCheckMap name = Some s"
    and mode: "Mode s = HealthzCheckModeReport"
  shows "(\<exists>r. GetRegisterReadinessCheckResult healthzCheckMap now name = Some r \<and>
            (Ready r \<longleftrightarrow> State s = HealthzCheckStateReady \<and> \<not> reportIsStale now s) \<and>
            (reportIsStale now s \<longrightarrow> ResultMessage r = ''timeout'') \<and>
            (\<not> reportIsStale now s \<longrightarrow> ResultMessage r = Message s)) \<and>
         (\<exists>r. GetRegisterReadinessCheckResult
                 (snd (UpdateHealthzState healthzCheckMap t0 name HealthzCheckStateNotReady msg))
                 later name = Some r \<and> \<not> Ready r)"
proof
  show "\<exists>r. GetRegisterReadinessCheckResult healthzCheckMap now name = Some r \<and>
           (Ready r \<longleftrightarrow> State s = HealthzCheckStateReady \<and> \<not> reportIsStale now s) \<and>
           (reportIsStale now s \<longrightarrow> ResultMessage r = ''timeout'') \<and>
           (\<not> reportIsStale now s \<longrightarrow> ResultMessage r = Message s)"
    by (simp add: GetRegisterReadinessCheckResult_def reg report_mode_readinessOf [OF mode])
  let ?s = "healthz_update s t0 HealthzCheckStateNotReady msg"
  have m: "Mode ?s = HealthzCheckModeReport" by (simp add: healthz_update_def mode)
  have st: "State ?s \<noteq> HealthzCheckStateReady"
    by (simp add: healthz_update_def HealthzCheckStateNotReady_def HealthzCheckStateReady_def)
  have "GetRegisterReadinessCheckResult
          (snd (UpdateHealthzState healthzCheckMap t0 name HealthzCheckStateNotReady msg))
          later name = Some (readinessOf later ?s)"
    by (simp add: GetRegisterReadinessCheckResult_def UpdateHealthzState_def reg)
  with report_mode_not_ready [OF m st, of later]
  show "\<exists>r. GetRegisterReadinessCheckResult
                (snd (UpdateHealthzState healthzCheckMap t0 name HealthzCheckStateNotReady msg))
                later name = Some r \<and> \<not> Ready r"
    by simp
qed

text \<open>
  A check registered as ready and never updated is reported ready; after the failure report
  at 1000 ns it is reported as not ready with the caller's message while the report is
  fresh, and with the message "timeout" once it is stale.
\<close>

theorem report_mode_ready_iff_fresh_ready_report_witness:
  "map_option Mode
     (RegisterReportCheck Map.empty ''check'' 10000000000 HealthzCheckStateReady ''check'') =
     Some HealthzCheckModeReport \<and>
   GetRegisterReadinessCheckResult
     (RegisterReportCheck Map.empty ''check'' 10000000000 HealthzCheckStateReady) 5000 ''check'' =
     Some \<lparr>Ready = True, ResultMessage = ''Init''\<rparr> \<and>
   GetRegisterReadinessCheckResult (reportedFailure 1000) 5000 ''check'' =
     Some \<lparr>Ready = False, ResultMessage = ''boom''\<rparr> \<and>
   GetRegisterReadinessCheckResult (reportedFailure 1000) (1000 + 10000000000 + 1) ''check'' =
     Some \<lparr>Ready = False, ResultMessage = ''timeout''\<rparr>"
proof -
  let ?m0 = "RegisterReportCheck Map.empty ''check'' 10000000000 HealthzCheckStateReady"
  let ?s0 = "the (?m0 ''check'')"
  let ?s1 = "the (reportedFailure 1000 ''check'')"
  have reg0: "?m0 ''check'' = Some ?s0" by (simp add: healthz_defs)
  have mode0: "Mode ?s0 = HealthzCheckModeReport" by (simp add: healthz_defs)
  have reg1: "reportedFailure 1000 ''check'' = Some ?s1" by (simp add: healthz_defs)
  have mode1: "Mode ?s1 = HealthzCheckModeReport" by (simp add: healthz_defs)
  have a: "map_option Mode (?m0 ''check'') = Some HealthzCheckModeReport"
    by (simp add: healthz_defs)
  from report_mode_ready_iff_fresh_ready_report [of ?m0 "''check''" ?s0 5000 0 "[]" 0, OF reg0 mode0]
  have b: "GetRegisterReadinessCheckResult ?m0 5000 ''check'' =
      Some \<lparr>Ready = True, ResultMessage = ''Init''\<rparr>"
    by (simp add: healthz_defs)
  from report_mode_ready_iff_fresh_ready_report
      [of "reportedFailure 1000" "''check''" ?s1 5000 0 "[]" 0, OF reg1 mode1]
  have c: "GetRegisterReadinessCheckResult (reportedFailure 1000) 5000 ''check'' =
      Some \<lparr>Ready = False, ResultMessage = ''boom''\<rparr>"
    by (simp add: healthz_defs)
  from report_mode_ready_iff_fresh_ready_report
      [of "reportedFailure 1000" "''check''" ?s1 "1000 + 10000000000 + 1" 0 "[]" 0, OF reg1 mode1]
  have d: "GetRegisterReadinessCheckResult (reportedFailure 1000) (1000 + 10000000000 + 1) ''check'' =
      Some \<lparr>Ready = False, ResultMessage = ''timeout''\<rparr>"
    by (simp add: healthz_defs)
  from a b c d show ?thesis by blast
qed

section \<open>Regions and control knobs\<close>

datatype QoSRegionType =
  QoSRegionTypeShare | QoSRegionTypeIsolation | QoSRegionTypeDedicatedNumaExclusive

datatype ControlKnobName =
  ControlKnobNonReclaimedCPURequirement
| ControlKnobNonReclaimedCPURequirementUpper
| ControlKnobNonReclaimedCPURequirementLower
| ControlKnobReclaimedCPUQuota

text \<open>
  A \<^verbatim>\<open>types.ControlKnob\<close> maps a knob name to an item, of which the code reads the
  \<^verbatim>\<open>Value\<close>. Indexing a Go map with a missing key yields the zero item, whose value
  is 0.
\<close>

type_synonym ControlKnob = "ControlKnobName \<rightharpoonup> real"

definition knobValue :: "ControlKnob \<Rightarrow> ControlKnobName \<Rightarrow> real" where
  "knobValue controlKnob name = (case controlKnob name of None \<Rightarrow> 0 | Some v \<Rightarrow> v)"

text \<open>
  A \<^verbatim>\<open>region.QoSRegion\<close> is an interface; the record holds what its methods return:
  \<^verbatim>\<open>Name()\<close>, \<^verbatim>\<open>Type()\<close>, \<^verbatim>\<open>OwnerPoolName()\<close>, \<^verbatim>\<open>IsNumaBinding()\<close>,
  \<^verbatim>\<open>GetBindingNumas().ToSliceInt()\<close> (a sorted slice), \<^verbatim>\<open>GetProvision()\<close>,
  \<^verbatim>\<open>GetPodsRequest()\<close>, the pod UIDs of \<^verbatim>\<open>GetPods()\<close>, \<^verbatim>\<open>EnableReclaim()\<close>,
  \<^verbatim>\<open>IsEmpty()\<close>, and the flag that \<^verbatim>\<open>SetThrottled\<close> writes.
\<close>

record QoSRegion =
  RegionName :: string
  RegionType :: QoSRegionType
  RegionOwnerPoolName :: string
  RegionIsNumaBinding :: bool
  GetBindingNumas :: "int list"
  GetProvision :: "error + ControlKnob"
  GetPodsRequest :: real
  GetPods :: "string list"
  EnableReclaim :: bool
  IsEmpty :: bool
  Throttled :: bool

text \<open>
  Modelled from the spec: \<^verbatim>\<open>commonstate.FakedNUMAID\<close>, whose source is missing, is the
  sentinel -1 that stands for "any NUMA".
\<close>

definition FakedNUMAID :: int where
  "FakedNUMAID = - 1"

section \<open>The CPU advisor (package cpu)\<close>

subsection \<open>Assigning a container to regions\<close>

text \<open>
  The configuration and the lookups of the advisor that \<^verbatim>\<open>assignToRegions\<close> uses. The
  lookups and the region constructors are not part of the modelled code and are taken as
  given functions.
\<close>

record assignEnv =
  EnableShareCoresNumaBinding :: bool
  IsolationForceEnablePools :: "string set"
  IsolationNonExclusivePools :: "string set"
  getPoolRegions :: "string \<Rightarrow> QoSRegion list"
  getRegionsByRegionNames :: "string list \<Rightarrow> QoSRegion list"
  getContainerRegions :: "ContainerInfo \<Rightarrow> QoSRegionType \<Rightarrow> error + QoSRegion list"
  NewQoSRegionIsolation :: "ContainerInfo \<Rightarrow> string \<Rightarrow> int \<Rightarrow> QoSRegion"
  NewQoSRegionShare :: "ContainerInfo \<Rightarrow> int \<Rightarrow> QoSRegion"
  NewQoSRegionDedicatedNumaExclusive :: "ContainerInfo \<Rightarrow> int \<Rightarrow> QoSRegion"

text \<open>
  The second half of \<^verbatim>\<open>assignShareContainerToRegions\<close>, from the comment "assign
  isolated container" on, for the NUMA id that the first half has chosen. A returned slice
  is a list; the \<^verbatim>\<open>nil\<close> slice is the empty list.
\<close>

definition shareContainerRegions :: "assignEnv \<Rightarrow> ContainerInfo \<Rightarrow> int \<Rightarrow> error + QoSRegion list" where
  "shareContainerRegions env ci numaID =
     (if Isolated ci \<or> OriginOwnerPoolName ci \<in> IsolationForceEnablePools env then
        (if OriginOwnerPoolName ci \<in> IsolationNonExclusivePools env then
           (if length (getPoolRegions env (OriginOwnerPoolName ci)) > 0
            then Inr (getPoolRegions env (OriginOwnerPoolName ci))
            else if length (getRegionsByRegionNames env [OriginOwnerPoolName ci]) > 0
            then Inr (getRegionsByRegionNames env [OriginOwnerPoolName ci])
            else Inr [NewQoSRegionIsolation env ci (OriginOwnerPoolName ci) numaID])
         else
           (case getContainerRegions env ci QoSRegionTypeIsolation of
              Inl err \<Rightarrow> Inl err
            | Inr regions \<Rightarrow>
                if length regions > 0 then Inr regions
                else Inr [NewQoSRegionIsolation env ci [] numaID]))
      else if length (getPoolRegions env (OriginOwnerPoolName ci)) > 0
      then Inr (getPoolRegions env (OriginOwnerPoolName ci))
      else Inr [NewQoSRegionShare env ci numaID])"

text \<open>
  \<^verbatim>\<open>assignShareContainerToRegions\<close>. The return of no region and no error is
  \<open>Inr []\<close>. The threshold of the third check is the source's literal \<^verbatim>\<open>1e9\<close>.
\<close>

definition assignShareContainerToRegions :: "assignEnv \<Rightarrow> ContainerInfo \<Rightarrow> error + QoSRegion list" where
  "assignShareContainerToRegions env ci =
     (if EnableShareCoresNumaBinding env \<and> IsNumaBinding ci then
        (if OwnerPoolName ci = [] then Inl (Error ''empty owner pool name'')
         else
           (case TopologyAwareAssignments ci of
              [key] \<Rightarrow> shareContainerRegions env ci key
            | _ \<Rightarrow> Inl (Error ''invalid topology aware assignments of container'')))
      else if RampUp ci then Inr []
      else if OwnerPoolName ci = [] \<and> \<bar>CPURequest ci\<bar> < 1000000000 then Inr []
      else if \<not> RampUp ci \<and> OwnerPoolName ci = [] then Inl (Error ''empty owner pool name'')
      else shareContainerRegions env ci FakedNUMAID)"

definition assignDedicatedContainerToRegions :: "assignEnv \<Rightarrow> ContainerInfo \<Rightarrow> error + QoSRegion list" where
  "assignDedicatedContainerToRegions env ci =
     (case getContainerRegions env ci QoSRegionTypeDedicatedNumaExclusive of
        Inl err \<Rightarrow> Inl err
      | Inr regions \<Rightarrow>
          if length regions > 0 then Inr regions
          else Inr (regions @ map (NewQoSRegionDedicatedNumaExclusive env ci)
                                  (TopologyAwareAssignments ci)))"

text \<open>\<^verbatim>\<open>assignToRegions\<close>; the argument \<open>None\<close> is the \<^verbatim>\<open>nil\<close> container.\<close>

definition assignToRegions :: "assignEnv \<Rightarrow> ContainerInfo option \<Rightarrow> error + QoSRegion list" where
  "assignToRegions env c =
     (case c of
        None \<Rightarrow> Inl (Error ''container info is nil'')
      | Some ci \<Rightarrow>
          (case QoSLevel ci of
             SharedCores \<Rightarrow> assignShareContainerToRegions env ci
           | DedicatedCores \<Rightarrow> assignDedicatedContainerToRegions env ci
           | _ \<Rightarrow> Inr []))"


subsection \<open>One tick of the advisor\<close>

text \<open>
  The advisor's state: the fields of \<^verbatim>\<open>cpuResourceAdvisor\<close> that the tick and the
  assemblers use (\<open>regionMap\<close> lists the values of the Go map, in the order in which a loop
  over the map visits them), the containers of the meta cache, and the number of times the
  update duration metric has been stored in the emitter (the deferred function of
  \<^verbatim>\<open>updateWithIsolationGuardian\<close> stores it once per run). The mutex is not modelled:
  \<^verbatim>\<open>update\<close> and \<^verbatim>\<open>GetHeadroom\<close> run one at a time.
\<close>

record cpuResourceAdvisor =
  advisorUpdated :: bool
  regionMap :: "QoSRegion list"
  reservedForReclaim :: "int \<rightharpoonup> int"
  numaAvailable :: "int \<rightharpoonup> int"
  numRegionsPerNuma :: "int \<rightharpoonup> int"
  nonBindingNumas :: "int list"
  allowSharedCoresOverlapReclaimedCores :: bool
  containers :: "ContainerInfo list"
  updateDurationStored :: nat

text \<open>
  The collaborators of a tick, which are not part of the modelled code. Each is typed by what
  it can write: none of them can write \<open>advisorUpdated\<close>, which only
  \<^verbatim>\<open>updateWithIsolationGuardian\<close> assigns. \<open>provisionAssembler\<close> and
  \<open>headroomAssembler\<close> are \<open>None\<close> when the field is \<^verbatim>\<open>nil\<close>.
\<close>

record ('r, 'h) advisorEnv =
  reservePoolInfo :: bool
  GetIsolatedPods :: "string list"
  CPUDetailsNUMANodes :: "int list"
  CPUSizeInNUMAs :: "int list \<Rightarrow> int"
  confAllowSharedCoresOverlapReclaimedCores :: bool
  updateNumasAvailableResource :: "cpuResourceAdvisor \<Rightarrow> (int \<rightharpoonup> int)"
  assignContainersToRegions ::
    "QoSRegion list \<Rightarrow> ContainerInfo list \<Rightarrow> error option \<times> QoSRegion list \<times> ContainerInfo list"
  updateRegionPolicies :: "cpuResourceAdvisor \<Rightarrow> QoSRegion list"
  provisionAssembler :: "(cpuResourceAdvisor \<Rightarrow> (error + 'r) \<times> QoSRegion list) option"
  updateRegionStatus :: "QoSRegion list \<Rightarrow> QoSRegion list"
  headroomAssembler :: "(cpuResourceAdvisor \<Rightarrow> error + 'h) option"

definition setIsolatedContainers ::
  "('r, 'h) advisorEnv \<Rightarrow> bool \<Rightarrow> cpuResourceAdvisor \<Rightarrow> bool \<times> cpuResourceAdvisor" where
  "setIsolatedContainers env enableIsolated cra =
     (let isolatedPods = (if enableIsolated then GetIsolatedPods env else [])
      in (length isolatedPods > 0,
          cra\<lparr>containers :=
                map (\<lambda>ci. ci\<lparr>Isolated := (PodUID ci \<in> set isolatedPods)\<rparr>) (containers cra)\<rparr>))"

definition gcRegionMap :: "cpuResourceAdvisor \<Rightarrow> cpuResourceAdvisor" where
  "gcRegionMap cra = cra\<lparr>regionMap := filter (\<lambda>r. \<not> IsEmpty r) (regionMap cra)\<rparr>"

text \<open>\<^verbatim>\<open>CPUSet.Difference\<close> on the slices of NUMA ids.\<close>

definition Difference :: "int list \<Rightarrow> int list \<Rightarrow> int list" where
  "Difference s1 s2 = filter (\<lambda>x. x \<notin> set s2) s1"

definition updateAdvisorEssentials ::
  "('r, 'h) advisorEnv \<Rightarrow> cpuResourceAdvisor \<Rightarrow> cpuResourceAdvisor" where
  "updateAdvisorEssentials env cra =
     (let nonBinding =
            fold (\<lambda>r numas.
                    if \<not> RegionIsNumaBinding r then numas
                    else if RegionType r = QoSRegionTypeDedicatedNumaExclusive
                            \<or> RegionType r = QoSRegionTypeShare
                    then Difference numas (GetBindingNumas r)
                    else numas)
                 (regionMap cra) (CPUDetailsNUMANodes env);
          reset = fold (\<lambda>numaID m. m(numaID \<mapsto> 0)) (CPUDetailsNUMANodes env) (numRegionsPerNuma cra);
          regions =
            map (\<lambda>r. if \<not> RegionIsNumaBinding r \<and> RegionType r = QoSRegionTypeShare
                      then r\<lparr>GetBindingNumas := nonBinding\<rparr> else r)
                (regionMap cra);
          counted =
            fold (\<lambda>r m. fold (\<lambda>numaID m'.
                                  m'(numaID \<mapsto> (case m' numaID of None \<Rightarrow> 0 | Some n \<Rightarrow> n) + 1))
                               (GetBindingNumas r) m)
                 regions reset
      in cra\<lparr>nonBindingNumas := nonBinding,
              allowSharedCoresOverlapReclaimedCores := confAllowSharedCoresOverlapReclaimedCores env,
              regionMap := regions,
              numRegionsPerNuma := counted\<rparr>)"

text \<open>
  The loop of \<^verbatim>\<open>checkIsolationSafety\<close> over the regions; \<open>None\<close> is the early
  \<^verbatim>\<open>return false\<close> when a share region has no provision.
\<close>

fun shareAndIsolationPoolSize :: "ContainerInfo list \<Rightarrow> QoSRegion list \<Rightarrow> int \<Rightarrow> int option" where
  "shareAndIsolationPoolSize cs [] poolSize = Some poolSize"
| "shareAndIsolationPoolSize cs (r # rs) poolSize =
     (if RegionType r = QoSRegionTypeShare then
        (case GetProvision r of
           Inl err \<Rightarrow> None
         | Inr controlKnob \<Rightarrow>
             shareAndIsolationPoolSize cs rs
               (poolSize + go_int (knobValue controlKnob ControlKnobNonReclaimedCPURequirement)))
      else if RegionType r = QoSRegionTypeIsolation then
        shareAndIsolationPoolSize cs rs
          (poolSize + (\<Sum>ci\<leftarrow>filter (\<lambda>ci. PodUID ci \<in> set (GetPods r)) cs. go_int (CPULimit ci)))
      else shareAndIsolationPoolSize cs rs poolSize)"

definition checkIsolationSafety :: "('r, 'h) advisorEnv \<Rightarrow> cpuResourceAdvisor \<Rightarrow> bool" where
  "checkIsolationSafety env cra =
     (case shareAndIsolationPoolSize (containers cra) (regionMap cra) 0 of
        None \<Rightarrow> False
      | Some poolSize \<Rightarrow>
          if poolSize > CPUSizeInNUMAs env (nonBindingNumas cra) then False else True)"

text \<open>
  The steps of \<^verbatim>\<open>updateWithIsolationGuardian\<close> up to \<^verbatim>\<open>updateAdvisorEssentials\<close>:
  the error of an early return with the state at that point, or whether isolated pods exist
  with the state on which the safety check runs.
\<close>

definition prepareRegions ::
  "('r, 'h) advisorEnv \<Rightarrow> bool \<Rightarrow> cpuResourceAdvisor
     \<Rightarrow> (error \<times> cpuResourceAdvisor) + (bool \<times> cpuResourceAdvisor)" where
  "prepareRegions env tryIsolation cra =
     (if \<not> reservePoolInfo env then Inl (Error ''reserve pool does not exist'', cra)
      else
        (let cra1 = cra\<lparr>numaAvailable := updateNumasAvailableResource env cra\<rparr>;
             (isolationExists, cra2) = setIsolatedContainers env tryIsolation cra1;
             (err, regions, cs) = assignContainersToRegions env (regionMap cra2) (containers cra2);
             cra3 = cra2\<lparr>regionMap := regions, containers := cs\<rparr>
         in case err of
              Some e \<Rightarrow> Inl (Error ''failed to assign containers to regions'', cra3)
            | None \<Rightarrow> Inr (isolationExists, updateAdvisorEssentials env (gcRegionMap cra3))))"

text \<open>
  \<^verbatim>\<open>updateWithIsolationGuardian\<close> without its deferred function. The loop that sets
  the essentials of every region and updates its provision and headroom policies is the
  collaborator \<open>updateRegionPolicies\<close>; \<^verbatim>\<open>updateRegionEntries\<close> and
  \<^verbatim>\<open>emitMetrics\<close> write to the meta cache's region entries and to the emitter only,
  which the state does not hold. A missing provision assembler and a failing one both end
  in the error "failed to assemble provisioner".
\<close>

definition guardianBody ::
  "('r, 'h) advisorEnv \<Rightarrow> bool \<Rightarrow> cpuResourceAdvisor \<Rightarrow> (error + 'r) \<times> cpuResourceAdvisor" where
  "guardianBody env tryIsolation cra =
     (case prepareRegions env tryIsolation cra of
        Inl (e, cra') \<Rightarrow> (Inl e, cra')
      | Inr (isolationExists, cra4) \<Rightarrow>
          if tryIsolation \<and> isolationExists \<and> \<not> checkIsolationSafety env cra4
          then (Inl ErrIsolationSafetyCheckFailed, cra4)
          else
            (let cra5 = cra4\<lparr>regionMap := updateRegionPolicies env cra4\<rparr>;
                 cra6 = cra5\<lparr>advisorUpdated := True\<rparr>
             in case provisionAssembler env of
                  None \<Rightarrow> (Inl (Error ''failed to assemble provisioner''), cra6)
                | Some assemble \<Rightarrow>
                    (case assemble cra6 of
                       (Inl e, regions) \<Rightarrow>
                         (Inl (Error ''failed to assemble provisioner''), cra6\<lparr>regionMap := regions\<rparr>)
                     | (Inr calculationResult, regions) \<Rightarrow>
                         (Inr calculationResult,
                          cra6\<lparr>regionMap := updateRegionStatus env regions\<rparr>))))"

definition updateWithIsolationGuardian ::
  "('r, 'h) advisorEnv \<Rightarrow> bool \<Rightarrow> cpuResourceAdvisor \<Rightarrow> (error + 'r) \<times> cpuResourceAdvisor" where
  "updateWithIsolationGuardian env tryIsolation cra =
     (case guardianBody env tryIsolation cra of
        (res, cra') \<Rightarrow> (res, cra'\<lparr>updateDurationStored := Suc (updateDurationStored cra')\<rparr>))"

text \<open>\<^verbatim>\<open>update\<close>: the error is compared with the sentinel by identity.\<close>

definition update :: "('r, 'h) advisorEnv \<Rightarrow> cpuResourceAdvisor \<Rightarrow> (error + 'r) \<times> cpuResourceAdvisor" where
  "update env cra =
     (case updateWithIsolationGuardian env True cra of
        (Inl err, cra') \<Rightarrow>
          if err = ErrIsolationSafetyCheckFailed then updateWithIsolationGuardian env False cra'
          else (Inl err, cra')
      | (Inr result, cra') \<Rightarrow> (Inr result, cra'))"

text \<open>\<^verbatim>\<open>cpuResourceAdvisor.GetHeadroom\<close>.\<close>

definition GetHeadroom_cra :: "('r, 'h) advisorEnv \<Rightarrow> cpuResourceAdvisor \<Rightarrow> error + 'h" where
  "GetHeadroom_cra env cra =
     (if \<not> advisorUpdated cra then Inl (Error ''advisor not updated'')
      else case headroomAssembler env of
             None \<Rightarrow> Inl (Error ''no legal assembler'')
           | Some assembler \<Rightarrow> assembler cra)"


section \<open>Properties of the advisor\<close>

lemma assignToRegions_shared_nonbinding:
  assumes "QoSLevel ci = SharedCores" and "\<not> IsNumaBinding ci"
  shows "assignToRegions env (Some ci) =
     (if RampUp ci then Inr []
      else if OwnerPoolName ci = [] \<and> \<bar>CPURequest ci\<bar> < 1000000000 then Inr []
      else if OwnerPoolName ci = [] then Inl (Error ''empty owner pool name'')
      else shareContainerRegions env ci FakedNUMAID)"
  using assms by (simp add: assignToRegions_def assignShareContainerToRegions_def)

text \<open>
  Claim C4, as amended. A shared-cores container that does not bind to a NUMA is assigned to
  no region, with no error, when it is in ramp-up; when it is not in ramp-up and its owner
  pool name is empty, it is skipped in the same way if it carries no CPU request, and region
  assignment returns an error if the magnitude of its CPU request is at least the source's
  threshold \<^verbatim>\<open>1e9\<close>.
\<close>

theorem shared_nonbinding_rampup_and_empty_pool:
  assumes "QoSLevel ci = SharedCores" and "\<not> IsNumaBinding ci"
  shows "(RampUp ci \<longrightarrow> assignToRegions env (Some ci) = Inr []) \<and>
         (\<not> RampUp ci \<and> OwnerPoolName ci = [] \<and> CPURequest ci = 0 \<longrightarrow>
            assignToRegions env (Some ci) = Inr []) \<and>
         (\<not> RampUp ci \<and> OwnerPoolName ci = [] \<and> 1000000000 \<le> \<bar>CPURequest ci\<bar> \<longrightarrow>
            assignToRegions env (Some ci) = Inl (Error ''empty owner pool name''))"
  unfolding assignToRegions_shared_nonbinding [OF assms] by simp

definition idleAssignEnv :: assignEnv where
  "idleAssignEnv =
     \<lparr>EnableShareCoresNumaBinding = False,
      IsolationForceEnablePools = {},
      IsolationNonExclusivePools = {},
      getPoolRegions = (\<lambda>_. []),
      getRegionsByRegionNames = (\<lambda>_. []),
      getContainerRegions = (\<lambda>_ _. Inr []),
      NewQoSRegionIsolation = (\<lambda>ci name numaID.
        \<lparr>RegionName = name, RegionType = QoSRegionTypeIsolation,
         RegionOwnerPoolName = OriginOwnerPoolName ci, RegionIsNumaBinding = False,
         GetBindingNumas = [], GetProvision = Inl (Error ''no provision yet''),
         GetPodsRequest = 0, GetPods = [], EnableReclaim = False, IsEmpty = True,
         Throttled = False\<rparr>),
      NewQoSRegionShare = (\<lambda>ci numaID.
        \<lparr>RegionName = OwnerPoolName ci, RegionType = QoSRegionTypeShare,
         RegionOwnerPoolName = OwnerPoolName ci, RegionIsNumaBinding = False,
         GetBindingNumas = [], GetProvision = Inl (Error ''no provision yet''),
         GetPodsRequest = 0, GetPods = [], EnableReclaim = False, IsEmpty = True,
         Throttled = False\<rparr>),
      NewQoSRegionDedicatedNumaExclusive = (\<lambda>ci numaID.
        \<lparr>RegionName = PodUID ci, RegionType = QoSRegionTypeDedicatedNumaExclusive,
         RegionOwnerPoolName = ''dedicated'', RegionIsNumaBinding = True,
         GetBindingNumas = [numaID], GetProvision = Inl (Error ''no provision yet''),
         GetPodsRequest = 0, GetPods = [], EnableReclaim = False, IsEmpty = True,
         Throttled = False\<rparr>)\<rparr>"

text \<open>
  A shared-cores container that does not bind to a NUMA, with the given ramp-up flag and CPU
  request, and no owner pool yet.
\<close>

definition poollessContainer :: "bool \<Rightarrow> real \<Rightarrow> ContainerInfo" where
  "poollessContainer rampUp cpuRequest =
     \<lparr>PodUID = ''pod-1'', ContainerName = ''main'', QoSLevel = SharedCores,
      OwnerPoolName = [], OriginOwnerPoolName = [], TopologyAwareAssignments = [],
      CPURequest = cpuRequest, CPULimit = cpuRequest, MemoryRequest = Fin 0,
      Isolated = False, RampUp = rampUp, IsNumaBinding = False\<rparr>"

text \<open>
  Claim C4 as stated fails: a container out of ramp-up, with an empty owner pool name and no
  CPU request, is skipped without an error (the check "ignore the share pods without requests
  info" comes before the error).
\<close>

theorem empty_owner_pool_without_request_is_skipped:
  "QoSLevel (poollessContainer False 0) = SharedCores \<and>
   \<not> IsNumaBinding (poollessContainer False 0) \<and>
   \<not> RampUp (poollessContainer False 0) \<and>
   OwnerPoolName (poollessContainer False 0) = [] \<and>
   assignToRegions idleAssignEnv (Some (poollessContainer False 0)) = Inr []"
  by (simp add: poollessContainer_def assignToRegions_def assignShareContainerToRegions_def
      idleAssignEnv_def)

theorem shared_nonbinding_rampup_and_empty_pool_witness:
  "RampUp (poollessContainer True 4) \<and>
   assignToRegions idleAssignEnv (Some (poollessContainer True 4)) = Inr [] \<and>
   \<not> RampUp (poollessContainer False 0) \<and> OwnerPoolName (poollessContainer False 0) = [] \<and>
   CPURequest (poollessContainer False 0) = 0 \<and>
   assignToRegions idleAssignEnv (Some (poollessContainer False 0)) = Inr [] \<and>
   \<not> RampUp (poollessContainer False 2000000000) \<and>
   OwnerPoolName (poollessContainer False 2000000000) = [] \<and>
   1000000000 \<le> \<bar>CPURequest (poollessContainer False 2000000000)\<bar> \<and>
   assignToRegions idleAssignEnv (Some (poollessContainer False 2000000000)) =
     Inl (Error ''empty owner pool name'')"
proof -
  have q: "QoSLevel (poollessContainer r c) = SharedCores" for r c
    by (simp add: poollessContainer_def)
  have n: "\<not> IsNumaBinding (poollessContainer r c)" for r c
    by (simp add: poollessContainer_def)
  have f: "RampUp (poollessContainer r c) = r" "OwnerPoolName (poollessContainer r c) = []"
    "CPURequest (poollessContainer r c) = c" for r c
    by (simp_all add: poollessContainer_def)
  from shared_nonbinding_rampup_and_empty_pool [OF q n, of True 4 idleAssignEnv]
    shared_nonbinding_rampup_and_empty_pool [OF q n, of False 0 idleAssignEnv]
    shared_nonbinding_rampup_and_empty_pool [OF q n, of False 2000000000 idleAssignEnv]
  show ?thesis by (simp add: f)
qed


subsection \<open>The isolation retry\<close>

lemma prepareRegions_Inl:
  "prepareRegions env t cra = Inl (e, s) \<Longrightarrow>
     e \<noteq> ErrIsolationSafetyCheckFailed \<and> advisorUpdated s = advisorUpdated cra \<and>
     updateDurationStored s = updateDurationStored cra"
  by (auto simp: prepareRegions_def setIsolatedContainers_def Let_def
      split: if_splits prod.splits option.splits)

lemma prepareRegions_Inr:
  "prepareRegions env t cra = Inr (ex, s) \<Longrightarrow>
     advisorUpdated s = advisorUpdated cra \<and>
     updateDurationStored s = updateDurationStored cra \<and>
     ex = (t \<and> GetIsolatedPods env \<noteq> [])"
  by (auto simp: prepareRegions_def setIsolatedContainers_def Let_def gcRegionMap_def
      updateAdvisorEssentials_def split: if_splits prod.splits option.splits)

lemma guardianBody_cases:
  "guardianBody env t cra = (res, s) \<Longrightarrow>
     updateDurationStored s = updateDurationStored cra \<and>
     (res = Inl ErrIsolationSafetyCheckFailed \<longleftrightarrow>
        (\<exists>s'. prepareRegions env t cra = Inr (True, s') \<and> t \<and> \<not> checkIsolationSafety env s'))"
  by (auto simp: guardianBody_def Let_def
      split: sum.splits prod.splits option.splits if_splits
      dest: prepareRegions_Inl prepareRegions_Inr)


lemma guardian_count:
  "updateDurationStored (snd (updateWithIsolationGuardian env t cra)) = Suc (updateDurationStored cra)"
proof -
  obtain res s where b: "guardianBody env t cra = (res, s)" by force
  from guardianBody_cases [OF b] show ?thesis
    by (simp add: updateWithIsolationGuardian_def b)
qed

lemma guardian_sentinel_iff:
  "fst (updateWithIsolationGuardian env t cra) = Inl ErrIsolationSafetyCheckFailed \<longleftrightarrow>
     (\<exists>s'. prepareRegions env t cra = Inr (True, s') \<and> t \<and> \<not> checkIsolationSafety env s')"
proof -
  obtain res s where b: "guardianBody env t cra = (res, s)" by force
  from guardianBody_cases [OF b] show ?thesis
    by (simp add: updateWithIsolationGuardian_def b)
qed

lemma guardian_sentinel_state:
  assumes "prepareRegions env True cra = Inr (True, s)" and "\<not> checkIsolationSafety env s"
  shows "updateWithIsolationGuardian env True cra =
           (Inl ErrIsolationSafetyCheckFailed, s\<lparr>updateDurationStored := Suc (updateDurationStored s)\<rparr>)"
  using assms by (simp add: updateWithIsolationGuardian_def guardianBody_def)

lemma update_unfold:
  "update env cra =
     (if fst (updateWithIsolationGuardian env True cra) = Inl ErrIsolationSafetyCheckFailed
      then updateWithIsolationGuardian env False (snd (updateWithIsolationGuardian env True cra))
      else updateWithIsolationGuardian env True cra)"
  by (auto simp: update_def split: prod.splits sum.splits)

lemma checkIsolationSafety_exceeds:
  "shareAndIsolationPoolSize (containers s) (regionMap s) 0 = Some n \<Longrightarrow>
     CPUSizeInNUMAs env (nonBindingNumas s) < n \<Longrightarrow> \<not> checkIsolationSafety env s"
  by (simp add: checkIsolationSafety_def)

text \<open>
  Claim C3. When a tick runs with isolation enabled, isolated pods exist and the safety check
  fails on the regions just built (in particular when the share and isolation pool sizes sum
  to more than the CPUs of the non-binding NUMAs), \<^verbatim>\<open>update\<close> is the run of
  \<^verbatim>\<open>updateWithIsolationGuardian\<close> with isolation disabled, started from the state the
  first run left, and two runs are recorded. When the check passes or no isolated pod exists,
  \<^verbatim>\<open>update\<close> is the first run alone. A run with isolation disabled never fails with
  the sentinel, so there is never a third run.
\<close>

theorem update_retries_once_without_isolation:
  "(\<forall>s. prepareRegions env True cra = Inr (True, s) \<and> \<not> checkIsolationSafety env s \<longrightarrow>
        update env cra =
          updateWithIsolationGuardian env False
            (s\<lparr>updateDurationStored := Suc (updateDurationStored s)\<rparr>) \<and>
        updateDurationStored (snd (update env cra)) = updateDurationStored cra + 2) \<and>
   (\<forall>ex s. prepareRegions env True cra = Inr (ex, s) \<and> (\<not> ex \<or> checkIsolationSafety env s) \<longrightarrow>
        update env cra = updateWithIsolationGuardian env True cra \<and>
        updateDurationStored (snd (update env cra)) = updateDurationStored cra + 1) \<and>
   (\<forall>ex s. prepareRegions env True cra = Inr (ex, s) \<longrightarrow> ex = (GetIsolatedPods env \<noteq> [])) \<and>
   (\<forall>s n. shareAndIsolationPoolSize (containers s) (regionMap s) 0 = Some n \<and>
           CPUSizeInNUMAs env (nonBindingNumas s) < n \<longrightarrow> \<not> checkIsolationSafety env s) \<and>
   fst (updateWithIsolationGuardian env False cra) \<noteq> Inl ErrIsolationSafetyCheckFailed \<and>
   fst (update env cra) \<noteq> Inl ErrIsolationSafetyCheckFailed \<and>
   updateDurationStored (snd (update env cra)) \<le> updateDurationStored cra + 2"
proof (intro conjI allI impI)
  fix s
  assume a: "prepareRegions env True cra = Inr (True, s) \<and> \<not> checkIsolationSafety env s"
  then have g: "updateWithIsolationGuardian env True cra =
      (Inl ErrIsolationSafetyCheckFailed, s\<lparr>updateDurationStored := Suc (updateDurationStored s)\<rparr>)"
    by (simp add: guardian_sentinel_state)
  then show u: "update env cra =
      updateWithIsolationGuardian env False (s\<lparr>updateDurationStored := Suc (updateDurationStored s)\<rparr>)"
    by (simp add: update_unfold)
  from a prepareRegions_Inr have "updateDurationStored s = updateDurationStored cra" by blast
  then show "updateDurationStored (snd (update env cra)) = updateDurationStored cra + 2"
    unfolding u by (simp add: guardian_count)
next
  fix ex s
  assume a: "prepareRegions env True cra = Inr (ex, s) \<and> (\<not> ex \<or> checkIsolationSafety env s)"
  then have "fst (updateWithIsolationGuardian env True cra) \<noteq> Inl ErrIsolationSafetyCheckFailed"
    by (auto simp: guardian_sentinel_iff)
  then show u: "update env cra = updateWithIsolationGuardian env True cra"
    by (simp add: update_unfold)
  show "updateDurationStored (snd (update env cra)) = updateDurationStored cra + 1"
    unfolding u by (simp add: guardian_count)
next
  fix ex s
  assume "prepareRegions env True cra = Inr (ex, s)"
  from prepareRegions_Inr [OF this] show "ex = (GetIsolatedPods env \<noteq> [])" by simp
next
  fix s :: cpuResourceAdvisor and n
  assume "shareAndIsolationPoolSize (containers s) (regionMap s) 0 = Some n \<and>
           CPUSizeInNUMAs env (nonBindingNumas s) < n"
  then show "\<not> checkIsolationSafety env s" by (simp add: checkIsolationSafety_exceeds)
next
  show f: "fst (updateWithIsolationGuardian env False cra) \<noteq> Inl ErrIsolationSafetyCheckFailed" for cra
    by (simp add: guardian_sentinel_iff)
  show "fst (update env cra) \<noteq> Inl ErrIsolationSafetyCheckFailed"
    by (simp add: update_unfold f)
  show "updateDurationStored (snd (update env cra)) \<le> updateDurationStored cra + 2"
    by (simp add: update_unfold guardian_count)
qed


subsection \<open>The advisor-updated flag\<close>

lemma guardianBody_flag:
  "guardianBody env t cra = (res, s) \<Longrightarrow>
     advisorUpdated s =
       (advisorUpdated cra \<or>
        (\<exists>ex s'. prepareRegions env t cra = Inr (ex, s') \<and>
                 \<not> (t \<and> ex \<and> \<not> checkIsolationSafety env s')))"
  by (auto simp: guardianBody_def Let_def
      split: sum.splits prod.splits option.splits if_splits
      dest: prepareRegions_Inl prepareRegions_Inr)

lemma guardianBody_Inr_flag:
  "guardianBody env t cra = (Inr r, s) \<Longrightarrow> advisorUpdated s"
  by (auto simp: guardianBody_def Let_def
      split: sum.splits prod.splits option.splits if_splits)

lemma guardian_flag:
  "advisorUpdated (snd (updateWithIsolationGuardian env t cra)) =
       (advisorUpdated cra \<or>
        (\<exists>ex s'. prepareRegions env t cra = Inr (ex, s') \<and>
                 \<not> (t \<and> ex \<and> \<not> checkIsolationSafety env s')))"
proof -
  obtain res s where b: "guardianBody env t cra = (res, s)" by force
  from guardianBody_flag [OF b] show ?thesis
    by (simp add: updateWithIsolationGuardian_def b)
qed

lemma guardian_Inr_flag:
  "fst (updateWithIsolationGuardian env t cra) = Inr r \<Longrightarrow>
     advisorUpdated (snd (updateWithIsolationGuardian env t cra))"
proof -
  assume a: "fst (updateWithIsolationGuardian env t cra) = Inr r"
  obtain res s where b: "guardianBody env t cra = (res, s)" by force
  with a have "res = Inr r" by (simp add: updateWithIsolationGuardian_def)
  with b guardianBody_Inr_flag show ?thesis
    by (simp add: updateWithIsolationGuardian_def)
qed

text \<open>
  Claim C10, as amended. \<^verbatim>\<open>GetHeadroom\<close> returns an error as long as the
  advisor-updated flag is unset. A run of \<^verbatim>\<open>updateWithIsolationGuardian\<close> sets the flag
  exactly when it gets past the reserve pool check, the region assignment and the isolation
  safety check: after the regions' policies are updated and before the provision is
  assembled. Every successful tick sets it, and no tick resets it.
\<close>

theorem GetHeadroom_needs_advisorUpdated:
  "(\<not> advisorUpdated cra \<longrightarrow> GetHeadroom_cra env cra = Inl (Error ''advisor not updated'')) \<and>
   (advisorUpdated (snd (updateWithIsolationGuardian env t cra)) =
      (advisorUpdated cra \<or>
       (\<exists>ex s. prepareRegions env t cra = Inr (ex, s) \<and>
               \<not> (t \<and> ex \<and> \<not> checkIsolationSafety env s)))) \<and>
   (\<forall>r. fst (update env cra) = Inr r \<longrightarrow> advisorUpdated (snd (update env cra))) \<and>
   (advisorUpdated cra \<longrightarrow> advisorUpdated (snd (update env cra)))"
proof (intro conjI allI impI)
  assume "\<not> advisorUpdated cra"
  then show "GetHeadroom_cra env cra = Inl (Error ''advisor not updated'')"
    by (simp add: GetHeadroom_cra_def)
next
  show "advisorUpdated (snd (updateWithIsolationGuardian env t cra)) =
      (advisorUpdated cra \<or>
       (\<exists>ex s. prepareRegions env t cra = Inr (ex, s) \<and>
               \<not> (t \<and> ex \<and> \<not> checkIsolationSafety env s)))"
    by (rule guardian_flag)
next
  fix r
  assume "fst (update env cra) = Inr r"
  then show "advisorUpdated (snd (update env cra))"
    by (auto simp: update_unfold guardian_Inr_flag split: if_splits)
next
  assume "advisorUpdated cra"
  then show "advisorUpdated (snd (update env cra))"
    by (simp add: update_unfold guardian_flag)
qed

text \<open>
  A node for the examples: one NUMA of 20 CPUs; a share region whose provision asks for 16
  CPUs and an isolation region whose pod has a CPU limit of 10. The collaborators leave the
  regions as they are; the provision assembler is the argument.
\<close>

definition shareRegion16 :: QoSRegion where
  "shareRegion16 =
     \<lparr>RegionName = ''share'', RegionType = QoSRegionTypeShare, RegionOwnerPoolName = ''share'',
      RegionIsNumaBinding = False, GetBindingNumas = [],
      GetProvision = Inr [ControlKnobNonReclaimedCPURequirement \<mapsto> 16],
      GetPodsRequest = 16, GetPods = [''pod-2''], EnableReclaim = True, IsEmpty = False,
      Throttled = False\<rparr>"

definition isolationRegion10 :: QoSRegion where
  "isolationRegion10 =
     \<lparr>RegionName = ''isolation-pod-1'', RegionType = QoSRegionTypeIsolation,
      RegionOwnerPoolName = ''isolation-pod-1'',
      RegionIsNumaBinding = False, GetBindingNumas = [],
      GetProvision = Inr [ControlKnobNonReclaimedCPURequirementUpper \<mapsto> 10,
                          ControlKnobNonReclaimedCPURequirementLower \<mapsto> 4],
      GetPodsRequest = 4, GetPods = [''pod-1''], EnableReclaim = True, IsEmpty = False,
      Throttled = False\<rparr>"

definition sharedContainer :: "string \<Rightarrow> real \<Rightarrow> ContainerInfo" where
  "sharedContainer podUID cpuLimit =
     \<lparr>PodUID = podUID, ContainerName = ''main'', QoSLevel = SharedCores,
      OwnerPoolName = ''share'', OriginOwnerPoolName = ''share'', TopologyAwareAssignments = [],
      CPURequest = cpuLimit, CPULimit = cpuLimit, MemoryRequest = Fin 0,
      Isolated = False, RampUp = False, IsNumaBinding = False\<rparr>"

definition tickEnv ::
  "string list \<Rightarrow> (cpuResourceAdvisor \<Rightarrow> (error + nat) \<times> QoSRegion list) option
     \<Rightarrow> (nat, int) advisorEnv" where
  "tickEnv isolatedPods assembler =
     \<lparr>reservePoolInfo = True,
      GetIsolatedPods = isolatedPods,
      CPUDetailsNUMANodes = [0],
      CPUSizeInNUMAs = (\<lambda>numas. 20 * int (length numas)),
      confAllowSharedCoresOverlapReclaimedCores = False,
      updateNumasAvailableResource = numaAvailable,
      assignContainersToRegions = (\<lambda>regions cs. (None, regions, cs)),
      updateRegionPolicies = regionMap,
      provisionAssembler = assembler,
      updateRegionStatus = (\<lambda>regions. regions),
      headroomAssembler = Some (\<lambda>cra. Inr 4)\<rparr>"

definition countingAssembler :: "cpuResourceAdvisor \<Rightarrow> (error + nat) \<times> QoSRegion list" where
  "countingAssembler cra = (Inr (length (regionMap cra)), regionMap cra)"

definition freshAdvisor :: cpuResourceAdvisor where
  "freshAdvisor =
     \<lparr>advisorUpdated = False,
      regionMap = [shareRegion16, isolationRegion10],
      reservedForReclaim = Map.empty,
      numaAvailable = Map.empty,
      numRegionsPerNuma = Map.empty,
      nonBindingNumas = [],
      allowSharedCoresOverlapReclaimedCores = False,
      containers = [sharedContainer ''pod-1'' 10, sharedContainer ''pod-2'' 16],
      updateDurationStored = 0\<rparr>"

lemmas example_defs =
  prepareRegions_def setIsolatedContainers_def gcRegionMap_def updateAdvisorEssentials_def
  checkIsolationSafety_def tickEnv_def freshAdvisor_def shareRegion16_def isolationRegion10_def
  sharedContainer_def countingAssembler_def Difference_def knobValue_def go_int_def
  guardianBody_def updateWithIsolationGuardian_def update_def GetHeadroom_cra_def Let_def

lemma isolatedTick_prepare:
  "\<exists>s. prepareRegions (tickEnv [''pod-1''] (Some countingAssembler)) True freshAdvisor = Inr (True, s) \<and>
       \<not> checkIsolationSafety (tickEnv [''pod-1''] (Some countingAssembler)) s \<and>
       shareAndIsolationPoolSize (containers s) (regionMap s) 0 = Some 26 \<and>
       CPUSizeInNUMAs (tickEnv [''pod-1''] (Some countingAssembler)) (nonBindingNumas s) = 20"
  by (simp add: example_defs)

lemma plainTick_prepare:
  "\<exists>s. prepareRegions (tickEnv [] (Some countingAssembler)) True freshAdvisor = Inr (False, s)"
  by (simp add: example_defs)

lemma isolatedTick_result:
  "fst (update (tickEnv [''pod-1''] (Some countingAssembler)) freshAdvisor) = Inr 2"
  by (simp add: example_defs)

theorem update_retries_once_without_isolation_witness:
  "(case prepareRegions (tickEnv [''pod-1''] (Some countingAssembler)) True freshAdvisor of
      Inl _ \<Rightarrow> False
    | Inr (ex, s) \<Rightarrow>
        ex \<and> \<not> checkIsolationSafety (tickEnv [''pod-1''] (Some countingAssembler)) s \<and>
        shareAndIsolationPoolSize (containers s) (regionMap s) 0 = Some 26 \<and>
        CPUSizeInNUMAs (tickEnv [''pod-1''] (Some countingAssembler)) (nonBindingNumas s) = 20) \<and>
   updateDurationStored (snd (update (tickEnv [''pod-1''] (Some countingAssembler)) freshAdvisor)) = 2 \<and>
   fst (update (tickEnv [''pod-1''] (Some countingAssembler)) freshAdvisor) = Inr 2 \<and>
   (case prepareRegions (tickEnv [] (Some countingAssembler)) True freshAdvisor of
      Inl _ \<Rightarrow> False | Inr (ex, s) \<Rightarrow> \<not> ex) \<and>
   updateDurationStored (snd (update (tickEnv [] (Some countingAssembler)) freshAdvisor)) = 1"
proof -
  let ?E = "tickEnv [''pod-1''] (Some countingAssembler)"
  let ?F = "tickEnv [] (Some countingAssembler)"
  from isolatedTick_prepare obtain s where
    s: "prepareRegions ?E True freshAdvisor = Inr (True, s)" "\<not> checkIsolationSafety ?E s"
      "shareAndIsolationPoolSize (containers s) (regionMap s) 0 = Some 26"
      "CPUSizeInNUMAs ?E (nonBindingNumas s) = 20" by blast
  from plainTick_prepare obtain s0 where
    s0: "prepareRegions ?F True freshAdvisor = Inr (False, s0)" by blast
  have z: "updateDurationStored freshAdvisor = 0" by (simp add: freshAdvisor_def)
  from update_retries_once_without_isolation [of ?E freshAdvisor] s(1,2)
  have c2: "updateDurationStored (snd (update ?E freshAdvisor)) = 2" unfolding z by auto
  from update_retries_once_without_isolation [of ?F freshAdvisor] s0
  have c1: "updateDurationStored (snd (update ?F freshAdvisor)) = 1" unfolding z by auto
  show ?thesis using s s0 c1 c2 isolatedTick_result by simp
qed

text \<open>
  Claim C10 as stated fails: the first tick fails (the provision assembler is missing), so no
  tick has completed successfully, and yet the flag is set and \<^verbatim>\<open>GetHeadroom\<close> serves
  the headroom of the assembler.
\<close>

theorem headroom_served_after_failed_first_tick:
  "\<not> advisorUpdated freshAdvisor \<and>
   fst (update (tickEnv [] None) freshAdvisor) = Inl (Error ''failed to assemble provisioner'') \<and>
   GetHeadroom_cra (tickEnv [] None) (snd (update (tickEnv [] None) freshAdvisor)) = Inr 4"
  by (simp add: example_defs)

theorem GetHeadroom_needs_advisorUpdated_witness:
  "\<not> advisorUpdated freshAdvisor \<and>
   GetHeadroom_cra (tickEnv [] (Some countingAssembler)) freshAdvisor = Inl (Error ''advisor not updated'') \<and>
   fst (update (tickEnv [] (Some countingAssembler)) freshAdvisor) = Inr 2 \<and>
   advisorUpdated (snd (update (tickEnv [] (Some countingAssembler)) freshAdvisor)) \<and>
   advisorUpdated (snd (update (tickEnv [] (Some countingAssembler))
                     (snd (update (tickEnv [] (Some countingAssembler)) freshAdvisor))))"
proof -
  let ?F = "tickEnv [] (Some countingAssembler)"
  have n: "\<not> advisorUpdated freshAdvisor" by (simp add: freshAdvisor_def)
  have r: "fst (update ?F freshAdvisor) = Inr 2" by (simp add: example_defs)
  note T = GetHeadroom_needs_advisorUpdated [of freshAdvisor ?F]
  from T n have a: "GetHeadroom_cra ?F freshAdvisor = Inl (Error ''advisor not updated'')" by simp
  from T r have b: "advisorUpdated (snd (update ?F freshAdvisor))" by simp
  from GetHeadroom_needs_advisorUpdated [of "snd (update ?F freshAdvisor)" ?F] b
  have c: "advisorUpdated (snd (update ?F (snd (update ?F freshAdvisor))))" by simp
  from n a r b c show ?thesis by simp
qed

section \<open>The provision assembler (package provisionassembler)\<close>

text \<open>
  The source holds two implementations of \<^verbatim>\<open>ProvisionAssemblerCommon\<close>. Both keep
  pointers to the advisor's \<open>regionMap\<close>, \<open>reservedForReclaim\<close>, \<open>numaAvailable\<close>,
  \<open>nonBindingNumas\<close> and \<open>allowSharedCoresOverlapReclaimedCores\<close>, so the model reads them
  from the advisor's state. A Go \<^verbatim>\<open>map[string]int\<close> is an association list with distinct
  keys.
\<close>

subsection \<open>Helpers that are not part of the modelled code\<close>

text \<open>
  Modelled from the spec: the pool names of package \<^verbatim>\<open>commonstate\<close> (the pools
  \<^verbatim>\<open>reserve\<close> and \<^verbatim>\<open>reclaim\<close>).
\<close>

definition PoolNameReserve :: string where
  "PoolNameReserve = ''reserve''"

definition PoolNameReclaim :: string where
  "PoolNameReclaim = ''reclaim''"

text \<open>
  Modelled from the spec: \<^verbatim>\<open>getNUMAsResource\<close>, whose source is missing, sums the
  entries of a per-NUMA map over a set of NUMAs (the sum of \<open>numaAvailable\<close> over the
  non-binding NUMAs); a NUMA with no entry counts 0, as
  \<^verbatim>\<open>getNumasReservedForReclaim\<close> of the second implementation does.
\<close>

definition getNUMAsResource :: "(int \<rightharpoonup> int) \<Rightarrow> int list \<Rightarrow> int" where
  "getNUMAsResource resources numas =
     (\<Sum>numaID\<leftarrow>numas. case resources numaID of None \<Rightarrow> 0 | Some v \<Rightarrow> v)"

text \<open>
  Modelled from the spec: the result \<^verbatim>\<open>types.InternalCPUCalculationResult\<close>, whose
  source is missing: pool entries by pool name and NUMA id, each a size and a quota, and the
  overlap records by pool name, NUMA id and overlapping pool. \<^verbatim>\<open>SetPoolEntry\<close>,
  \<^verbatim>\<open>GetPoolEntry\<close> and \<^verbatim>\<open>SetPoolOverlapInfo\<close> write and read one entry. The
  time stamp is left out.
\<close>

record CPUResource =
  Size :: int
  Quota :: real

record InternalCPUCalculationResult =
  PoolEntries :: "string \<times> int \<rightharpoonup> CPUResource"
  PoolOverlapInfo :: "string \<times> int \<times> string \<rightharpoonup> int"
  AllowSharedCoresOverlapReclaimedCores :: bool

definition SetPoolEntry ::
  "string \<Rightarrow> int \<Rightarrow> int \<Rightarrow> real \<Rightarrow> InternalCPUCalculationResult \<Rightarrow> InternalCPUCalculationResult" where
  "SetPoolEntry poolName numaID poolSize quota result =
     result\<lparr>PoolEntries := (PoolEntries result)((poolName, numaID) \<mapsto> \<lparr>Size = poolSize, Quota = quota\<rparr>)\<rparr>"

definition GetPoolEntry :: "InternalCPUCalculationResult \<Rightarrow> string \<Rightarrow> int \<Rightarrow> CPUResource option" where
  "GetPoolEntry result poolName numaID = PoolEntries result (poolName, numaID)"

definition SetPoolOverlapInfo ::
  "string \<Rightarrow> int \<Rightarrow> string \<Rightarrow> int \<Rightarrow> InternalCPUCalculationResult \<Rightarrow> InternalCPUCalculationResult" where
  "SetPoolOverlapInfo poolName numaID overlapPoolName poolSize result =
     result\<lparr>PoolOverlapInfo := (PoolOverlapInfo result)((poolName, numaID, overlapPoolName) \<mapsto> poolSize)\<rparr>"

text \<open>Reading a \<^verbatim>\<open>map[string]int\<close>: a missing key reads as zero.\<close>

definition intAt :: "(string \<times> int) list \<Rightarrow> string \<Rightarrow> int" where
  "intAt m k = (case map_of m k of None \<Rightarrow> 0 | Some v \<Rightarrow> v)"

text \<open>\<^verbatim>\<open>general.SumUpMapValues\<close>.\<close>

definition SumUpMapValues :: "(string \<times> int) list \<Rightarrow> int" where
  "SumUpMapValues m = sum_list (map snd m)"

text \<open>
  \<^verbatim>\<open>RegionMapHelper.GetRegions\<close>: the regions of a type whose binding NUMAs include
  the NUMA (\<^verbatim>\<open>preProcessRegions\<close> files every region under each of its binding
  NUMAs and its type).
\<close>

definition GetRegions :: "QoSRegion list \<Rightarrow> int \<Rightarrow> QoSRegionType \<Rightarrow> QoSRegion list" where
  "GetRegions regions numaID regionType =
     filter (\<lambda>r. numaID \<in> set (GetBindingNumas r) \<and> RegionType r = regionType) regions"

text \<open>\<^verbatim>\<open>SetThrottled\<close> on a region of the map, found by its name.\<close>

definition SetThrottled :: "string \<Rightarrow> bool \<Rightarrow> QoSRegion list \<Rightarrow> QoSRegion list" where
  "SetThrottled name throttled regions =
     map (\<lambda>r. if RegionName r = name then r\<lparr>Throttled := throttled\<rparr> else r) regions"

text \<open>
  What the assemblers read besides the advisor's state: the node's reclaim switch, the size
  of the reserve pool, whether cgroup v2 unified mode is on, and the functions
  \<^verbatim>\<open>regulatePoolSizes\<close> (with the signature of each implementation),
  \<^verbatim>\<open>regulateOverlapReclaimPoolSize\<close>, \<^verbatim>\<open>helper.PodEnableReclaim\<close>,
  \<^verbatim>\<open>general.MergeMapInt\<close> and \<^verbatim>\<open>general.SortedByValue\<close> (the entries of a map as
  a slice of pairs), whose sources are missing and which are taken as given.
\<close>

record assemblerEnv =
  nodeEnableReclaim :: bool
  reservePoolSize :: int
  IsCgroup2UnifiedMode :: bool
  regulatePoolSizes ::
    "(string \<times> int) list \<Rightarrow> (string \<times> int) list \<Rightarrow> int \<Rightarrow> bool \<Rightarrow> (string \<times> int) list \<times> bool"
  regulateOverlapReclaimPoolSize :: "(string \<times> int) list \<Rightarrow> int \<Rightarrow> error + (string \<times> int) list"
  regulatePoolSizes2 ::
    "(string \<times> int) list \<Rightarrow> int \<Rightarrow> bool \<Rightarrow> bool \<Rightarrow> (string \<times> int) list \<times> bool"
  PodEnableReclaim :: "string \<Rightarrow> bool \<Rightarrow> error + bool"
  MergeMapInt :: "(string \<times> int) list \<Rightarrow> (string \<times> int) list \<Rightarrow> (string \<times> int) list"
  SortedByValue :: "(string \<times> int) list \<Rightarrow> (string \<times> int) list"

subsection \<open>The first implementation\<close>

text \<open>
  The loop of \<^verbatim>\<open>getIsolationRequirements\<close> over the isolation regions of the NUMA:
  the knobs by region name and the sum of the upper bounds, or the first error.
\<close>

fun isolationKnobs ::
  "QoSRegion list \<Rightarrow> (string \<times> ControlKnob) list \<times> int \<Rightarrow> error + ((string \<times> ControlKnob) list \<times> int)" where
  "isolationKnobs [] acc = Inr acc"
| "isolationKnobs (isolationRegion # rest) (knobs, isolationUpperSum) =
     (case GetProvision isolationRegion of
        Inl err \<Rightarrow> Inl err
      | Inr isolationControlKnob \<Rightarrow>
          isolationKnobs rest
            (AList.update (RegionName isolationRegion) isolationControlKnob knobs,
             isolationUpperSum
               + go_int (knobValue isolationControlKnob ControlKnobNonReclaimedCPURequirementUpper)))"

definition getIsolationRequirements ::
  "cpuResourceAdvisor \<Rightarrow> QoSRegion \<Rightarrow> error + (string \<times> int) list" where
  "getIsolationRequirements pa r =
     (let reserved = getNUMAsResource (reservedForReclaim pa) (GetBindingNumas r);
          available = getNUMAsResource (numaAvailable pa) (GetBindingNumas r)
                        + (if allowSharedCoresOverlapReclaimedCores pa then reserved else 0)
      in case GetBindingNumas r of
           [] \<Rightarrow> Inl (Panic ''index out of range'')
         | numaID # _ \<Rightarrow>
             (let podsRequests = max 1 \<lceil>GetPodsRequest r\<rceil>;
                  isolationRegions = GetRegions (regionMap pa) numaID QoSRegionTypeIsolation
              in case isolationKnobs isolationRegions ([], 0) of
                   Inl err \<Rightarrow> Inl err
                 | Inr (isolationRegionControlKnobs, isolationUpperSum) \<Rightarrow>
                     (let isolationRegionControlKnobKey =
                            (if length isolationRegions > 0
                                \<and> podsRequests + isolationUpperSum > available
                             then ControlKnobNonReclaimedCPURequirementLower
                             else ControlKnobNonReclaimedCPURequirementUpper)
                      in Inr (map (\<lambda>(isolationRegionName, isolationRegionControlKnob).
                                     (isolationRegionName,
                                      go_int (knobValue isolationRegionControlKnob
                                                isolationRegionControlKnobKey)))
                                  isolationRegionControlKnobs))))"

text \<open>
  The budget of a NUMA-binding share region in \<^verbatim>\<open>assembleShareNB\<close> (the variable
  \<^verbatim>\<open>available\<close>).
\<close>

definition shareNBAvailable :: "cpuResourceAdvisor \<Rightarrow> QoSRegion \<Rightarrow> int" where
  "shareNBAvailable pa r = getNUMAsResource (numaAvailable pa) (GetBindingNumas r)"

text \<open>Writing every pool of a \<^verbatim>\<open>map[string]int\<close> into the result, on one NUMA.\<close>

definition setPoolEntries ::
  "(string \<times> int) list \<Rightarrow> int \<Rightarrow> InternalCPUCalculationResult \<Rightarrow> InternalCPUCalculationResult" where
  "setPoolEntries poolSizes numaID result =
     fold (\<lambda>(poolName, poolSize). SetPoolEntry poolName numaID poolSize (- 1)) poolSizes result"

definition assembleShareNB ::
  "assemblerEnv \<Rightarrow> cpuResourceAdvisor \<Rightarrow> QoSRegion
     \<Rightarrow> InternalCPUCalculationResult \<times> QoSRegion list
     \<Rightarrow> error + (InternalCPUCalculationResult \<times> QoSRegion list)" where
  "assembleShareNB env pa r st =
     (case st of (result, regions) \<Rightarrow>
      if RegionType r \<noteq> QoSRegionTypeShare \<or> \<not> RegionIsNumaBinding r
      then Inl (Error ''region is not a SNB region'')
      else
       (case GetProvision r of
          Inl err \<Rightarrow> Inl err
        | Inr controlKnob \<Rightarrow>
       (case GetBindingNumas r of
          [] \<Rightarrow> Inl (Panic ''index out of range'')
        | regionNuma # _ \<Rightarrow>
       (let reserved = getNUMAsResource (reservedForReclaim pa) (GetBindingNumas r);
            podsRequests = max 1 \<lceil>GetPodsRequest r\<rceil>;
            available = shareNBAvailable pa r
        in case getIsolationRequirements pa r of
             Inl err \<Rightarrow> Inl err
           | Inr isolationRequirements \<Rightarrow>
       (let shareRequirements = [(RegionOwnerPoolName r, podsRequests)];
            allowExpand = (\<not> nodeEnableReclaim env \<or> allowSharedCoresOverlapReclaimedCores pa);
            (poolSizes, poolThrottled) =
               regulatePoolSizes env shareRequirements isolationRequirements available allowExpand;
            regions1 = SetThrottled (RegionName r) poolThrottled regions;
            result1 = setPoolEntries poolSizes regionNuma result;
            ownerPoolSize = intAt poolSizes (RegionOwnerPoolName r)
        in if allowSharedCoresOverlapReclaimedCores pa then
             (let reclaimedCoresAvail =
                    (if \<not> nodeEnableReclaim env then 0
                     else ownerPoolSize
                            - go_int (knobValue controlKnob ControlKnobNonReclaimedCPURequirement));
                  reclaimedCoresLimit =
                    (if IsCgroup2UnifiedMode env then
                       (case controlKnob ControlKnobReclaimedCPUQuota of
                          Some quota \<Rightarrow> quota
                        | None \<Rightarrow> real_of_int (max reserved reclaimedCoresAvail))
                     else - 1);
                  reclaimedCoresSize =
                    (if IsCgroup2UnifiedMode env then ownerPoolSize
                     else min (max reserved reclaimedCoresAvail) ownerPoolSize)
              in Inr (SetPoolEntry PoolNameReclaim regionNuma reclaimedCoresSize reclaimedCoresLimit
                        (SetPoolOverlapInfo PoolNameReclaim regionNuma (RegionOwnerPoolName r)
                           reclaimedCoresSize result1),
                      regions1))
           else
             (let reclaimedCoresSize =
                    (if \<not> nodeEnableReclaim env then reserved
                     else available - SumUpMapValues poolSizes + reserved)
              in Inr (SetPoolEntry PoolNameReclaim regionNuma reclaimedCoresSize (- 1) result1,
                      regions1)))))))"

text \<open>The sum of the upper bounds of the isolation regions, or the first error.\<close>

fun isolationSizesOf :: "QoSRegion list \<Rightarrow> int \<Rightarrow> error + int" where
  "isolationSizesOf [] isolationSizes = Inr isolationSizes"
| "isolationSizesOf (ir # rest) isolationSizes =
     (case GetProvision ir of
        Inl err \<Rightarrow> Inl err
      | Inr ck \<Rightarrow>
          isolationSizesOf rest
            (isolationSizes + go_int (knobValue ck ControlKnobNonReclaimedCPURequirementUpper)))"

definition assembleIsolationNB ::
  "cpuResourceAdvisor \<Rightarrow> QoSRegion \<Rightarrow> InternalCPUCalculationResult
     \<Rightarrow> error + InternalCPUCalculationResult" where
  "assembleIsolationNB pa r result =
     (if RegionType r \<noteq> QoSRegionTypeIsolation \<or> \<not> RegionIsNumaBinding r
      then Inl (Error ''region is not a IsolationNB region'')
      else
       (case GetProvision r of
          Inl err \<Rightarrow> Inl err
        | Inr controlKnob \<Rightarrow>
       (case GetBindingNumas r of
          [] \<Rightarrow> Inl (Panic ''index out of range'')
        | regionNuma # _ \<Rightarrow>
            if length (GetRegions (regionMap pa) regionNuma QoSRegionTypeShare) = 0 then
              (let result1 =
                     SetPoolEntry (RegionName r) regionNuma
                       (go_int (knobValue controlKnob ControlKnobNonReclaimedCPURequirementUpper))
                       (- 1) result
               in case GetPoolEntry result1 PoolNameReclaim regionNuma of
                    Some _ \<Rightarrow> Inr result1
                  | None \<Rightarrow>
                      (let available = getNUMAsResource (numaAvailable pa) (GetBindingNumas r);
                           reserved = getNUMAsResource (reservedForReclaim pa) (GetBindingNumas r)
                       in case isolationSizesOf
                                 (GetRegions (regionMap pa) regionNuma QoSRegionTypeIsolation) 0 of
                            Inl err \<Rightarrow> Inl err
                          | Inr isolationSizes \<Rightarrow>
                              Inr (SetPoolEntry PoolNameReclaim regionNuma
                                     (max (available - isolationSizes) reserved) (- 1) result1)))
            else Inr result)))"

definition assembleDedicatedNE ::
  "assemblerEnv \<Rightarrow> cpuResourceAdvisor \<Rightarrow> QoSRegion \<Rightarrow> InternalCPUCalculationResult
     \<Rightarrow> error + InternalCPUCalculationResult" where
  "assembleDedicatedNE env pa r result =
     (if RegionType r \<noteq> QoSRegionTypeDedicatedNumaExclusive
      then Inl (Error ''region is not a DedicatedNE region'')
      else
       (case GetProvision r of
          Inl err \<Rightarrow> Inl err
        | Inr controlKnob \<Rightarrow>
       (case GetBindingNumas r of
          [] \<Rightarrow> Inl (Panic ''index out of range'')
        | regionNuma # _ \<Rightarrow>
       (let reserved = getNUMAsResource (reservedForReclaim pa) (GetBindingNumas r);
            available = getNUMAsResource (numaAvailable pa) (GetBindingNumas r);
            nonReclaimRequirement =
              (if \<not> EnableReclaim r then available
               else go_int (knobValue controlKnob ControlKnobNonReclaimedCPURequirement));
            reclaimedCoresSize =
              (if IsCgroup2UnifiedMode env then available
               else max reserved (available - nonReclaimRequirement));
            reclaimedCoresLimit =
              (if IsCgroup2UnifiedMode env then
                 (case controlKnob ControlKnobReclaimedCPUQuota of
                    Some quota \<Rightarrow>
                      min (max (real_of_int reserved) (real_of_int (available - nonReclaimRequirement)))
                          quota
                  | None \<Rightarrow>
                      max (real_of_int reserved) (real_of_int (available - nonReclaimRequirement)))
               else - 1)
        in Inr (SetPoolEntry PoolNameReclaim regionNuma reclaimedCoresSize reclaimedCoresLimit
                  result)))))"


text \<open>
  The block of \<^verbatim>\<open>assembleShare\<close> that splits the reclaim pool over the share pools
  when overlap is allowed and there is a share pool: the overlap size of each share pool and
  the size of the reclaim pool, or the failure of \<^verbatim>\<open>regulateOverlapReclaimPoolSize\<close>.
  With reclaim enabled each share pool lends its size minus its requirement (at least 1).
\<close>

definition sharedOverlapReclaimSize ::
  "assemblerEnv \<Rightarrow> (string \<times> int) list \<Rightarrow> (string \<times> int) list \<Rightarrow> int \<Rightarrow> int
     \<Rightarrow> error + ((string \<times> int) list \<times> int)" where
  "sharedOverlapReclaimSize env sharePoolSizes sharePoolRequirements
       nonBindingNUMAsReservedForReclaim reclaimPoolSizeOfNonBindingNUMAs =
     (if \<not> nodeEnableReclaim env then
        (let reclaimPoolSize = min reclaimPoolSizeOfNonBindingNUMAs (SumUpMapValues sharePoolSizes)
         in case regulateOverlapReclaimPoolSize env sharePoolSizes reclaimPoolSize of
              Inl err \<Rightarrow> Inl (Error ''failed to calculate sharedOverlapReclaimSize'')
            | Inr reclaimSizes \<Rightarrow> Inr (reclaimSizes, reclaimPoolSize))
      else
        (let perPool =
               map (\<lambda>(poolName, poolSize).
                      (poolName,
                       if poolSize - intAt sharePoolRequirements poolName > 0
                       then poolSize - intAt sharePoolRequirements poolName else 1))
                   sharePoolSizes
         in if SumUpMapValues perPool < nonBindingNUMAsReservedForReclaim then
              (case regulateOverlapReclaimPoolSize env sharePoolSizes
                      nonBindingNUMAsReservedForReclaim of
                 Inl err \<Rightarrow>
                   Inl (Error ''failed to regulateOverlapReclaimPoolSize for non-binding NUMAs reserved for reclaim'')
               | Inr regulated \<Rightarrow> Inr (regulated, nonBindingNUMAsReservedForReclaim))
            else Inr (perPool, SumUpMapValues perPool)))"

text \<open>
  The budget of the share and isolation pools of the non-binding NUMAs in
  \<^verbatim>\<open>assembleShare\<close> (the variable \<^verbatim>\<open>shareAndIsolatedPoolAvailable\<close>).
\<close>

definition shareAndIsolatedPoolAvailable :: "cpuResourceAdvisor \<Rightarrow> int" where
  "shareAndIsolatedPoolAvailable pa =
     getNUMAsResource (numaAvailable pa) (nonBindingNumas pa)
       - (if \<not> allowSharedCoresOverlapReclaimedCores pa
          then getNUMAsResource (reservedForReclaim pa) (nonBindingNumas pa) else 0)"

definition assembleShare ::
  "assemblerEnv \<Rightarrow> cpuResourceAdvisor
     \<Rightarrow> (string \<times> int) list \<Rightarrow> (string \<times> int) list \<Rightarrow> (string \<times> int) list \<Rightarrow> (string \<times> int) list
     \<Rightarrow> InternalCPUCalculationResult \<times> QoSRegion list
     \<Rightarrow> (error \<times> QoSRegion list) + (InternalCPUCalculationResult \<times> QoSRegion list)" where
  "assembleShare env pa sharePoolRequirements sharePoolRequests isolationUpperSizes
       isolationLowerSizes st =
     (case st of (result, regions) \<Rightarrow>
      (let isolationUppers = SumUpMapValues isolationUpperSizes;
           available = shareAndIsolatedPoolAvailable pa;
           allowExpand = (\<not> nodeEnableReclaim env \<or> allowSharedCoresOverlapReclaimedCores pa);
           requirements = (if allowExpand then sharePoolRequests else sharePoolRequirements);
           isolationPoolSizes =
             (if SumUpMapValues requirements + isolationUppers > available
              then isolationLowerSizes else isolationUpperSizes);
           (shareAndIsolatePoolSizes, poolThrottled) =
              regulatePoolSizes env requirements isolationPoolSizes available allowExpand;
           regions1 =
             map (\<lambda>r. if RegionType r = QoSRegionTypeShare \<and> \<not> RegionIsNumaBinding r
                       then r\<lparr>Throttled := poolThrottled\<rparr> else r) regions;
           result1 = setPoolEntries shareAndIsolatePoolSizes FakedNUMAID result;
           nonBindingNUMAsReservedForReclaim =
             getNUMAsResource (reservedForReclaim pa) (nonBindingNumas pa)
       in if allowSharedCoresOverlapReclaimedCores pa then
            (let sharePoolSizes =
                   filter (\<lambda>(poolName, poolSize). map_of sharePoolRequirements poolName \<noteq> None)
                          shareAndIsolatePoolSizes;
                 isolated =
                   SumUpMapValues
                     (filter (\<lambda>(poolName, poolSize). map_of sharePoolRequirements poolName = None)
                             shareAndIsolatePoolSizes);
                 reclaimPoolSize =
                   (if \<not> nodeEnableReclaim env then nonBindingNUMAsReservedForReclaim
                    else max nonBindingNUMAsReservedForReclaim
                             (available - isolated - SumUpMapValues sharePoolRequirements))
             in if length sharePoolSizes > 0 then
                  (case sharedOverlapReclaimSize env sharePoolSizes sharePoolRequirements
                          nonBindingNUMAsReservedForReclaim reclaimPoolSize of
                     Inl err \<Rightarrow> Inl (err, regions1)
                   | Inr (overlap, reclaimPoolSize1) \<Rightarrow>
                       Inr (SetPoolEntry PoolNameReclaim FakedNUMAID reclaimPoolSize1 (- 1)
                              (fold (\<lambda>(overlapPoolName, poolSize).
                                       SetPoolOverlapInfo PoolNameReclaim FakedNUMAID
                                         overlapPoolName poolSize)
                                    overlap result1),
                            regions1))
                else Inr (SetPoolEntry PoolNameReclaim FakedNUMAID reclaimPoolSize (- 1) result1,
                          regions1))
          else
            Inr (SetPoolEntry PoolNameReclaim FakedNUMAID
                   (if \<not> nodeEnableReclaim env then nonBindingNUMAsReservedForReclaim
                    else available - SumUpMapValues shareAndIsolatePoolSizes
                           + nonBindingNUMAsReservedForReclaim)
                   (- 1) result1,
                 regions1)))"

definition assembleReserve ::
  "assemblerEnv \<Rightarrow> InternalCPUCalculationResult \<Rightarrow> InternalCPUCalculationResult" where
  "assembleReserve env result =
     SetPoolEntry PoolNameReserve FakedNUMAID (reservePoolSize env) (- 1) result"

text \<open>
  The state of the loop of \<^verbatim>\<open>AssembleProvision\<close> over the regions: the result, the
  regions (with their throttled flags) and the four maps \<open>sharePoolRequirements\<close>,
  \<open>sharePoolRequests\<close>, \<open>isolationUpperSizes\<close> and \<open>isolationLowerSizes\<close>.
\<close>

record assembleState =
  calculationResult :: InternalCPUCalculationResult
  stRegions :: "QoSRegion list"
  sharePoolRequirements :: "(string \<times> int) list"
  sharePoolRequests :: "(string \<times> int) list"
  isolationUpperSizes :: "(string \<times> int) list"
  isolationLowerSizes :: "(string \<times> int) list"

text \<open>The body of the loop, for one region.\<close>

definition assembleRegion ::
  "assemblerEnv \<Rightarrow> cpuResourceAdvisor \<Rightarrow> QoSRegion \<Rightarrow> assembleState \<Rightarrow> error + assembleState" where
  "assembleRegion env pa r st =
     (case GetProvision r of
        Inl err \<Rightarrow> Inl err
      | Inr controlKnob \<Rightarrow>
          (case RegionType r of
             QoSRegionTypeShare \<Rightarrow>
               if RegionIsNumaBinding r then
                 (case assembleShareNB env pa r (calculationResult st, stRegions st) of
                    Inl err \<Rightarrow> Inl err
                  | Inr (result, regions) \<Rightarrow>
                      Inr (st\<lparr>calculationResult := result, stRegions := regions\<rparr>))
               else
                 Inr (st\<lparr>sharePoolRequirements :=
                            AList.update (RegionOwnerPoolName r)
                              (max 1 (go_int (knobValue controlKnob ControlKnobNonReclaimedCPURequirement)))
                              (sharePoolRequirements st),
                          sharePoolRequests :=
                            AList.update (RegionOwnerPoolName r)
                              (max 1 \<lceil>GetPodsRequest r\<rceil>) (sharePoolRequests st)\<rparr>)
           | QoSRegionTypeIsolation \<Rightarrow>
               if RegionIsNumaBinding r then
                 (case assembleIsolationNB pa r (calculationResult st) of
                    Inl err \<Rightarrow> Inl err
                  | Inr result \<Rightarrow> Inr (st\<lparr>calculationResult := result\<rparr>))
               else
                 Inr (st\<lparr>isolationUpperSizes :=
                            AList.update (RegionName r)
                              (go_int (knobValue controlKnob ControlKnobNonReclaimedCPURequirementUpper))
                              (isolationUpperSizes st),
                          isolationLowerSizes :=
                            AList.update (RegionName r)
                              (go_int (knobValue controlKnob ControlKnobNonReclaimedCPURequirementLower))
                              (isolationLowerSizes st)\<rparr>)
           | QoSRegionTypeDedicatedNumaExclusive \<Rightarrow>
               (case assembleDedicatedNE env pa r (calculationResult st) of
                  Inl err \<Rightarrow> Inl err
                | Inr result \<Rightarrow> Inr (st\<lparr>calculationResult := result\<rparr>))))"

fun assembleRegions ::
  "assemblerEnv \<Rightarrow> cpuResourceAdvisor \<Rightarrow> QoSRegion list \<Rightarrow> assembleState
     \<Rightarrow> (error \<times> QoSRegion list) + assembleState" where
  "assembleRegions env pa [] st = Inr st"
| "assembleRegions env pa (r # rest) st =
     (case assembleRegion env pa r st of
        Inl err \<Rightarrow> Inl (err, stRegions st)
      | Inr st' \<Rightarrow> assembleRegions env pa rest st')"

text \<open>
  \<^verbatim>\<open>AssembleProvision\<close> of the first implementation: the result or the error, and the
  regions with the throttled flags written so far.
\<close>

definition AssembleProvision ::
  "assemblerEnv \<Rightarrow> cpuResourceAdvisor \<Rightarrow> (error + InternalCPUCalculationResult) \<times> QoSRegion list" where
  "AssembleProvision env pa =
     (let calculationResult0 =
            assembleReserve env
              \<lparr>PoolEntries = Map.empty, PoolOverlapInfo = Map.empty,
               AllowSharedCoresOverlapReclaimedCores = allowSharedCoresOverlapReclaimedCores pa\<rparr>
      in case assembleRegions env pa (regionMap pa)
                \<lparr>calculationResult = calculationResult0, stRegions = regionMap pa,
                 sharePoolRequirements = [], sharePoolRequests = [],
                 isolationUpperSizes = [], isolationLowerSizes = []\<rparr> of
           Inl (err, regions) \<Rightarrow> (Inl err, regions)
         | Inr st \<Rightarrow>
             (case assembleShare env pa (sharePoolRequirements st) (sharePoolRequests st)
                     (isolationUpperSizes st) (isolationLowerSizes st)
                     (calculationResult st, stRegions st) of
                Inl (err, regions) \<Rightarrow> (Inl err, regions)
              | Inr (result, regions) \<Rightarrow> (Inr result, regions)))"


subsection \<open>The second implementation\<close>

text \<open>
  The second implementation's result has a size per pool and NUMA, and no quota.
\<close>

record InternalCPUCalculationResult2 =
  PoolEntries2 :: "string \<times> int \<rightharpoonup> int"
  PoolOverlapInfo2 :: "string \<times> int \<times> string \<rightharpoonup> int"
  AllowSharedCoresOverlapReclaimedCores2 :: bool

definition SetPoolEntry2 ::
  "string \<Rightarrow> int \<Rightarrow> int \<Rightarrow> InternalCPUCalculationResult2 \<Rightarrow> InternalCPUCalculationResult2" where
  "SetPoolEntry2 poolName numaID poolSize result =
     result\<lparr>PoolEntries2 := (PoolEntries2 result)((poolName, numaID) \<mapsto> poolSize)\<rparr>"

definition SetPoolOverlapInfo2 ::
  "string \<Rightarrow> int \<Rightarrow> string \<Rightarrow> int \<Rightarrow> InternalCPUCalculationResult2 \<Rightarrow> InternalCPUCalculationResult2" where
  "SetPoolOverlapInfo2 poolName numaID overlapPoolName poolSize result =
     result\<lparr>PoolOverlapInfo2 := (PoolOverlapInfo2 result)((poolName, numaID, overlapPoolName) \<mapsto> poolSize)\<rparr>"

definition setPoolEntries2 ::
  "(string \<times> int) list \<Rightarrow> int \<Rightarrow> InternalCPUCalculationResult2 \<Rightarrow> InternalCPUCalculationResult2" where
  "setPoolEntries2 poolSizes numaID result =
     fold (\<lambda>(poolName, poolSize). SetPoolEntry2 poolName numaID poolSize) poolSizes result"

definition getNumasReservedForReclaim :: "cpuResourceAdvisor \<Rightarrow> int list \<Rightarrow> int" where
  "getNumasReservedForReclaim pa numas =
     fold (\<lambda>id res. case reservedForReclaim pa id of Some v \<Rightarrow> res + v | None \<Rightarrow> res) numas 0"

text \<open>\<^verbatim>\<open>math.Round\<close> rounds half away from zero.\<close>

definition go_round :: "real \<Rightarrow> int" where
  "go_round x = (if 0 \<le> x then \<lfloor>x + 1 / 2\<rfloor> else \<lceil>x - 1 / 2\<rceil>)"

text \<open>
  The budget of a NUMA-binding share region and of the non-binding NUMAs in the second
  implementation (the variables \<^verbatim>\<open>available\<close> and
  \<^verbatim>\<open>shareAndIsolatedPoolAvailable\<close>).
\<close>

definition shareNBAvailable2 :: "cpuResourceAdvisor \<Rightarrow> QoSRegion \<Rightarrow> int" where
  "shareNBAvailable2 pa r =
     getNUMAsResource (numaAvailable pa) (GetBindingNumas r)
       + (if allowSharedCoresOverlapReclaimedCores pa
          then getNUMAsResource (reservedForReclaim pa) (GetBindingNumas r) else 0)"

definition shareAndIsolatedPoolAvailable2 :: "cpuResourceAdvisor \<Rightarrow> int" where
  "shareAndIsolatedPoolAvailable2 pa =
     getNUMAsResource (numaAvailable pa) (nonBindingNumas pa)
       + (if allowSharedCoresOverlapReclaimedCores pa
          then getNUMAsResource (reservedForReclaim pa) (nonBindingNumas pa) else 0)"

text \<open>
  The block that splits the reclaim pool over the share pools when overlap is allowed and
  there is a share pool: every pool of the sorted slice \<open>ps\<close> gets its proportional share,
  rounded, and the residual goes to the first or the last pool of the slice. The slice is
  not empty when the block runs.
\<close>

definition sharedOverlapReclaimSize2 ::
  "(string \<times> int) list \<Rightarrow> int \<Rightarrow> int \<Rightarrow> (string \<times> int) list" where
  "sharedOverlapReclaimSize2 ps sharePoolSum reclaimPoolSizeOfNonBindingNUMAs =
     (let proportional =
            fold (\<lambda>(sharePoolName, sharePoolSize) m.
                    (let poolSize = go_round (real_of_int (reclaimPoolSizeOfNonBindingNUMAs * sharePoolSize)
                                               / real_of_int sharePoolSum)
                     in if poolSize > 0 then AList.update sharePoolName poolSize m else m))
                 ps [];
          diff = reclaimPoolSizeOfNonBindingNUMAs - SumUpMapValues proportional
      in if diff > 0 then
           AList.update (fst (hd ps)) (intAt proportional (fst (hd ps)) + diff) proportional
         else if diff < 0 then
           AList.update (fst (last ps)) (intAt proportional (fst (last ps)) - diff) proportional
         else proportional)"

record assembleState2 =
  calculationResult2 :: InternalCPUCalculationResult2
  stRegions2 :: "QoSRegion list"
  shares :: int
  isolationUppers :: int
  sharePoolRequirements2 :: "(string \<times> int) list"
  isolationUpperSizes2 :: "(string \<times> int) list"
  isolationLowerSizes2 :: "(string \<times> int) list"

text \<open>The body of the loop over the regions, for one region.\<close>

definition assembleRegion2 ::
  "assemblerEnv \<Rightarrow> cpuResourceAdvisor \<Rightarrow> QoSRegion \<Rightarrow> assembleState2 \<Rightarrow> error + assembleState2" where
  "assembleRegion2 env pa r st =
     (case GetProvision r of
        Inl err \<Rightarrow> Inl err
      | Inr controlKnob \<Rightarrow>
          (case RegionType r of
             QoSRegionTypeShare \<Rightarrow>
               if RegionIsNumaBinding r then
                 (case GetBindingNumas r of
                    [] \<Rightarrow> Inl (Panic ''index out of range'')
                  | regionNuma # _ \<Rightarrow>
                 (let reserved = getNumasReservedForReclaim pa (GetBindingNumas r);
                      nonReclaimRequirement =
                        go_int (knobValue controlKnob ControlKnobNonReclaimedCPURequirement);
                      available = shareNBAvailable2 pa r;
                      isolationRegions = GetRegions (regionMap pa) regionNuma QoSRegionTypeIsolation
                  in case isolationKnobs isolationRegions ([], 0) of
                       Inl err \<Rightarrow> Inl err
                     | Inr (isolationRegionControlKnobs, isolationUpperSum) \<Rightarrow>
                 (let isolationRegionControlKnobKey =
                        (if length isolationRegions > 0
                            \<and> nonReclaimRequirement + isolationUpperSum > available
                         then ControlKnobNonReclaimedCPURequirementLower
                         else ControlKnobNonReclaimedCPURequirementUpper);
                      poolRequirements =
                        fold (\<lambda>(isolationRegionName, isolationRegionControlKnob).
                                AList.update isolationRegionName
                                  (go_int (knobValue isolationRegionControlKnob
                                             isolationRegionControlKnobKey)))
                             isolationRegionControlKnobs
                             [(RegionOwnerPoolName r, nonReclaimRequirement)];
                      (poolSizes, poolThrottled) =
                         regulatePoolSizes2 env poolRequirements available (nodeEnableReclaim env)
                           (allowSharedCoresOverlapReclaimedCores pa);
                      regions1 = SetThrottled (RegionName r) poolThrottled (stRegions2 st);
                      result1 = setPoolEntries2 poolSizes regionNuma (calculationResult2 st);
                      ownerPoolSize = intAt poolSizes (RegionOwnerPoolName r)
                  in if allowSharedCoresOverlapReclaimedCores pa then
                       (let reclaimedCoresAvail =
                              (if \<not> nodeEnableReclaim env then 0
                               else ownerPoolSize - intAt poolRequirements (RegionOwnerPoolName r));
                            reclaimedCoresSize =
                              min (max (getNumasReservedForReclaim pa (GetBindingNumas r))
                                       reclaimedCoresAvail)
                                  ownerPoolSize
                        in Inr (st\<lparr>calculationResult2 :=
                                       SetPoolEntry2 PoolNameReclaim regionNuma reclaimedCoresSize
                                         (SetPoolOverlapInfo2 PoolNameReclaim regionNuma
                                            (RegionOwnerPoolName r) reclaimedCoresSize result1),
                                     stRegions2 := regions1\<rparr>))
                     else
                       Inr (st\<lparr>calculationResult2 :=
                                  SetPoolEntry2 PoolNameReclaim regionNuma
                                    (available - SumUpMapValues poolSizes + reserved) result1,
                                stRegions2 := regions1\<rparr>))))
               else
                 (let requirement =
                        go_int (knobValue controlKnob ControlKnobNonReclaimedCPURequirement);
                      requirements = AList.update (RegionOwnerPoolName r) requirement
                                       (sharePoolRequirements2 st)
                  in Inr (st\<lparr>sharePoolRequirements2 := requirements,
                               shares := shares st + intAt requirements (RegionOwnerPoolName r)\<rparr>))
           | QoSRegionTypeIsolation \<Rightarrow>
               if RegionIsNumaBinding r then
                 (case GetBindingNumas r of
                    [] \<Rightarrow> Inl (Panic ''index out of range'')
                  | regionNuma # _ \<Rightarrow>
                      if length (GetRegions (regionMap pa) regionNuma QoSRegionTypeShare) = 0
                      then Inr (st\<lparr>calculationResult2 :=
                                      SetPoolEntry2 (RegionName r) regionNuma
                                        (go_int (knobValue controlKnob
                                                   ControlKnobNonReclaimedCPURequirementUpper))
                                        (calculationResult2 st)\<rparr>)
                      else Inr st)
               else
                 (let uppers =
                        AList.update (RegionName r)
                          (go_int (knobValue controlKnob ControlKnobNonReclaimedCPURequirementUpper))
                          (isolationUpperSizes2 st)
                  in Inr (st\<lparr>isolationUpperSizes2 := uppers,
                               isolationLowerSizes2 :=
                                 AList.update (RegionName r)
                                   (go_int (knobValue controlKnob
                                              ControlKnobNonReclaimedCPURequirementLower))
                                   (isolationLowerSizes2 st),
                               isolationUppers := isolationUppers st + intAt uppers (RegionName r)\<rparr>))
           | QoSRegionTypeDedicatedNumaExclusive \<Rightarrow>
               (case GetBindingNumas r of
                  [] \<Rightarrow> Inl (Panic ''index out of range'')
                | regionNuma # _ \<Rightarrow>
               (let reserved = getNumasReservedForReclaim pa (GetBindingNumas r)
                in case GetPods r of
                     [podUID] \<Rightarrow>
                       (case PodEnableReclaim env podUID (nodeEnableReclaim env) of
                          Inl err \<Rightarrow> Inl err
                        | Inr enableReclaim \<Rightarrow>
                            if \<not> enableReclaim then
                              (if reserved > 0
                               then Inr (st\<lparr>calculationResult2 :=
                                               SetPoolEntry2 PoolNameReclaim regionNuma reserved
                                                 (calculationResult2 st)\<rparr>)
                               else Inr st)
                            else
                              (let available = getNUMAsResource (numaAvailable pa) (GetBindingNumas r);
                                   nonReclaimRequirement =
                                     go_int (knobValue controlKnob ControlKnobNonReclaimedCPURequirement);
                                   reclaimed = available - nonReclaimRequirement + reserved
                               in Inr (st\<lparr>calculationResult2 :=
                                              SetPoolEntry2 PoolNameReclaim regionNuma reclaimed
                                                (calculationResult2 st)\<rparr>)))
                   | _ \<Rightarrow> Inl (Error ''more than one pod are assgined to numa exclusive region'')))))"

fun assembleRegions2 ::
  "assemblerEnv \<Rightarrow> cpuResourceAdvisor \<Rightarrow> QoSRegion list \<Rightarrow> assembleState2
     \<Rightarrow> (error \<times> QoSRegion list) + assembleState2" where
  "assembleRegions2 env pa [] st = Inr st"
| "assembleRegions2 env pa (r # rest) st =
     (case assembleRegion2 env pa r st of
        Inl err \<Rightarrow> Inl (err, stRegions2 st)
      | Inr st' \<Rightarrow> assembleRegions2 env pa rest st')"

text \<open>The part of the second \<^verbatim>\<open>AssembleProvision\<close> after the loop.\<close>

definition assembleNonBinding2 ::
  "assemblerEnv \<Rightarrow> cpuResourceAdvisor \<Rightarrow> assembleState2
     \<Rightarrow> InternalCPUCalculationResult2 \<times> QoSRegion list" where
  "assembleNonBinding2 env pa st =
     (let available = shareAndIsolatedPoolAvailable2 pa;
          shareAndIsolatePoolSizeRequirements =
            (if shares st + isolationUppers st > available
             then MergeMapInt env (sharePoolRequirements2 st) (isolationLowerSizes2 st)
             else MergeMapInt env (sharePoolRequirements2 st) (isolationUpperSizes2 st));
          (shareAndIsolatePoolSizes, poolThrottled) =
             regulatePoolSizes2 env shareAndIsolatePoolSizeRequirements available
               (nodeEnableReclaim env) (allowSharedCoresOverlapReclaimedCores pa);
          regions1 =
            map (\<lambda>r. if RegionType r = QoSRegionTypeShare \<and> \<not> RegionIsNumaBinding r
                      then r\<lparr>Throttled := poolThrottled\<rparr> else r) (stRegions2 st);
          result1 = setPoolEntries2 shareAndIsolatePoolSizes FakedNUMAID (calculationResult2 st);
          reserved = getNumasReservedForReclaim pa (nonBindingNumas pa)
      in if allowSharedCoresOverlapReclaimedCores pa then
           (let sharePoolSizes =
                  map (\<lambda>(poolName, _). (poolName, intAt shareAndIsolatePoolSizes poolName))
                      (sharePoolRequirements2 st);
                isolated = available - SumUpMapValues sharePoolSizes;
                reclaimPoolSize =
                  (if \<not> nodeEnableReclaim env then reserved
                   else max reserved
                            (available - isolated - SumUpMapValues (sharePoolRequirements2 st)))
            in if length sharePoolSizes > 0 then
                 (let reclaimPoolSize1 = min reclaimPoolSize (SumUpMapValues sharePoolSizes)
                  in (SetPoolEntry2 PoolNameReclaim FakedNUMAID reclaimPoolSize1
                        (fold (\<lambda>(overlapPoolName, poolSize).
                                 SetPoolOverlapInfo2 PoolNameReclaim FakedNUMAID overlapPoolName poolSize)
                              (sharedOverlapReclaimSize2 (SortedByValue env sharePoolSizes)
                                 (SumUpMapValues sharePoolSizes) reclaimPoolSize1)
                              result1),
                      regions1))
               else (SetPoolEntry2 PoolNameReclaim FakedNUMAID reclaimPoolSize result1, regions1))
         else
           (SetPoolEntry2 PoolNameReclaim FakedNUMAID
              (available - SumUpMapValues shareAndIsolatePoolSizes + reserved) result1,
            regions1))"

definition AssembleProvision2 ::
  "assemblerEnv \<Rightarrow> cpuResourceAdvisor \<Rightarrow> (error + InternalCPUCalculationResult2) \<times> QoSRegion list" where
  "AssembleProvision2 env pa =
     (let calculationResult0 =
            SetPoolEntry2 PoolNameReserve FakedNUMAID (reservePoolSize env)
              \<lparr>PoolEntries2 = Map.empty, PoolOverlapInfo2 = Map.empty,
               AllowSharedCoresOverlapReclaimedCores2 = allowSharedCoresOverlapReclaimedCores pa\<rparr>
      in case assembleRegions2 env pa (regionMap pa)
                \<lparr>calculationResult2 = calculationResult0, stRegions2 = regionMap pa,
                 shares = 0, isolationUppers = 0, sharePoolRequirements2 = [],
                 isolationUpperSizes2 = [], isolationLowerSizes2 = []\<rparr> of
           Inl (err, regions) \<Rightarrow> (Inl err, regions)
         | Inr st \<Rightarrow>
             (case assembleNonBinding2 env pa st of
                (result, regions) \<Rightarrow> (Inr result, regions)))"


section \<open>Properties of the provision assembler\<close>

subsection \<open>Which entries a step writes\<close>

lemma PoolEntries_SetPoolEntry:
  "PoolEntries (SetPoolEntry p n sz q result) k =
     (if k = (p, n) then Some \<lparr>Size = sz, Quota = q\<rparr> else PoolEntries result k)"
  by (simp add: SetPoolEntry_def)

lemma PoolEntries_SetPoolOverlapInfo:
  "PoolEntries (SetPoolOverlapInfo p n other sz result) = PoolEntries result"
  by (simp add: SetPoolOverlapInfo_def)

lemma PoolEntries_setPoolEntries_other:
  "n \<noteq> numa \<Longrightarrow> PoolEntries (setPoolEntries sizes n result) (p, numa) = PoolEntries result (p, numa)"
  unfolding setPoolEntries_def
  by (induction sizes arbitrary: result) (auto simp: PoolEntries_SetPoolEntry)

lemma PoolEntries_fold_overlap:
  "PoolEntries (fold (\<lambda>(overlapPoolName, poolSize). SetPoolOverlapInfo p n overlapPoolName poolSize)
                     overlap result) = PoolEntries result"
  by (induction overlap arbitrary: result) (auto simp: PoolEntries_SetPoolOverlapInfo)

lemma assembleShareNB_other:
  assumes "assembleShareNB env pa r (result, regions) = Inr (result', regions')"
    and "numa \<notin> set (GetBindingNumas r)"
  shows "PoolEntries result' (p, numa) = PoolEntries result (p, numa)"
proof -
  from assms(1) obtain regionNuma rest where b: "GetBindingNumas r = regionNuma # rest"
    by (cases "GetBindingNumas r") (auto simp: assembleShareNB_def split: if_splits sum.splits)
  with assms(2) have ne: "regionNuma \<noteq> numa" by auto
  from assms(1) ne show ?thesis
    by (auto simp: assembleShareNB_def b Let_def PoolEntries_SetPoolEntry
        PoolEntries_SetPoolOverlapInfo PoolEntries_setPoolEntries_other
        split: if_splits sum.splits prod.splits)
qed

lemma assembleIsolationNB_other:
  assumes "assembleIsolationNB pa r result = Inr result'"
    and "numa \<notin> set (GetBindingNumas r)"
  shows "PoolEntries result' (p, numa) = PoolEntries result (p, numa)"
proof -
  from assms(1) obtain regionNuma rest where b: "GetBindingNumas r = regionNuma # rest"
    by (cases "GetBindingNumas r") (auto simp: assembleIsolationNB_def split: if_splits sum.splits)
  with assms(2) have ne: "regionNuma \<noteq> numa" by auto
  from assms(1) ne show ?thesis
    by (auto simp: assembleIsolationNB_def b Let_def PoolEntries_SetPoolEntry
        split: if_splits sum.splits option.splits)
qed

lemma assembleDedicatedNE_other:
  assumes "assembleDedicatedNE env pa r result = Inr result'"
    and "numa \<notin> set (GetBindingNumas r)"
  shows "PoolEntries result' (p, numa) = PoolEntries result (p, numa)"
proof -
  from assms(1) obtain regionNuma rest where b: "GetBindingNumas r = regionNuma # rest"
    by (cases "GetBindingNumas r") (auto simp: assembleDedicatedNE_def split: if_splits sum.splits)
  with assms(2) have ne: "regionNuma \<noteq> numa" by auto
  from assms(1) ne show ?thesis
    by (auto simp: assembleDedicatedNE_def b Let_def PoolEntries_SetPoolEntry
        split: if_splits sum.splits)
qed

lemma assembleRegion_other:
  assumes "assembleRegion env pa r st = Inr st'"
    and "numa \<notin> set (GetBindingNumas r)"
  shows "PoolEntries (calculationResult st') (p, numa) = PoolEntries (calculationResult st) (p, numa)"
  using assms
  by (auto simp: assembleRegion_def split: sum.splits QoSRegionType.splits if_splits prod.splits
      dest: assembleShareNB_other assembleIsolationNB_other assembleDedicatedNE_other)


lemma assembleShare_other:
  assumes "assembleShare env pa reqs requests uppers lowers (result, regions) = Inr (result', regions')"
    and "numa \<noteq> FakedNUMAID"
  shows "PoolEntries result' (p, numa) = PoolEntries result (p, numa)"
proof -
  from assms(2) have ne: "FakedNUMAID \<noteq> numa" by simp
  from assms(1) ne show ?thesis
    by (auto simp: assembleShare_def Let_def PoolEntries_SetPoolEntry PoolEntries_fold_overlap
        PoolEntries_setPoolEntries_other
        split: if_splits sum.splits prod.splits)
qed

subsection \<open>The reclaim entry of a dedicated NUMA-exclusive region\<close>

text \<open>
  The entry that claim C1 describes, in the claim's words: the non-reclaim requirement is
  the available size when the region has reclaim disabled and the knob otherwise; under
  cgroup v2 the size is the available size and the quota is the larger of the reservation
  and what the requirement leaves, capped by the quota knob when there is one; otherwise the
  size is that larger value, with no quota (-1).
\<close>

definition claimedDedicatedEntry ::
  "assemblerEnv \<Rightarrow> cpuResourceAdvisor \<Rightarrow> QoSRegion \<Rightarrow> ControlKnob \<Rightarrow> CPUResource" where
  "claimedDedicatedEntry env pa r controlKnob =
     (let available = getNUMAsResource (numaAvailable pa) (GetBindingNumas r);
          reserved = getNUMAsResource (reservedForReclaim pa) (GetBindingNumas r);
          nonReclaim =
            (if EnableReclaim r
             then go_int (knobValue controlKnob ControlKnobNonReclaimedCPURequirement)
             else available);
          left = max reserved (available - nonReclaim)
      in if IsCgroup2UnifiedMode env then
           \<lparr>Size = available,
            Quota = (case controlKnob ControlKnobReclaimedCPUQuota of
                       None \<Rightarrow> real_of_int left
                     | Some quota \<Rightarrow> min (real_of_int left) quota)\<rparr>
         else \<lparr>Size = left, Quota = - 1\<rparr>)"

lemma assembleDedicatedNE_entry:
  assumes "RegionType r = QoSRegionTypeDedicatedNumaExclusive"
    and "GetProvision r = Inr controlKnob"
    and "GetBindingNumas r = numa # rest"
  shows "assembleDedicatedNE env pa r result =
           Inr (SetPoolEntry PoolNameReclaim numa
                  (Size (claimedDedicatedEntry env pa r controlKnob))
                  (Quota (claimedDedicatedEntry env pa r controlKnob)) result)"
  using assms
  by (simp add: assembleDedicatedNE_def claimedDedicatedEntry_def Let_def of_int_max
      split: option.splits)

lemma assembleRegion_dedicated:
  assumes "assembleRegion env pa r st = Inr st'"
    and "RegionType r = QoSRegionTypeDedicatedNumaExclusive"
    and "GetProvision r = Inr controlKnob"
    and "GetBindingNumas r = numa # rest"
  shows "PoolEntries (calculationResult st') (PoolNameReclaim, numa) =
           Some (claimedDedicatedEntry env pa r controlKnob)"
  using assms(1)
  by (auto simp: assembleRegion_def assms(2,3) assembleDedicatedNE_entry [OF assms(2,3,4)]
      PoolEntries_SetPoolEntry)

lemma assembleRegions_dedicated:
  assumes "assembleRegions env pa rs st = Inr st'"
    and "RegionType r = QoSRegionTypeDedicatedNumaExclusive"
    and "GetProvision r = Inr controlKnob"
    and "GetBindingNumas r = numa # rest"
    and "\<forall>r'\<in>set rs. r' \<noteq> r \<longrightarrow> numa \<notin> set (GetBindingNumas r')"
    and "r \<in> set rs \<or>
         PoolEntries (calculationResult st) (PoolNameReclaim, numa) =
           Some (claimedDedicatedEntry env pa r controlKnob)"
  shows "PoolEntries (calculationResult st') (PoolNameReclaim, numa) =
           Some (claimedDedicatedEntry env pa r controlKnob)"
  using assms(1,5,6)
proof (induction rs arbitrary: st)
  case Nil
  then show ?case by simp
next
  case (Cons x xs)
  from Cons.prems(1) obtain st1 where
    step: "assembleRegion env pa x st = Inr st1" and
    rest: "assembleRegions env pa xs st1 = Inr st'"
    by (auto split: sum.splits)
  have others: "\<forall>r'\<in>set xs. r' \<noteq> r \<longrightarrow> numa \<notin> set (GetBindingNumas r')"
    using Cons.prems(2) by simp
  have "r \<in> set xs \<or>
        PoolEntries (calculationResult st1) (PoolNameReclaim, numa) =
          Some (claimedDedicatedEntry env pa r controlKnob)"
  proof (cases "x = r")
    case True
    with step assembleRegion_dedicated [OF _ assms(2,3,4)] show ?thesis by blast
  next
    case False
    with Cons.prems(2) have "numa \<notin> set (GetBindingNumas x)" by simp
    from assembleRegion_other [OF step this] Cons.prems(3) False show ?thesis by auto
  qed
  from Cons.IH [OF rest others this] show ?case .
qed


lemma AssembleProvision_dedicated:
  assumes ok: "AssembleProvision env pa = (Inr result, regions)"
    and r: "r \<in> set (regionMap pa)"
    and ty: "RegionType r = QoSRegionTypeDedicatedNumaExclusive"
    and kn: "GetProvision r = Inr controlKnob"
    and bn: "GetBindingNumas r = numa # rest"
    and nf: "numa \<noteq> FakedNUMAID"
    and ex: "\<forall>r'\<in>set (regionMap pa). r' \<noteq> r \<longrightarrow> numa \<notin> set (GetBindingNumas r')"
  shows "GetPoolEntry result PoolNameReclaim numa = Some (claimedDedicatedEntry env pa r controlKnob)"
proof -
  let ?st0 = "\<lparr>calculationResult =
                 assembleReserve env
                   \<lparr>PoolEntries = Map.empty, PoolOverlapInfo = Map.empty,
                    AllowSharedCoresOverlapReclaimedCores = allowSharedCoresOverlapReclaimedCores pa\<rparr>,
               stRegions = regionMap pa,
               sharePoolRequirements = [], sharePoolRequests = [],
               isolationUpperSizes = [], isolationLowerSizes = []\<rparr>"
  from ok obtain st where
    loop: "assembleRegions env pa (regionMap pa) ?st0 = Inr st" and
    fin: "assembleShare env pa (sharePoolRequirements st) (sharePoolRequests st)
            (isolationUpperSizes st) (isolationLowerSizes st)
            (calculationResult st, stRegions st) = Inr (result, regions)"
    by (auto simp: AssembleProvision_def Let_def split: sum.splits prod.splits)
  from r have "r \<in> set (regionMap pa) \<or>
      PoolEntries (calculationResult ?st0) (PoolNameReclaim, numa) =
        Some (claimedDedicatedEntry env pa r controlKnob)" by simp
  from assembleRegions_dedicated [OF loop ty kn bn ex this]
  have "PoolEntries (calculationResult st) (PoolNameReclaim, numa) =
          Some (claimedDedicatedEntry env pa r controlKnob)" .
  with assembleShare_other [OF fin nf] show ?thesis by (simp add: GetPoolEntry_def)
qed

text \<open>
  Scenario 3: one NUMA of 32 CPUs with nothing reserved, 6 CPUs reserved for reclaim, and a
  dedicated NUMA-exclusive region on it, with reclaim enabled, whose knob asks for 20 CPUs.
\<close>

definition dedicatedRegion :: QoSRegion where
  "dedicatedRegion =
     \<lparr>RegionName = ''dedicated-numa-exclusive'',
      RegionType = QoSRegionTypeDedicatedNumaExclusive,
      RegionOwnerPoolName = ''dedicated'', RegionIsNumaBinding = True, GetBindingNumas = [0],
      GetProvision = Inr [ControlKnobNonReclaimedCPURequirement \<mapsto> 20],
      GetPodsRequest = 20, GetPods = [''pod-d''], EnableReclaim = True, IsEmpty = False,
      Throttled = False\<rparr>"

definition scenario3 :: cpuResourceAdvisor where
  "scenario3 =
     \<lparr>advisorUpdated = True,
      regionMap = [dedicatedRegion],
      reservedForReclaim = [0 \<mapsto> 6],
      numaAvailable = [0 \<mapsto> 32],
      numRegionsPerNuma = [0 \<mapsto> 1],
      nonBindingNumas = [],
      allowSharedCoresOverlapReclaimedCores = False,
      containers = [],
      updateDurationStored = 0\<rparr>"

text \<open>
  An environment with reclaim enabled on the node and on every pod, for any choice of the
  functions whose sources are missing.
\<close>

definition assemblerEnvOf ::
  "bool
   \<Rightarrow> ((string \<times> int) list \<Rightarrow> (string \<times> int) list \<Rightarrow> int \<Rightarrow> bool \<Rightarrow> (string \<times> int) list \<times> bool)
   \<Rightarrow> ((string \<times> int) list \<Rightarrow> int \<Rightarrow> error + (string \<times> int) list)
   \<Rightarrow> ((string \<times> int) list \<Rightarrow> int \<Rightarrow> bool \<Rightarrow> bool \<Rightarrow> (string \<times> int) list \<times> bool)
   \<Rightarrow> ((string \<times> int) list \<Rightarrow> (string \<times> int) list \<Rightarrow> (string \<times> int) list)
   \<Rightarrow> ((string \<times> int) list \<Rightarrow> (string \<times> int) list)
   \<Rightarrow> assemblerEnv" where
  "assemblerEnvOf v2 regulate regulateOverlap regulate2 mergeMaps sortedPairs =
     \<lparr>nodeEnableReclaim = True,
      reservePoolSize = 0,
      IsCgroup2UnifiedMode = v2,
      regulatePoolSizes = regulate,
      regulateOverlapReclaimPoolSize = regulateOverlap,
      regulatePoolSizes2 = regulate2,
      PodEnableReclaim = (\<lambda>podUID enable. Inr enable),
      MergeMapInt = mergeMaps,
      SortedByValue = sortedPairs\<rparr>"

lemma scenario3_succeeds:
  "\<exists>result regions.
     AssembleProvision (assemblerEnvOf v2 reg regO reg2 mrg srt) scenario3 = (Inr result, regions)"
  by (simp add: AssembleProvision_def assembleRegion_def assembleDedicatedNE_def assembleShare_def
      scenario3_def dedicatedRegion_def assemblerEnvOf_def Let_def split: prod.splits)

lemma scenario3_entry:
  "claimedDedicatedEntry (assemblerEnvOf True reg regO reg2 mrg srt) scenario3 dedicatedRegion
      [ControlKnobNonReclaimedCPURequirement \<mapsto> 20] = \<lparr>Size = 32, Quota = 12\<rparr>"
  "claimedDedicatedEntry (assemblerEnvOf False reg regO reg2 mrg srt) scenario3 dedicatedRegion
      [ControlKnobNonReclaimedCPURequirement \<mapsto> 20] = \<lparr>Size = 12, Quota = - 1\<rparr>"
  by (simp_all add: claimedDedicatedEntry_def scenario3_def dedicatedRegion_def assemblerEnvOf_def
      getNUMAsResource_def knobValue_def go_int_def Let_def)

lemma scenario3_result:
  "\<exists>result regions.
     AssembleProvision (assemblerEnvOf True reg regO reg2 mrg srt) scenario3 = (Inr result, regions) \<and>
     GetPoolEntry result PoolNameReclaim 0 = Some \<lparr>Size = 32, Quota = 12\<rparr>"
proof -
  from scenario3_succeeds obtain result regions where
    ok: "AssembleProvision (assemblerEnvOf True reg regO reg2 mrg srt) scenario3 = (Inr result, regions)"
    by blast
  have "GetPoolEntry result PoolNameReclaim 0 =
      Some (claimedDedicatedEntry (assemblerEnvOf True reg regO reg2 mrg srt) scenario3 dedicatedRegion
              [ControlKnobNonReclaimedCPURequirement \<mapsto> 20])"
    by (rule AssembleProvision_dedicated [OF ok, where rest = "[]"])
       (simp_all add: scenario3_def dedicatedRegion_def FakedNUMAID_def)
  with ok show ?thesis by (simp add: scenario3_entry)
qed

text \<open>
  Claim C1. When \<^verbatim>\<open>AssembleProvision\<close> (first implementation) succeeds, the reclaim
  pool entry on the NUMA of a dedicated NUMA-exclusive region is the one the claim
  describes (with the knob read through Go's \<^verbatim>\<open>int\<close> conversion), provided the
  region is exclusive on its NUMA (no other region of the map binds to it). It is the entry that \<^verbatim>\<open>assembleDedicatedNE\<close> writes for the region,
  whatever the result so far. In scenario 3 under cgroup v2 the entry has size 32 and quota
  12, for any choice of the functions whose sources are missing.
\<close>

theorem dedicated_region_reclaim_entry:
  assumes "AssembleProvision env pa = (Inr result, regions)"
    and "r \<in> set (regionMap pa)"
    and "RegionType r = QoSRegionTypeDedicatedNumaExclusive"
    and "GetProvision r = Inr controlKnob"
    and "GetBindingNumas r = numa # rest"
    and "numa \<noteq> FakedNUMAID"
    and "\<forall>r'\<in>set (regionMap pa). r' \<noteq> r \<longrightarrow> numa \<notin> set (GetBindingNumas r')"
  shows "GetPoolEntry result PoolNameReclaim numa =
           Some (claimedDedicatedEntry env pa r controlKnob) \<and>
         (\<forall>result0. \<exists>result1.
            assembleDedicatedNE env pa r result0 = Inr result1 \<and>
            GetPoolEntry result1 PoolNameReclaim numa =
              Some (claimedDedicatedEntry env pa r controlKnob)) \<and>
         (\<forall>reg regO reg2 mrg srt. \<exists>result3 regions3.
            AssembleProvision (assemblerEnvOf True reg regO reg2 mrg srt) scenario3
              = (Inr result3, regions3) \<and>
            GetPoolEntry result3 PoolNameReclaim 0 = Some \<lparr>Size = 32, Quota = 12\<rparr>)"
proof (intro conjI allI)
  show "GetPoolEntry result PoolNameReclaim numa = Some (claimedDedicatedEntry env pa r controlKnob)"
    using assms by (rule AssembleProvision_dedicated)
next
  fix result0
  show "\<exists>result1.
            assembleDedicatedNE env pa r result0 = Inr result1 \<and>
            GetPoolEntry result1 PoolNameReclaim numa =
              Some (claimedDedicatedEntry env pa r controlKnob)"
    by (simp add: assembleDedicatedNE_entry [OF assms(3,4,5)] GetPoolEntry_def
        PoolEntries_SetPoolEntry)
next
  fix reg regO reg2 mrg srt
  show "\<exists>result3 regions3.
            AssembleProvision (assemblerEnvOf True reg regO reg2 mrg srt) scenario3
              = (Inr result3, regions3) \<and>
            GetPoolEntry result3 PoolNameReclaim 0 = Some \<lparr>Size = 32, Quota = 12\<rparr>"
    by (rule scenario3_result)
qed


definition passThroughEnv :: "bool \<Rightarrow> assemblerEnv" where
  "passThroughEnv v2 =
     assemblerEnvOf v2
       (\<lambda>requirements isolation available allowExpand. (requirements @ isolation, False))
       (\<lambda>sharePoolSizes reclaimPoolSize. Inr sharePoolSizes)
       (\<lambda>requirements available enableReclaim allowOverlap. (requirements, False))
       (\<lambda>a b. a @ b)
       (\<lambda>m. m)"

text \<open>
  Scenario 3 with regulators that return the requirements as they are: the hypotheses hold,
  and the entry is (32, 12) under cgroup v2 and (12, no quota) otherwise.
\<close>

theorem dedicated_region_reclaim_entry_witness:
  "dedicatedRegion \<in> set (regionMap scenario3) \<and>
   RegionType dedicatedRegion = QoSRegionTypeDedicatedNumaExclusive \<and>
   GetProvision dedicatedRegion = Inr [ControlKnobNonReclaimedCPURequirement \<mapsto> 20] \<and>
   GetBindingNumas dedicatedRegion = [0] \<and>
   0 \<noteq> FakedNUMAID \<and>
   (case fst (AssembleProvision (passThroughEnv True) scenario3) of
      Inl err \<Rightarrow> False
    | Inr result \<Rightarrow> GetPoolEntry result PoolNameReclaim 0 = Some \<lparr>Size = 32, Quota = 12\<rparr>) \<and>
   (case fst (AssembleProvision (passThroughEnv False) scenario3) of
      Inl err \<Rightarrow> False
    | Inr result \<Rightarrow> GetPoolEntry result PoolNameReclaim 0 = Some \<lparr>Size = 12, Quota = - 1\<rparr>)"
proof -
  have a: "dedicatedRegion \<in> set (regionMap scenario3)" by (simp add: scenario3_def)
  have b: "RegionType dedicatedRegion = QoSRegionTypeDedicatedNumaExclusive"
    by (simp add: dedicatedRegion_def)
  have c: "GetProvision dedicatedRegion = Inr [ControlKnobNonReclaimedCPURequirement \<mapsto> 20]"
    by (simp add: dedicatedRegion_def)
  have d: "GetBindingNumas dedicatedRegion = [0]" by (simp add: dedicatedRegion_def)
  have e: "0 \<noteq> FakedNUMAID" by (simp add: FakedNUMAID_def)
  have f: "\<forall>r'\<in>set (regionMap scenario3). r' \<noteq> dedicatedRegion \<longrightarrow> 0 \<notin> set (GetBindingNumas r')"
    by (simp add: scenario3_def)
  have g: "(case fst (AssembleProvision (passThroughEnv v2) scenario3) of
      Inl err \<Rightarrow> False
    | Inr result \<Rightarrow> GetPoolEntry result PoolNameReclaim 0 =
        Some (claimedDedicatedEntry (passThroughEnv v2) scenario3 dedicatedRegion
                [ControlKnobNonReclaimedCPURequirement \<mapsto> 20]))" for v2
  proof -
    from scenario3_succeeds obtain result regions where
      ok: "AssembleProvision (passThroughEnv v2) scenario3 = (Inr result, regions)"
      unfolding passThroughEnv_def by blast
    from dedicated_region_reclaim_entry [OF ok a b c d e f] show ?thesis by (simp add: ok)
  qed
  have h1: "claimedDedicatedEntry (passThroughEnv True) scenario3 dedicatedRegion
      [ControlKnobNonReclaimedCPURequirement \<mapsto> 20] = \<lparr>Size = 32, Quota = 12\<rparr>"
    unfolding passThroughEnv_def by (rule scenario3_entry(1))
  have h2: "claimedDedicatedEntry (passThroughEnv False) scenario3 dedicatedRegion
      [ControlKnobNonReclaimedCPURequirement \<mapsto> 20] = \<lparr>Size = 12, Quota = - 1\<rparr>"
    unfolding passThroughEnv_def by (rule scenario3_entry(2))
  from g [of True] g [of False] have
    "(case fst (AssembleProvision (passThroughEnv True) scenario3) of
        Inl err \<Rightarrow> False
      | Inr result \<Rightarrow> GetPoolEntry result PoolNameReclaim 0 = Some \<lparr>Size = 32, Quota = 12\<rparr>)"
    "(case fst (AssembleProvision (passThroughEnv False) scenario3) of
        Inl err \<Rightarrow> False
      | Inr result \<Rightarrow> GetPoolEntry result PoolNameReclaim 0 = Some \<lparr>Size = 12, Quota = - 1\<rparr>)"
    unfolding h1 h2 by blast+
  with a b c d e show ?thesis by blast
qed

subsection \<open>The two implementations compared\<close>

lemma PoolEntries2_SetPoolEntry2:
  "PoolEntries2 (SetPoolEntry2 p n sz result) k =
     (if k = (p, n) then Some sz else PoolEntries2 result k)"
  by (simp add: SetPoolEntry2_def)

lemma PoolEntries2_setPoolEntries2_other:
  "n \<noteq> numa \<Longrightarrow> PoolEntries2 (setPoolEntries2 sizes n result) (p, numa) = PoolEntries2 result (p, numa)"
  unfolding setPoolEntries2_def
  by (induction sizes arbitrary: result) (auto simp: PoolEntries2_SetPoolEntry2)

lemma scenario3_second:
  "\<exists>result regions.
     AssembleProvision2 (assemblerEnvOf v2 reg regO reg2 mrg srt) scenario3 = (Inr result, regions) \<and>
     PoolEntries2 result (PoolNameReclaim, 0) = Some 18"
  by (simp add: AssembleProvision2_def assembleRegion2_def assembleNonBinding2_def
      scenario3_def dedicatedRegion_def assemblerEnvOf_def Let_def getNUMAsResource_def
      getNumasReservedForReclaim_def knobValue_def go_int_def FakedNUMAID_def
      shareAndIsolatedPoolAvailable2_def PoolEntries2_SetPoolEntry2
      PoolEntries2_setPoolEntries2_other split: prod.splits)

lemma scenario3_first:
  "\<exists>result regions.
     AssembleProvision (assemblerEnvOf False reg regO reg2 mrg srt) scenario3 = (Inr result, regions) \<and>
     GetPoolEntry result PoolNameReclaim 0 = Some \<lparr>Size = 12, Quota = - 1\<rparr>"
proof -
  from scenario3_succeeds obtain result regions where
    ok: "AssembleProvision (assemblerEnvOf False reg regO reg2 mrg srt) scenario3 = (Inr result, regions)"
    by blast
  have "GetPoolEntry result PoolNameReclaim 0 =
      Some (claimedDedicatedEntry (assemblerEnvOf False reg regO reg2 mrg srt) scenario3 dedicatedRegion
              [ControlKnobNonReclaimedCPURequirement \<mapsto> 20])"
    by (rule AssembleProvision_dedicated [OF ok, where rest = "[]"])
       (simp_all add: scenario3_def dedicatedRegion_def FakedNUMAID_def)
  with ok show ?thesis by (simp add: scenario3_entry)
qed

lemma budgets_differ:
  "shareNBAvailable2 pa r =
     shareNBAvailable pa r
       + (if allowSharedCoresOverlapReclaimedCores pa
          then getNUMAsResource (reservedForReclaim pa) (GetBindingNumas r) else 0)"
  "shareAndIsolatedPoolAvailable pa =
     getNUMAsResource (numaAvailable pa) (nonBindingNumas pa)
       - (if allowSharedCoresOverlapReclaimedCores pa then 0
          else getNUMAsResource (reservedForReclaim pa) (nonBindingNumas pa))"
  "shareAndIsolatedPoolAvailable2 pa =
     getNUMAsResource (numaAvailable pa) (nonBindingNumas pa)
       + (if allowSharedCoresOverlapReclaimedCores pa
          then getNUMAsResource (reservedForReclaim pa) (nonBindingNumas pa) else 0)"
  by (simp_all add: shareNBAvailable2_def shareNBAvailable_def shareAndIsolatedPoolAvailable_def
      shareAndIsolatedPoolAvailable2_def)

lemma distributions_differ:
  "sharedOverlapReclaimSize (assemblerEnvOf v2 reg regO reg2 mrg srt)
     [(''share-a'', 6), (''share-b'', 4)] [(''share-a'', 2), (''share-b'', 3)] 0 5
     = Inr ([(''share-a'', 4), (''share-b'', 1)], 5)"
  "sharedOverlapReclaimSize2 [(''share-a'', 6), (''share-b'', 4)] 10 5
     = [(''share-a'', 3), (''share-b'', 2)]"
  "sharedOverlapReclaimSize2 [(''share-b'', 4), (''share-a'', 6)] 10 5
     = [(''share-b'', 2), (''share-a'', 3)]"
  "sharedOverlapReclaimSize2 [(''share-a'', 1), (''share-b'', 1), (''share-c'', 1)] 3 1
     = [(''share-a'', 1)]"
  by (simp_all add: sharedOverlapReclaimSize_def sharedOverlapReclaimSize2_def assemblerEnvOf_def
      SumUpMapValues_def intAt_def go_round_def Let_def)


text \<open>
  Claim C6. The two implementations are not equivalent: on scenario 3 without cgroup v2
  (reclaim enabled, overlap not allowed), for any choice of the functions whose sources are
  missing, the first gives the reclaim pool of NUMA 0 the size 12 and the second the size 18. (i) With overlap allowed the second adds
  the reservation for reclaim to the budget of a NUMA-binding share region and to the budget
  of the non-binding NUMAs, and the first does not. (ii) For two share pools of sizes 6 and
  4 with requirements 2 and 3 and a reclaim pool of 5, the first lends size minus
  requirement per pool (4 and 1) and the second the rounded proportional shares (3 and 2),
  in whichever order the pools are sorted; the last equation shows the residual going to
  the first pool of the sorted slice.
\<close>

theorem two_implementations_not_equivalent:
  "(\<exists>result1 regions1 result2 regions2.
      AssembleProvision (assemblerEnvOf False reg regO reg2 mrg srt) scenario3 = (Inr result1, regions1) \<and>
      AssembleProvision2 (assemblerEnvOf False reg regO reg2 mrg srt) scenario3 = (Inr result2, regions2) \<and>
      map_option Size (GetPoolEntry result1 PoolNameReclaim 0) = Some 12 \<and>
      PoolEntries2 result2 (PoolNameReclaim, 0) = Some 18) \<and>
   shareNBAvailable2 pa r =
     shareNBAvailable pa r
       + (if allowSharedCoresOverlapReclaimedCores pa
          then getNUMAsResource (reservedForReclaim pa) (GetBindingNumas r) else 0) \<and>
   shareAndIsolatedPoolAvailable pa =
     getNUMAsResource (numaAvailable pa) (nonBindingNumas pa)
       - (if allowSharedCoresOverlapReclaimedCores pa then 0
          else getNUMAsResource (reservedForReclaim pa) (nonBindingNumas pa)) \<and>
   shareAndIsolatedPoolAvailable2 pa =
     getNUMAsResource (numaAvailable pa) (nonBindingNumas pa)
       + (if allowSharedCoresOverlapReclaimedCores pa
          then getNUMAsResource (reservedForReclaim pa) (nonBindingNumas pa) else 0) \<and>
   sharedOverlapReclaimSize (assemblerEnvOf v2 reg regO reg2 mrg srt)
     [(''share-a'', 6), (''share-b'', 4)] [(''share-a'', 2), (''share-b'', 3)] 0 5
     = Inr ([(''share-a'', 4), (''share-b'', 1)], 5) \<and>
   sharedOverlapReclaimSize2 [(''share-a'', 6), (''share-b'', 4)] 10 5
     = [(''share-a'', 3), (''share-b'', 2)] \<and>
   sharedOverlapReclaimSize2 [(''share-b'', 4), (''share-a'', 6)] 10 5
     = [(''share-b'', 2), (''share-a'', 3)] \<and>
   sharedOverlapReclaimSize2 [(''share-a'', 1), (''share-b'', 1), (''share-c'', 1)] 3 1
     = [(''share-a'', 1)]"
proof -
  from scenario3_first [of reg regO reg2 mrg srt] scenario3_second [of False reg regO reg2 mrg srt]
  have "\<exists>result1 regions1 result2 regions2.
      AssembleProvision (assemblerEnvOf False reg regO reg2 mrg srt) scenario3 = (Inr result1, regions1) \<and>
      AssembleProvision2 (assemblerEnvOf False reg regO reg2 mrg srt) scenario3 = (Inr result2, regions2) \<and>
      map_option Size (GetPoolEntry result1 PoolNameReclaim 0) = Some 12 \<and>
      PoolEntries2 result2 (PoolNameReclaim, 0) = Some 18"
    by force
  then show ?thesis
    by (intro conjI)
       (assumption, rule budgets_differ, rule budgets_differ, rule budgets_differ,
        rule distributions_differ, rule distributions_differ, rule distributions_differ,
        rule distributions_differ)
qed

section \<open>The memory plugin checkpoint (checkpoint.go)\<close>

text \<open>
  The checkpoint, with the types of the machine state and of the pod entries left open. The
  JSON encoder and decoder and the checksum of package \<^verbatim>\<open>checksum\<close> are library
  functions, taken as given.
\<close>

record ('m, 'p) MemoryPluginCheckpoint =
  PolicyName :: string
  MachineState :: 'm
  NUMAHeadroom :: "(int \<times> int) list"
  PodResourceEntries :: 'p
  SocketTopology :: "(int \<times> string) list"
  Checksum :: nat

record ('m, 'p) checkpointLib =
  jsonMarshal :: "('m, 'p) MemoryPluginCheckpoint \<Rightarrow> string"
  jsonUnmarshal ::
    "string \<Rightarrow> ('m, 'p) MemoryPluginCheckpoint \<Rightarrow> error + ('m, 'p) MemoryPluginCheckpoint"
  checksumNew :: "('m, 'p) MemoryPluginCheckpoint \<Rightarrow> nat"

text \<open>\<^verbatim>\<open>MarshalCheckpoint\<close>: the bytes, and the checkpoint with its checksum written.\<close>

definition MarshalCheckpoint ::
  "('m, 'p) checkpointLib \<Rightarrow> ('m, 'p) MemoryPluginCheckpoint
     \<Rightarrow> string \<times> ('m, 'p) MemoryPluginCheckpoint" where
  "MarshalCheckpoint lib cp =
     (let cp0 = cp\<lparr>Checksum := 0\<rparr>;
          cp1 = cp0\<lparr>Checksum := checksumNew lib cp0\<rparr>
      in (jsonMarshal lib cp1, cp1))"

definition UnmarshalCheckpoint ::
  "('m, 'p) checkpointLib \<Rightarrow> string \<Rightarrow> ('m, 'p) MemoryPluginCheckpoint
     \<Rightarrow> error + ('m, 'p) MemoryPluginCheckpoint" where
  "UnmarshalCheckpoint lib blob cp = jsonUnmarshal lib blob cp"

text \<open>
  \<^verbatim>\<open>VerifyChecksum\<close>: the checksum is compared with that of the checkpoint with a zero
  checksum; the checkpoint is left as it was.
\<close>

definition VerifyChecksum ::
  "('m, 'p) checkpointLib \<Rightarrow> ('m, 'p) MemoryPluginCheckpoint \<Rightarrow> error option" where
  "VerifyChecksum lib cp =
     (if Checksum cp = checksumNew lib (cp\<lparr>Checksum := 0\<rparr>) then None
      else Some (Error ''checkpoint is corrupted''))"

text \<open>
  What the code itself ensures, whatever the libraries do: the checksum is taken with the
  field zeroed, so it verifies on the checkpoint just marshalled, and marshalling that
  checkpoint again gives the same bytes. What happens across decoding depends on the JSON
  library.
\<close>

lemma MarshalCheckpoint_checksum:
  "Checksum (snd (MarshalCheckpoint lib cp)) = checksumNew lib (cp\<lparr>Checksum := 0\<rparr>)"
  by (simp add: MarshalCheckpoint_def Let_def)

lemma MarshalCheckpoint_verifies:
  "VerifyChecksum lib (snd (MarshalCheckpoint lib cp)) = None"
  by (simp add: MarshalCheckpoint_def VerifyChecksum_def Let_def)

lemma MarshalCheckpoint_again:
  "MarshalCheckpoint lib (snd (MarshalCheckpoint lib cp)) = MarshalCheckpoint lib cp"
  by (simp add: MarshalCheckpoint_def Let_def)

end
